theory Spec2Isabelle
  imports Main "HOL-Library.Sublist"
begin

section \<open>The JSON document model\<close>

text \<open>
  The generator works on the in-memory document of the JSON library, not on text.
  An object is a sorted map from keys to values in the library; the model lists its
  members in iteration order (key order, keys pairwise distinct) and looks a key up
  with \<open>map_of\<close>. The number payloads are never inspected by the program.
\<close>

datatype json =
    JNull
  | JBoolean bool
  | JNumberInteger int
  | JNumberUnsigned nat
  | JNumberFloat int int
  | JString string
  | JArray "json list"
  | JObject "(string \<times> json) list"

datatype value_t =
    t_null | t_object | t_array | t_string | t_boolean
  | t_number_integer | t_number_unsigned | t_number_float

fun json_type :: "json \<Rightarrow> value_t" where
  "json_type JNull = t_null"
| "json_type (JBoolean b) = t_boolean"
| "json_type (JNumberInteger i) = t_number_integer"
| "json_type (JNumberUnsigned n) = t_number_unsigned"
| "json_type (JNumberFloat m e) = t_number_float"
| "json_type (JString s) = t_string"
| "json_type (JArray xs) = t_array"
| "json_type (JObject kvs) = t_object"

text \<open>
  How a run can stop: a \<open>std::runtime_error\<close> thrown by the program with its message,
  a \<open>type_error\<close> exception of the JSON library with its number (302: \<open>get\<close> on a value
  of another type, 305: \<open>operator[]\<close> with a key on a value that is not an object), and
  the failed assertion of the read-only \<open>operator[]\<close> on an object without the key.
\<close>

datatype error =
    runtime_error string
  | type_error nat
  | assertion_failed

definition TAB :: string where
  "TAB = [CHR 0x09]"

definition DQ :: string where
  "DQ = [CHR 0x22]"

text \<open>\<open>std::to_string\<close> and the \<open>{}\<close> format of an unsigned integer: decimal digits.\<close>

fun to_string :: "nat \<Rightarrow> string" where
  "to_string n =
     (if n < 10 then [''0123456789'' ! n]
      else to_string (n div 10) @ [''0123456789'' ! (n mod 10)])"

declare to_string.simps [simp del]

text \<open>\<open>j.find(key)\<close>: the member of an object, \<open>end()\<close> on anything else.\<close>

fun find_key :: "json \<Rightarrow> string \<Rightarrow> json option" where
  "find_key (JObject kvs) k = map_of kvs k"
| "find_key _ k = None"

definition contains :: "json \<Rightarrow> string \<Rightarrow> bool" where
  "contains j k = (find_key j k \<noteq> None)"

text \<open>
  \<open>operator[]\<close> on a constant reference (the \<open>val\<close> of the language loop).
\<close>

fun subscript_const :: "json \<Rightarrow> string \<Rightarrow> error + json" where
  "subscript_const (JObject kvs) k =
     (case map_of kvs k of Some v \<Rightarrow> Inr v | None \<Rightarrow> Inl assertion_failed)"
| "subscript_const _ k = Inl (type_error 305)"

text \<open>
  \<open>operator[]\<close> on a mutable reference. The options document \<open>j\<close> is one, and so are
  the values bound by the structured bindings over \<open>items()\<close> of the mutable content
  document (the binding refers to what \<open>value()\<close> returns, a \<open>json&\<close>, also under
  \<open>auto const&\<close>). A missing key is inserted with the value null, and null itself first
  becomes an empty object. The inserted member is never read again: the \<open>get\<close> that
  follows throws on null. A field that is missing or is not a string stops the run in
  either reading of the reference; only the kind of the error differs.
\<close>

fun subscript :: "json \<Rightarrow> string \<Rightarrow> error + json" where
  "subscript (JObject kvs) k =
     (case map_of kvs k of Some v \<Rightarrow> Inr v | None \<Rightarrow> Inr JNull)"
| "subscript JNull k = Inr JNull"
| "subscript _ k = Inl (type_error 305)"

fun get_string :: "json \<Rightarrow> error + string" where
  "get_string (JString s) = Inr s"
| "get_string _ = Inl (type_error 302)"

fun get_bool :: "json \<Rightarrow> error + bool" where
  "get_bool (JBoolean b) = Inr b"
| "get_bool _ = Inl (type_error 302)"

text \<open>
  \<open>items()\<close>: the members of an object with their keys, the elements of an array with
  their positions as keys, nothing for null, and any other value once under the empty key.
\<close>

fun items :: "json \<Rightarrow> (string \<times> json) list" where
  "items (JObject kvs) = kvs"
| "items (JArray xs) = zip (map to_string [0..<length xs]) xs"
| "items JNull = []"
| "items v = [([], v)]"

section \<open>Options\<close>

record AppOptions =
  pch :: string
  ns :: string
  languageEnum :: string
  headerFiles :: "string list"
  chatMessageType :: string
  useCompileMacro :: bool
  usePragmaOnce :: bool

definition defaultAppOptions :: AppOptions where
  "defaultAppOptions =
     \<lparr> pch = [], ns = [], languageEnum = [], headerFiles = [],
       chatMessageType = ''constexpr auto'',
       useCompileMacro = True, usePragmaOnce = True \<rparr>"

text \<open>The message of the \<open>READ_OPTION\<close> macro, with the stringified JSON type.\<close>

definition option_type_message :: "string \<Rightarrow> string \<Rightarrow> string" where
  "option_type_message JsonName JsonType =
     ''Could not parse options file - '' @ DQ @ JsonName @ DQ
       @ '' value is not a '' @ JsonType @ ''.''"

definition headerFiles_message :: string where
  "headerFiles_message =
     ''Could not parse options file - '' @ DQ @ ''headerFiles'' @ DQ
       @ '' field not exists or is not an array.''"

text \<open>
  \<open>READ_OPTION\<close> (lines 277 to 284) at type \<open>bool\<close> and at type \<open>std::string\<close>: the
  current value of the field goes in, the value after the macro comes out.
\<close>

definition read_bool_option :: "json \<Rightarrow> string \<Rightarrow> bool \<Rightarrow> error + bool" where
  "read_bool_option j JsonName cur =
     (if contains j JsonName then
        (case subscript j JsonName of
           Inl e \<Rightarrow> Inl e
         | Inr val \<Rightarrow>
             if json_type val \<noteq> t_boolean
             then Inl (runtime_error (option_type_message JsonName ''boolean''))
             else get_bool val)
      else Inr cur)"

definition read_string_option :: "json \<Rightarrow> string \<Rightarrow> string \<Rightarrow> error + string" where
  "read_string_option j JsonName cur =
     (if contains j JsonName then
        (case subscript j JsonName of
           Inl e \<Rightarrow> Inl e
         | Inr val \<Rightarrow>
             if json_type val \<noteq> t_string
             then Inl (runtime_error (option_type_message JsonName ''string''))
             else get_string val)
      else Inr cur)"

text \<open>The loop over the header array: only strings are appended.\<close>

fun push_headers :: "string list \<Rightarrow> json list \<Rightarrow> string list" where
  "push_headers hs [] = hs"
| "push_headers hs (v # vs) =
     (case v of
        JString s \<Rightarrow> push_headers (hs @ [s]) vs
      | _ \<Rightarrow> push_headers hs vs)"

definition read_headerFiles :: "json \<Rightarrow> string list \<Rightarrow> error + string list" where
  "read_headerFiles j cur =
     (case find_key j ''headerFiles'' of
        None \<Rightarrow> Inr cur
      | Some h \<Rightarrow>
          if json_type h \<noteq> t_array then Inl (runtime_error headerFiles_message)
          else Inr (push_headers cur (map snd (items h))))"

definition readAppOptions :: "AppOptions \<Rightarrow> json \<Rightarrow> error + AppOptions" where
  "readAppOptions opts j =
     (if json_type j \<noteq> t_object
      then Inl (runtime_error ''Could not parse options file - value is not an object.'')
      else
        (case read_bool_option j ''useCompileMacro'' (useCompileMacro opts) of
          Inl e \<Rightarrow> Inl e
        | Inr ucm \<Rightarrow>
        (case read_bool_option j ''usePragmaOnce'' (usePragmaOnce opts) of
          Inl e \<Rightarrow> Inl e
        | Inr upo \<Rightarrow>
        (case read_string_option j ''languageEnum'' (languageEnum opts) of
          Inl e \<Rightarrow> Inl e
        | Inr le \<Rightarrow>
        (case read_string_option j ''pch'' (pch opts) of
          Inl e \<Rightarrow> Inl e
        | Inr p \<Rightarrow>
        (case read_string_option j ''namespace'' (ns opts) of
          Inl e \<Rightarrow> Inl e
        | Inr n \<Rightarrow>
        (case read_string_option j ''chatMessageType'' (chatMessageType opts) of
          Inl e \<Rightarrow> Inl e
        | Inr cmt \<Rightarrow>
        (case read_headerFiles j (headerFiles opts) of
          Inl e \<Rightarrow> Inl e
        | Inr hs \<Rightarrow>
            Inr (opts\<lparr> useCompileMacro := ucm, usePragmaOnce := upo, languageEnum := le,
                       pch := p, ns := n, chatMessageType := cmt,
                       headerFiles := hs \<rparr>)))))))))"

section \<open>The language table\<close>

type_synonym LangMap = "string \<rightharpoonup> string"

text \<open>
  \<open>langs[id]\<close> on the \<open>std::map\<close>: the stored name, and for a key that is not there a
  new entry with the empty name, which is returned.
\<close>

definition lang_subscript :: "LangMap \<Rightarrow> string \<Rightarrow> string \<times> LangMap" where
  "lang_subscript langs k =
     (case langs k of
        Some name \<Rightarrow> (name, langs)
      | None \<Rightarrow> ([], langs(k \<mapsto> [])))"

fun readLanguages :: "LangMap \<Rightarrow> json list \<Rightarrow> error + LangMap" where
  "readLanguages langs [] = Inr langs"
| "readLanguages langs (val # rest) =
     (if json_type val \<noteq> t_object
      then Inl (runtime_error
             ''Could not parse JSON file - language content is not an object.'')
      else
        (case subscript_const val ''id'' of Inl e \<Rightarrow> Inl e | Inr vid \<Rightarrow>
        (case get_string vid of Inl e \<Rightarrow> Inl e | Inr lid \<Rightarrow>
        (case subscript_const val ''name'' of Inl e \<Rightarrow> Inl e | Inr vname \<Rightarrow>
        (case get_string vname of Inl e \<Rightarrow> Inl e | Inr name \<Rightarrow>
          readLanguages (langs(lid \<mapsto> name)) rest)))))"

section \<open>Rendering one message\<close>

text \<open>
  The variables of the loop over the variants of one message (\<open>Main.cpp\<close>, lines 155 to
  185), with the language table, which the loop reads through \<open>operator[]\<close>.
  \<open>langIndex\<close> is a \<open>size_t\<close>; it counts the members of a container in memory and
  cannot wrap. \<open>renderVariant\<close> is one pass through the body of the loop,
  \<open>renderVariants\<close> the loop.
\<close>

record render_state =
  langs :: LangMap
  comment :: string
  langContent :: string
  langIndex :: nat

definition renderVariant ::
  "AppOptions \<Rightarrow> render_state \<Rightarrow> string \<times> json \<Rightarrow> error + render_state" where
  "renderVariant opts st v =
     (let langId = fst v; msgContent = snd v in
      case (if comment st = []
            then (case subscript msgContent ''comment'' of
                    Inl e \<Rightarrow> Inl e | Inr c \<Rightarrow> get_string c)
            else Inr (comment st)) of
        Inl e \<Rightarrow> Inl e
      | Inr cmt \<Rightarrow>
          let lc1 = langContent st @ TAB @ TAB @ ''result['';
              (lc2, langs') =
                (if languageEnum opts = []
                 then (lc1 @ to_string (langIndex st), langs st)
                 else
                   let (name, langs') = lang_subscript (langs st) langId
                   in (lc1 @ ''static_cast<int>('' @ languageEnum opts @ ''::'' @ name @ '')'',
                       langs'));
              lc3 = lc2 @ ''] = '';
              lc4 = (if useCompileMacro opts then lc3 @ ''FMT_COMPILE('' else lc3);
              lc5 = lc4 @ DQ
          in
            (case (case subscript msgContent ''processed'' of
                     Inl e \<Rightarrow> Inl e | Inr p \<Rightarrow> get_string p) of
               Inl e \<Rightarrow> Inl e
             | Inr processed \<Rightarrow>
                 let lc6 = lc5 @ processed @ DQ;
                     lc7 = (if useCompileMacro opts then lc6 @ '')'' else lc6);
                     lc8 = lc7 @ '';\<newline>''
                 in Inr \<lparr> langs = langs', comment = cmt, langContent = lc8,
                           langIndex = langIndex st + 1 \<rparr>))"

fun renderVariants ::
  "AppOptions \<Rightarrow> render_state \<Rightarrow> (string \<times> json) list \<Rightarrow> error + render_state" where
  "renderVariants opts st [] = Inr st"
| "renderVariants opts st (v # vs) =
     (case renderVariant opts st v of
        Inl e \<Rightarrow> Inl e
      | Inr st' \<Rightarrow> renderVariants opts st' vs)"

text \<open>The \<open>fmt::format_to\<close> call with its four arguments (lines 187 to 206).\<close>

definition formatBlock :: "string \<Rightarrow> nat \<Rightarrow> string \<Rightarrow> string \<Rightarrow> string" where
  "formatBlock cmt n lc uniqueName =
     ''// '' @ DQ @ cmt @ DQ @ ''\<newline>''
     @ ''class \<newline>'' @ TAB @ '': public internal::ChatMessageBase\<newline>''
     @ ''{\<newline>''
     @ TAB @ ''static constexpr auto generateContent = []\<newline>'' @ TAB @ ''{\<newline>''
     @ TAB @ TAB @ ''std::array<std::string_view, '' @ to_string n @ ''> result;\<newline>''
     @ lc
     @ TAB @ TAB @ ''return result;\<newline>''
     @ TAB @ ''};\<newline>''
     @ ''public:\<newline>''
     @ TAB @ ''static constexpr auto text = generateContent();\<newline>''
     @ ''} inline constexpr '' @ uniqueName @ '';\<newline>\<newline>''"

text \<open>
  The body of the loop over \<open>chatMessages\<close> for one entry (lines 146 to 208): the
  language table and the text rendered so far go in and come out. An entry that is
  skipped leaves both as they are. \<open>is_message\<close> is the negation of the two tests
  that skip an entry.
\<close>

definition is_message :: "json \<Rightarrow> bool" where
  "is_message val =
     (json_type val = t_object \<and> contains val ''uniqueName'' \<and> contains val ''content'')"

definition renderMessage ::
  "AppOptions \<Rightarrow> LangMap \<times> string \<Rightarrow> json \<Rightarrow> error + LangMap \<times> string" where
  "renderMessage opts acc val =
     (let (lg, chatContent) = acc in
      if json_type val \<noteq> t_object then Inr acc
      else if \<not> contains val ''uniqueName'' \<or> \<not> contains val ''content'' then Inr acc
      else
        (case (case subscript val ''uniqueName'' of
                 Inl e \<Rightarrow> Inl e | Inr u \<Rightarrow> get_string u) of
           Inl e \<Rightarrow> Inl e
         | Inr uniqueName \<Rightarrow>
        (case subscript val ''content'' of
           Inl e \<Rightarrow> Inl e
         | Inr content \<Rightarrow>
        (case renderVariants opts
                \<lparr> langs = lg, comment = [], langContent = [], langIndex = 0 \<rparr>
                (items content) of
           Inl e \<Rightarrow> Inl e
         | Inr st \<Rightarrow>
             Inr (langs st,
                  chatContent
                    @ formatBlock (comment st) (langIndex st) (langContent st)
                        uniqueName)))))"

fun renderMessages ::
  "AppOptions \<Rightarrow> LangMap \<times> string \<Rightarrow> json list \<Rightarrow> error + LangMap \<times> string" where
  "renderMessages opts acc [] = Inr acc"
| "renderMessages opts acc (val # rest) =
     (case renderMessage opts acc val of
        Inl e \<Rightarrow> Inl e
      | Inr acc' \<Rightarrow> renderMessages opts acc' rest)"

section \<open>The whole document\<close>

text \<open>
  The first block of \<open>parseChatJson\<close> (lines 116 to 210): the language table is built
  from \<open>languages\<close>, then \<open>chatContent\<close> is rendered from \<open>chatMessages\<close>. The table
  is a local variable; \<open>chatContentOf\<close> returns it beside the text, so that what
  rendering does to it can be stated.
\<close>

definition buildLanguages :: "json \<Rightarrow> error + LangMap" where
  "buildLanguages j =
     (case find_key j ''languages'' of
        None \<Rightarrow> Inl (runtime_error
          (''Could not parse JSON file - '' @ DQ @ ''languages'' @ DQ
             @ '' value is not an array.''))
      | Some ls \<Rightarrow>
          if json_type ls \<noteq> t_array
          then Inl (runtime_error
            (''Could not parse JSON file - '' @ DQ @ ''languages'' @ DQ
               @ '' value is not an array.''))
          else readLanguages Map.empty (map snd (items ls)))"

definition readChatMessages ::
  "AppOptions \<Rightarrow> LangMap \<Rightarrow> json \<Rightarrow> error + LangMap \<times> string" where
  "readChatMessages opts lg j =
     (case find_key j ''chatMessages'' of
        None \<Rightarrow> Inl (runtime_error
          (''Could not parse JSON file - '' @ DQ @ ''chatMessages'' @ DQ
             @ '' field not exists or is not an array.''))
      | Some ms \<Rightarrow>
          if json_type ms \<noteq> t_array
          then Inl (runtime_error
            (''Could not parse JSON file - '' @ DQ @ ''chatMessages'' @ DQ
               @ '' field not exists or is not an array.''))
          else renderMessages opts (lg, []) (map snd (items ms)))"

definition chatContentOf :: "AppOptions \<Rightarrow> json \<Rightarrow> error + LangMap \<times> string" where
  "chatContentOf opts j =
     (if json_type j \<noteq> t_object
      then Inl (runtime_error ''Could not parse JSON file - value is not an object.'')
      else
        (case buildLanguages j of
           Inl e \<Rightarrow> Inl e
         | Inr lg \<Rightarrow> readChatMessages opts lg j))"

text \<open>
  The second half of \<open>parseChatJson\<close> (lines 212 to 252): the output around
  \<open>chatContent\<close>.
\<close>

fun appendHeaderFiles :: "string \<Rightarrow> string list \<Rightarrow> string" where
  "appendHeaderFiles out [] = out"
| "appendHeaderFiles out (headerFile # rest) =
     appendHeaderFiles (out @ ''#include '' @ headerFile @ ''\<newline>'') rest"

definition assembleOutput :: "AppOptions \<Rightarrow> string \<Rightarrow> string" where
  "assembleOutput opts chatContent =
     (let out0 = [];
          out1 = (if usePragmaOnce opts then out0 @ ''#pragma once\<newline>\<newline>'' else out0);
          out2 = (if pch opts \<noteq> [] then out1 @ ''#include '' @ pch opts @ ''\<newline>'' else out1);
          out3 = appendHeaderFiles out2 (headerFiles opts);
          out4 = out3 @ ''\<newline>\<newline>'';
          out5 = (if ns opts \<noteq> [] then out4 @ ''namespace '' @ ns opts @ ''\<newline>{\<newline>\<newline>''
                  else out4);
          out6 = out5 @ ''namespace internal {\<newline>struct ChatMessageBase {};\<newline>}\<newline>\<newline>'';
          out7 = out6 @ chatContent;
          out8 = (if ns opts \<noteq> [] then out7 @ ''\<newline>}\<newline>'' else out7)
      in out8)"

definition parseChatJson :: "AppOptions \<Rightarrow> json \<Rightarrow> error + string" where
  "parseChatJson opts j =
     (case chatContentOf opts j of
        Inl e \<Rightarrow> Inl e
      | Inr (lg, chatContent) \<Rightarrow> Inr (assembleOutput opts chatContent))"

text \<open>
  The end of \<open>main\<close>, once the three files are open: the options are read into a
  default-constructed record, and what \<open>parseChatJson\<close> returns is written out.
\<close>

definition run :: "json \<Rightarrow> json \<Rightarrow> error + string" where
  "run optionsDoc contentDoc =
     (case readAppOptions defaultAppOptions optionsDoc of
        Inl e \<Rightarrow> Inl e
      | Inr opts \<Rightarrow> parseChatJson opts contentDoc)"

section \<open>What a successful run has rendered\<close>

text \<open>
  The functions of this section are not in the source: they describe, without state and
  without failure, the text that the loops above leave behind, and the theorems below
  prove that the loops compute exactly this.
\<close>

definition has_string :: "json \<Rightarrow> string \<Rightarrow> bool" where
  "has_string j k = (case subscript j k of Inr (JString s) \<Rightarrow> True | _ \<Rightarrow> False)"

definition string_of :: "json \<Rightarrow> string \<Rightarrow> string" where
  "string_of j k = (case subscript j k of Inr (JString s) \<Rightarrow> s | _ \<Rightarrow> [])"

text \<open>\<open>j[k].get<std::string>()\<close> on a mutable reference.\<close>

definition string_field :: "json \<Rightarrow> string \<Rightarrow> error + string" where
  "string_field j k = (case subscript j k of Inl e \<Rightarrow> Inl e | Inr c \<Rightarrow> get_string c)"

definition variants_of :: "json \<Rightarrow> (string \<times> json) list" where
  "variants_of val = (case subscript val ''content'' of Inr c \<Rightarrow> items c | Inl e \<Rightarrow> [])"

definition name_of :: "LangMap \<Rightarrow> string \<Rightarrow> string" where
  "name_of lg k = (case lg k of Some name \<Rightarrow> name | None \<Rightarrow> [])"

definition first_nonempty_comment :: "(string \<times> json) list \<Rightarrow> string" where
  "first_nonempty_comment vs =
     (case find (\<lambda>v. string_of (snd v) ''comment'' \<noteq> []) vs of
        Some v \<Rightarrow> string_of (snd v) ''comment''
      | None \<Rightarrow> [])"

definition literal :: "bool \<Rightarrow> string \<Rightarrow> string" where
  "literal wrap processed =
     (if wrap then ''FMT_COMPILE('' @ DQ @ processed @ DQ @ '')''
      else DQ @ processed @ DQ)"

definition index_expr :: "AppOptions \<Rightarrow> LangMap \<Rightarrow> nat \<Rightarrow> string \<Rightarrow> string" where
  "index_expr opts lg i k =
     (if languageEnum opts = [] then to_string i
      else ''static_cast<int>('' @ languageEnum opts @ ''::'' @ name_of lg k @ '')'')"

definition assignment :: "AppOptions \<Rightarrow> LangMap \<Rightarrow> nat \<times> string \<times> json \<Rightarrow> string" where
  "assignment opts lg iv =
     TAB @ TAB @ ''result['' @ index_expr opts lg (fst iv) (fst (snd iv)) @ ''] = ''
       @ literal (useCompileMacro opts) (string_of (snd (snd iv)) ''processed'')
       @ '';\<newline>''"

definition messageBlock :: "AppOptions \<Rightarrow> LangMap \<Rightarrow> json \<Rightarrow> string" where
  "messageBlock opts lg val =
     formatBlock (first_nonempty_comment (variants_of val)) (length (variants_of val))
       (concat (map (assignment opts lg) (enumerate 0 (variants_of val))))
       (string_of val ''uniqueName'')"

definition chatMessages_of :: "json \<Rightarrow> json list" where
  "chatMessages_of j =
     (case find_key j ''chatMessages'' of Some (JArray entries) \<Rightarrow> entries | _ \<Rightarrow> [])"

text \<open>
  The fields that \<open>readAppOptions\<close> recognises, in the order of its checks, each with
  the JSON type it expects, and the message thrown when the type is another one.
\<close>

definition option_fields :: "(string \<times> value_t) list" where
  "option_fields =
     [(''useCompileMacro'', t_boolean), (''usePragmaOnce'', t_boolean),
      (''languageEnum'', t_string), (''pch'', t_string), (''namespace'', t_string),
      (''chatMessageType'', t_string), (''headerFiles'', t_array)]"

definition mismatched :: "json \<Rightarrow> string \<times> value_t \<Rightarrow> bool" where
  "mismatched j f =
     (case find_key j (fst f) of Some v \<Rightarrow> json_type v \<noteq> snd f | None \<Rightarrow> False)"

definition mismatch_message :: "string \<times> value_t \<Rightarrow> string" where
  "mismatch_message f =
     (if snd f = t_boolean then option_type_message (fst f) ''boolean''
      else if snd f = t_string then option_type_message (fst f) ''string''
      else headerFiles_message)"

text \<open>
  The value of an option after a load without failure: the member of the options document
  when there is one, the value the field had when there is none.
\<close>

definition bool_option_value :: "json \<Rightarrow> string \<Rightarrow> bool \<Rightarrow> bool" where
  "bool_option_value j name cur =
     (case find_key j name of Some (JBoolean b) \<Rightarrow> b | _ \<Rightarrow> cur)"

definition string_option_value :: "json \<Rightarrow> string \<Rightarrow> string \<Rightarrow> string" where
  "string_option_value j name cur =
     (case find_key j name of Some (JString s) \<Rightarrow> s | _ \<Rightarrow> cur)"

definition headerFiles_value :: "json \<Rightarrow> string list \<Rightarrow> string list" where
  "headerFiles_value j cur =
     (case find_key j ''headerFiles'' of Some (JArray vs) \<Rightarrow> push_headers cur vs | _ \<Rightarrow> cur)"



section \<open>Example documents\<close>

text \<open>A message whose first variant has an empty comment and whose second has one.\<close>

definition two_comments :: json where
  "two_comments =
     JObject [(''content'', JObject
                 [(''de'', JObject [(''comment'', JString []),
                                    (''processed'', JString ''Hallo'')]),
                  (''en'', JObject [(''comment'', JString ''b''),
                                    (''processed'', JString ''Hi'')])]),
              (''uniqueName'', JString ''Greeting'')]"

definition two_comments_lines :: string where
  "two_comments_lines =
     TAB @ TAB @ ''result[0] = FMT_COMPILE('' @ DQ @ ''Hallo'' @ DQ @ '');\<newline>''
     @ TAB @ TAB @ ''result[1] = FMT_COMPILE('' @ DQ @ ''Hi'' @ DQ @ '');\<newline>''"

text \<open>A message with a comment in each of its two variants.\<close>

definition two_languages :: json where
  "two_languages =
     JObject [(''content'', JObject
                 [(''de'', JObject [(''comment'', JString ''a''),
                                    (''processed'', JString ''Hallo'')]),
                  (''en'', JObject [(''comment'', JString ''b''),
                                    (''processed'', JString ''Hi'')])]),
              (''uniqueName'', JString ''Greeting'')]"

text \<open>
  A content document with one language and four entries under \<open>chatMessages\<close>: a
  message, a string, an object without \<open>content\<close>, and a message without variants.
\<close>

definition no_variants :: json where
  "no_variants = JObject [(''content'', JObject []), (''uniqueName'', JString ''Silent'')]"

definition example_entries :: "json list" where
  "example_entries =
     [two_languages, JString ''note'', JObject [(''uniqueName'', JString ''Lonely'')],
      no_variants]"

definition example_document :: json where
  "example_document =
     JObject [(''chatMessages'', JArray example_entries),
              (''languages'',
               JArray [JObject [(''id'', JString ''en''), (''name'', JString ''English'')]])]"

definition example_table :: LangMap where
  "example_table = [''en'' \<mapsto> ''English'']"

text \<open>Options that index by enum member, and options without the macro.\<close>

definition enum_options :: AppOptions where
  "enum_options = defaultAppOptions \<lparr> languageEnum := ''Lang'' \<rparr>"

text \<open>
  An options document with a namespace, a precompiled header and a header array that
  holds a number between two strings, and the options that are read from it.
\<close>

definition options_document :: json where
  "options_document =
     JObject [(''headerFiles'',
               JArray [JString ''<array>'', JNumberInteger 3, JString ''<string_view>'']),
              (''namespace'', JString ''chat_txt''),
              (''pch'', JString ''PROJECT_PCH'')]"

definition example_options :: AppOptions where
  "example_options =
     defaultAppOptions \<lparr> pch := ''PROJECT_PCH'', ns := ''chat_txt'',
                         headerFiles := [''<array>'', ''<string_view>''] \<rparr>"

text \<open>An options document with a string where a boolean is expected.\<close>

definition malformed_options :: json where
  "malformed_options = JObject [(''useCompileMacro'', JString ''yes'')]"

text \<open>Options without the macro.\<close>

definition plain_options :: AppOptions where
  "plain_options = defaultAppOptions \<lparr> useCompileMacro := False \<rparr>"

definition two_languages_plain_lines :: string where
  "two_languages_plain_lines =
     TAB @ TAB @ ''result[0] = '' @ DQ @ ''Hallo'' @ DQ @ '';\<newline>''
     @ TAB @ TAB @ ''result[1] = '' @ DQ @ ''Hi'' @ DQ @ '';\<newline>''"

text \<open>The number that a string of decimal digits denotes.\<close>

definition decimal_value :: "string \<Rightarrow> nat" where
  "decimal_value s = foldl (\<lambda>a c. 10 * a + (of_char c - 48)) 0 s"


text \<open>An options document with two fields of the wrong type.\<close>

definition two_mismatches :: json where
  "two_mismatches =
     JObject [(''pch'', JNumberInteger 1), (''useCompileMacro'', JString ''x'')]"

section \<open>The loops compute the closed forms\<close>

subsection \<open>One variant, then all variants of a message\<close>


lemma fst_lang_subscript: "fst (lang_subscript lg k) = name_of lg k"
  by (simp add: lang_subscript_def name_of_def split: option.splits)

lemma name_of_lang_subscript: "name_of (snd (lang_subscript lg k)) = name_of lg"
  by (rule ext) (simp add: lang_subscript_def name_of_def split: option.splits)

lemma renderVariant_eq:
  "renderVariant opts st v =
     (case (if comment st = [] then string_field (snd v) ''comment'' else Inr (comment st)) of
        Inl e \<Rightarrow> Inl e
      | Inr cmt \<Rightarrow>
          (case string_field (snd v) ''processed'' of
             Inl e \<Rightarrow> Inl e
           | Inr p \<Rightarrow>
               Inr \<lparr> langs = (if languageEnum opts = [] then langs st
                                else snd (lang_subscript (langs st) (fst v))),
                      comment = cmt,
                      langContent = langContent st @ TAB @ TAB @ ''result[''
                        @ index_expr opts (langs st) (langIndex st) (fst v) @ ''] = ''
                        @ literal (useCompileMacro opts) p @ '';\<newline>'',
                      langIndex = Suc (langIndex st) \<rparr>))"
  by (simp add: renderVariant_def string_field_def Let_def index_expr_def literal_def
        fst_lang_subscript [symmetric] split: sum.splits prod.splits)


lemma string_field_Inr:
  "string_field j k = Inr s \<longleftrightarrow> has_string j k \<and> s = string_of j k"
  by (auto simp: string_field_def has_string_def string_of_def split: sum.splits json.splits)

lemma assignment_cong:
  "name_of lg = name_of lg' \<Longrightarrow> assignment opts lg = assignment opts lg'"
  by (rule ext) (simp add: assignment_def index_expr_def)

lemma renderVariant_Inr:
  assumes "renderVariant opts st v = Inr st'"
  shows "langs st' = (if languageEnum opts = [] then langs st
                      else snd (lang_subscript (langs st) (fst v)))"
    and "comment st' = (if comment st = [] then string_of (snd v) ''comment''
                        else comment st)"
    and "langContent st' = langContent st @ assignment opts (langs st) (langIndex st, v)"
    and "langIndex st' = Suc (langIndex st)"
  using assms
  by (auto simp: renderVariant_eq assignment_def string_field_Inr
        split: sum.splits if_splits)

lemma renderVariant_success:
  assumes "comment st = [] \<Longrightarrow> has_string (snd v) ''comment''"
      and "has_string (snd v) ''processed''"
  shows "\<exists>st'. renderVariant opts st v = Inr st'"
proof -
  from assms(2) have p: "string_field (snd v) ''processed''
      = Inr (string_of (snd v) ''processed'')"
    by (simp add: string_field_Inr)
  show ?thesis
  proof (cases "comment st = []")
    case True
    with assms(1) have "string_field (snd v) ''comment'' = Inr (string_of (snd v) ''comment'')"
      by (simp add: string_field_Inr)
    with True p show ?thesis by (simp add: renderVariant_eq)
  next
    case False
    with p show ?thesis by (simp add: renderVariant_eq)
  qed
qed

lemma renderVariant_name_of:
  "renderVariant opts st v = Inr st' \<Longrightarrow> name_of (langs st') = name_of (langs st)"
  by (simp add: renderVariant_Inr(1) name_of_lang_subscript)

lemma renderVariants_langIndex:
  "renderVariants opts st vs = Inr st' \<Longrightarrow> langIndex st' = langIndex st + length vs"
proof (induction vs arbitrary: st)
  case Nil
  then show ?case by simp
next
  case (Cons v vs)
  then obtain st1 where s1: "renderVariant opts st v = Inr st1"
      and r: "renderVariants opts st1 vs = Inr st'"
    by (auto split: sum.splits)
  from Cons.IH [OF r] renderVariant_Inr(4) [OF s1] show ?case by simp
qed

lemma renderVariants_name_of:
  "renderVariants opts st vs = Inr st' \<Longrightarrow> name_of (langs st') = name_of (langs st)"
proof (induction vs arbitrary: st)
  case Nil
  then show ?case by simp
next
  case (Cons v vs)
  then obtain st1 where s1: "renderVariant opts st v = Inr st1"
      and r: "renderVariants opts st1 vs = Inr st'"
    by (auto split: sum.splits)
  from Cons.IH [OF r] renderVariant_name_of [OF s1] show ?case by simp
qed

lemma renderVariants_langContent:
  "renderVariants opts st vs = Inr st' \<Longrightarrow>
     langContent st' = langContent st
       @ concat (map (assignment opts (langs st)) (enumerate (langIndex st) vs))"
proof (induction vs arbitrary: st)
  case Nil
  then show ?case by simp
next
  case (Cons v vs)
  then obtain st1 where s1: "renderVariant opts st v = Inr st1"
      and r: "renderVariants opts st1 vs = Inr st'"
    by (auto split: sum.splits)
  have "assignment opts (langs st1) = assignment opts (langs st)"
    by (rule assignment_cong) (rule renderVariant_name_of [OF s1])
  with Cons.IH [OF r] renderVariant_Inr(3,4) [OF s1] show ?case by simp
qed

lemma first_nonempty_comment_Cons:
  "first_nonempty_comment (v # vs) =
     (if string_of (snd v) ''comment'' \<noteq> [] then string_of (snd v) ''comment''
      else first_nonempty_comment vs)"
  by (simp add: first_nonempty_comment_def)

lemma renderVariants_comment_kept:
  "renderVariants opts st vs = Inr st' \<Longrightarrow> comment st \<noteq> [] \<Longrightarrow> comment st' = comment st"
proof (induction vs arbitrary: st)
  case Nil
  then show ?case by simp
next
  case (Cons v vs)
  then obtain st1 where s1: "renderVariant opts st v = Inr st1"
      and r: "renderVariants opts st1 vs = Inr st'"
    by (auto split: sum.splits)
  from renderVariant_Inr(2) [OF s1] Cons.prems(2) have "comment st1 = comment st" by simp
  with Cons.IH [OF r] Cons.prems(2) show ?case by simp
qed

lemma renderVariants_comment:
  "renderVariants opts st vs = Inr st' \<Longrightarrow> comment st = [] \<Longrightarrow>
     comment st' = first_nonempty_comment vs"
proof (induction vs arbitrary: st)
  case Nil
  then show ?case by (simp add: first_nonempty_comment_def)
next
  case (Cons v vs)
  then obtain st1 where s1: "renderVariant opts st v = Inr st1"
      and r: "renderVariants opts st1 vs = Inr st'"
    by (auto split: sum.splits)
  from renderVariant_Inr(2) [OF s1] Cons.prems(2)
  have c1: "comment st1 = string_of (snd v) ''comment''" by simp
  show ?case
  proof (cases "string_of (snd v) ''comment'' = []")
    case True
    with c1 Cons.IH [OF r] show ?thesis by (simp add: first_nonempty_comment_Cons)
  next
    case False
    with c1 renderVariants_comment_kept [OF r] show ?thesis
      by (simp add: first_nonempty_comment_Cons)
  qed
qed

lemma renderVariants_langs_empty_enum:
  "renderVariants opts st vs = Inr st' \<Longrightarrow> languageEnum opts = [] \<Longrightarrow> langs st' = langs st"
proof (induction vs arbitrary: st)
  case Nil
  then show ?case by simp
next
  case (Cons v vs)
  then obtain st1 where s1: "renderVariant opts st v = Inr st1"
      and r: "renderVariants opts st1 vs = Inr st'"
    by (auto split: sum.splits)
  from Cons.IH [OF r Cons.prems(2)] renderVariant_Inr(1) [OF s1] Cons.prems(2)
  show ?case by simp
qed

lemma lang_subscript_entries:
  "snd (lang_subscript lg k) k' = lg k' \<or>
     (lg k' = None \<and> k' = k \<and> snd (lang_subscript lg k) k' = Some [])"
  by (simp add: lang_subscript_def split: option.splits)

lemma renderVariants_langs_entries:
  "renderVariants opts st vs = Inr st' \<Longrightarrow>
     langs st' k = langs st k \<or>
       (langs st k = None \<and> k \<in> fst ` set vs \<and> langs st' k = Some [])"
proof (induction vs arbitrary: st)
  case Nil
  then show ?case by simp
next
  case (Cons v vs)
  then obtain st1 where s1: "renderVariant opts st v = Inr st1"
      and r: "renderVariants opts st1 vs = Inr st'"
    by (auto split: sum.splits)
  from renderVariant_Inr(1) [OF s1] lang_subscript_entries [of "langs st" "fst v" k]
  have one: "langs st1 k = langs st k \<or>
      (langs st k = None \<and> k = fst v \<and> langs st1 k = Some [])"
    by (auto split: if_splits)
  from Cons.IH [OF r] one show ?case by auto
qed

lemma renderVariants_success:
  assumes "\<forall>v \<in> set vs. has_string (snd v) ''comment'' \<and> has_string (snd v) ''processed''"
  shows "\<exists>st'. renderVariants opts st vs = Inr st'"
  using assms
proof (induction vs arbitrary: st)
  case Nil
  then show ?case by simp
next
  case (Cons v vs)
  then have "\<exists>st1. renderVariant opts st v = Inr st1"
    by (intro renderVariant_success) simp_all
  then obtain st1 where s1: "renderVariant opts st v = Inr st1" ..
  from Cons.IH [of st1] Cons.prems obtain st' where "renderVariants opts st1 vs = Inr st'"
    by auto
  with s1 show ?case by simp
qed


lemma renderMessage_skip: "\<not> is_message val \<Longrightarrow> renderMessage opts acc val = Inr acc"
  by (auto simp: renderMessage_def is_message_def split: prod.splits)

lemma renderMessage_eq:
  "is_message val \<Longrightarrow>
   renderMessage opts (lg, cc) val =
     (case string_field val ''uniqueName'' of
        Inl e \<Rightarrow> Inl e
      | Inr u \<Rightarrow>
          (case renderVariants opts
                  \<lparr> langs = lg, comment = [], langContent = [], langIndex = 0 \<rparr>
                  (variants_of val) of
             Inl e \<Rightarrow> Inl e
           | Inr st \<Rightarrow>
               Inr (langs st,
                    cc @ formatBlock (comment st) (langIndex st) (langContent st) u)))"
  by (cases val)
     (auto simp: renderMessage_def is_message_def string_field_def variants_of_def
        split: sum.splits option.splits)

lemma messageBlock_cong:
  "name_of lg = name_of lg' \<Longrightarrow> messageBlock opts lg = messageBlock opts lg'"
  by (rule ext) (simp add: messageBlock_def assignment_cong [of lg lg'])

lemma renderMessage_Inr:
  assumes "is_message val" and "renderMessage opts (lg, cc) val = Inr (lg', cc')"
  shows "cc' = cc @ messageBlock opts lg val"
    and "name_of lg' = name_of lg"
    and "has_string val ''uniqueName''"
    and "languageEnum opts = [] \<Longrightarrow> lg' = lg"
    and "lg' k = lg k \<or> (lg k = None \<and> lg' k = Some [])"
proof -
  let ?st0 = "\<lparr> langs = lg, comment = [], langContent = [], langIndex = 0 \<rparr>"
  from assms obtain u st where u: "string_field val ''uniqueName'' = Inr u"
      and r: "renderVariants opts ?st0 (variants_of val) = Inr st"
      and res: "lg' = langs st"
        "cc' = cc @ formatBlock (comment st) (langIndex st) (langContent st) u"
    by (auto simp: renderMessage_eq split: sum.splits)
  from u show "has_string val ''uniqueName''" by (simp add: string_field_Inr)
  from u have u': "u = string_of val ''uniqueName''" by (simp add: string_field_Inr)
  from renderVariants_comment [OF r] renderVariants_langIndex [OF r]
    renderVariants_langContent [OF r] res(2) u'
  show "cc' = cc @ messageBlock opts lg val" by (simp add: messageBlock_def)
  from renderVariants_name_of [OF r] res(1) show "name_of lg' = name_of lg" by simp
  from renderVariants_langs_entries [OF r, of k] res(1)
  show "lg' k = lg k \<or> (lg k = None \<and> lg' k = Some [])" by auto
  assume "languageEnum opts = []"
  from renderVariants_langs_empty_enum [OF r this] res(1) show "lg' = lg" by simp
qed

lemma renderMessage_success:
  assumes "is_message val" and "has_string val ''uniqueName''"
      and "\<forall>v \<in> set (variants_of val).
             has_string (snd v) ''comment'' \<and> has_string (snd v) ''processed''"
  shows "\<exists>lg'. renderMessage opts (lg, cc) val = Inr (lg', cc @ messageBlock opts lg val)"
proof -
  let ?st0 = "\<lparr> langs = lg, comment = [], langContent = [], langIndex = 0 \<rparr>"
  from renderVariants_success [OF assms(3)]
  obtain st where r: "renderVariants opts ?st0 (variants_of val) = Inr st" by blast
  from assms(2) have u: "string_field val ''uniqueName'' = Inr (string_of val ''uniqueName'')"
    by (simp add: string_field_Inr)
  from r u assms(1) have res: "renderMessage opts (lg, cc) val
      = Inr (langs st, cc @ formatBlock (comment st) (langIndex st) (langContent st)
               (string_of val ''uniqueName''))"
    by (simp add: renderMessage_eq)
  from renderMessage_Inr(1) [OF assms(1) res] res show ?thesis by simp
qed

lemma renderMessages_Inr:
  "renderMessages opts (lg, cc) entries = Inr (lg', cc') \<Longrightarrow>
     cc' = cc @ concat (map (messageBlock opts lg) (filter is_message entries))
     \<and> name_of lg' = name_of lg"
proof (induction entries arbitrary: lg cc)
  case Nil
  then show ?case by simp
next
  case (Cons val rest)
  then obtain lg1 cc1 where s1: "renderMessage opts (lg, cc) val = Inr (lg1, cc1)"
      and r: "renderMessages opts (lg1, cc1) rest = Inr (lg', cc')"
    by (auto split: sum.splits)
  show ?case
  proof (cases "is_message val")
    case True
    from renderMessage_Inr(1,2) [OF True s1]
    have "cc1 = cc @ messageBlock opts lg val" and n: "name_of lg1 = name_of lg" .
    moreover from n have "messageBlock opts lg1 = messageBlock opts lg"
      by (rule messageBlock_cong)
    ultimately show ?thesis using Cons.IH [OF r] True by simp
  next
    case False
    with s1 have "lg1 = lg" "cc1 = cc" by (simp_all add: renderMessage_skip)
    with Cons.IH [OF r] False show ?thesis by simp
  qed
qed

lemma renderMessages_langs:
  "renderMessages opts (lg, cc) entries = Inr (lg', cc') \<Longrightarrow>
     (languageEnum opts = [] \<longrightarrow> lg' = lg)
     \<and> (lg' k = lg k \<or> (lg k = None \<and> lg' k = Some []))"
proof (induction entries arbitrary: lg cc)
  case Nil
  then show ?case by simp
next
  case (Cons val rest)
  then obtain lg1 cc1 where s1: "renderMessage opts (lg, cc) val = Inr (lg1, cc1)"
      and r: "renderMessages opts (lg1, cc1) rest = Inr (lg', cc')"
    by (auto split: sum.splits)
  show ?case
  proof (cases "is_message val")
    case True
    from renderMessage_Inr(4) [OF True s1] renderMessage_Inr(5) [OF True s1, of k]
      Cons.IH [OF r]
    show ?thesis by auto
  next
    case False
    with s1 have "lg1 = lg" "cc1 = cc" by (simp_all add: renderMessage_skip)
    with Cons.IH [OF r] show ?thesis by simp
  qed
qed

lemma renderMessages_success:
  assumes "\<forall>val \<in> set entries. is_message val \<longrightarrow>
             has_string val ''uniqueName'' \<and>
             (\<forall>v \<in> set (variants_of val).
                has_string (snd v) ''comment'' \<and> has_string (snd v) ''processed'')"
  shows "\<exists>lg'. renderMessages opts (lg, cc) entries
           = Inr (lg', cc @ concat (map (messageBlock opts lg) (filter is_message entries)))"
  using assms
proof (induction entries arbitrary: lg cc)
  case Nil
  then show ?case by simp
next
  case (Cons val rest)
  have "\<exists>lg1 cc1. renderMessage opts (lg, cc) val = Inr (lg1, cc1)"
  proof (cases "is_message val")
    case True
    with Cons.prems renderMessage_success [of val opts lg cc] show ?thesis by auto
  next
    case False
    then show ?thesis by (simp add: renderMessage_skip)
  qed
  then obtain lg1 cc1 where s1: "renderMessage opts (lg, cc) val = Inr (lg1, cc1)" by blast
  from Cons.IH [of lg1 cc1] Cons.prems
  obtain lg' cc' where r: "renderMessages opts (lg1, cc1) rest = Inr (lg', cc')" by auto
  from s1 r have all: "renderMessages opts (lg, cc) (val # rest) = Inr (lg', cc')" by simp
  from renderMessages_Inr [OF all] all show ?case by simp
qed

section \<open>The comment of a message\<close>

lemma two_comments_is_message: "is_message two_comments"
  by (simp add: two_comments_def is_message_def contains_def)

lemma two_comments_variants:
  "variants_of two_comments =
     [(''de'', JObject [(''comment'', JString []), (''processed'', JString ''Hallo'')]),
      (''en'', JObject [(''comment'', JString ''b''), (''processed'', JString ''Hi'')])]"
  by (simp add: two_comments_def variants_of_def)

lemma two_comments_rendered:
  "renderMessage defaultAppOptions (Map.empty, []) two_comments
     = Inr (Map.empty, formatBlock ''b'' 2 two_comments_lines ''Greeting'')"
  by (simp add: two_comments_def renderMessage_def contains_def renderVariant_def
        defaultAppOptions_def Let_def to_string.simps numeral_2_eq_2 two_comments_lines_def)

lemma first_nonempty_comment_all_empty:
  "\<forall>v \<in> set vs. string_of (snd v) ''comment'' = [] \<Longrightarrow> first_nonempty_comment vs = []"
  by (induction vs) (simp_all add: first_nonempty_comment_def)

lemma first_nonempty_comment_skips:
  "\<forall>w \<in> set pre. string_of (snd w) ''comment'' = [] \<Longrightarrow>
     string_of (snd v) ''comment'' \<noteq> [] \<Longrightarrow>
     first_nonempty_comment (pre @ v # post) = string_of (snd v) ''comment''"
  by (induction pre) (simp_all add: first_nonempty_comment_def)

lemma two_languages_is_message: "is_message two_languages"
  by (simp add: two_languages_def is_message_def contains_def)

lemma two_languages_variants:
  "variants_of two_languages =
     [(''de'', JObject [(''comment'', JString ''a''), (''processed'', JString ''Hallo'')]),
      (''en'', JObject [(''comment'', JString ''b''), (''processed'', JString ''Hi'')])]"
  by (simp add: two_languages_def variants_of_def)

lemma two_languages_rendered:
  "renderMessage defaultAppOptions (Map.empty, []) two_languages
     = Inr (Map.empty, formatBlock ''a'' 2 two_comments_lines ''Greeting'')"
  by (simp add: two_languages_def renderMessage_def contains_def renderVariant_def
        defaultAppOptions_def Let_def to_string.simps numeral_2_eq_2 two_comments_lines_def)

section \<open>The document\<close>

lemma map_snd_items_array: "map snd (items (JArray xs)) = xs"
  by (simp add: map_snd_zip)

lemma chatContentOf_Inr:
  assumes "chatContentOf opts j = Inr (lg', cc)"
  shows "\<exists>lg entries. buildLanguages j = Inr lg
           \<and> find_key j ''chatMessages'' = Some (JArray entries)
           \<and> renderMessages opts (lg, []) entries = Inr (lg', cc)"
proof -
  from assms obtain lg where b: "buildLanguages j = Inr lg"
      and r: "readChatMessages opts lg j = Inr (lg', cc)"
    by (auto simp: chatContentOf_def split: if_splits sum.splits)
  from r obtain ms where f: "find_key j ''chatMessages'' = Some ms"
      and t: "json_type ms = t_array"
      and m: "renderMessages opts (lg, []) (map snd (items ms)) = Inr (lg', cc)"
    by (auto simp: readChatMessages_def split: option.splits if_splits)
  from t obtain entries where "ms = JArray entries" by (cases ms) simp_all
  with b f m show ?thesis by (simp add: map_snd_items_array)
qed

lemma chatContentOf_eq:
  assumes "json_type j = t_object" and "buildLanguages j = Inr lg"
      and "find_key j ''chatMessages'' = Some (JArray entries)"
  shows "chatContentOf opts j = renderMessages opts (lg, []) entries"
  using assms by (simp add: chatContentOf_def readChatMessages_def map_snd_zip)

lemma example_document_languages: "buildLanguages example_document = Inr example_table"
  by (simp add: example_document_def buildLanguages_def example_table_def)

lemma example_document_messages:
  "find_key example_document ''chatMessages'' = Some (JArray example_entries)"
  by (simp add: example_document_def)

lemma example_document_type: "json_type example_document = t_object"
  by (simp add: example_document_def)

lemma no_variants_is_message: "is_message no_variants"
  by (simp add: no_variants_def is_message_def contains_def)

lemma no_variants_variants: "variants_of no_variants = []"
  by (simp add: no_variants_def variants_of_def)

lemma example_entries_messages: "filter is_message example_entries = [two_languages, no_variants]"
  by (simp add: example_entries_def two_languages_is_message no_variants_is_message)
     (simp add: is_message_def contains_def)

lemma example_entries_wellformed:
  "\<forall>val \<in> set example_entries. is_message val \<longrightarrow>
      has_string val ''uniqueName'' \<and>
      (\<forall>v \<in> set (variants_of val).
         has_string (snd v) ''comment'' \<and> has_string (snd v) ''processed'')"
  by (simp add: example_entries_def two_languages_variants no_variants_variants)
     (simp add: is_message_def contains_def has_string_def two_languages_def no_variants_def)

lemma example_document_rendered:
  "\<exists>lg'. chatContentOf opts example_document
      = Inr (lg', concat (map (messageBlock opts example_table) [two_languages, no_variants]))"
  using renderMessages_success [OF example_entries_wellformed, of opts example_table "[]"]
  by (simp add: chatContentOf_eq [OF example_document_type example_document_languages
        example_document_messages] example_entries_messages)

section \<open>The option that rendering does not read\<close>


lemma renderVariant_chatMessageType:
  "renderVariant (opts\<lparr>chatMessageType := t\<rparr>) st v = renderVariant opts st v"
  by (simp add: renderVariant_eq index_expr_def split: sum.splits)

lemma renderVariants_chatMessageType:
  "renderVariants (opts\<lparr>chatMessageType := t\<rparr>) st vs = renderVariants opts st vs"
  by (induction vs arbitrary: st) (simp_all add: renderVariant_chatMessageType split: sum.splits)

lemma renderMessage_chatMessageType:
  "renderMessage (opts\<lparr>chatMessageType := t\<rparr>) acc val = renderMessage opts acc val"
  by (simp add: renderMessage_def renderVariants_chatMessageType
        cong: sum.case_cong prod.case_cong if_cong)

lemma renderMessages_chatMessageType:
  "renderMessages (opts\<lparr>chatMessageType := t\<rparr>) acc entries = renderMessages opts acc entries"
  by (induction entries arbitrary: acc) (simp_all add: renderMessage_chatMessageType split: sum.splits)

lemma parseChatJson_chatMessageType:
  "parseChatJson (opts\<lparr>chatMessageType := t\<rparr>) j = parseChatJson opts j"
  by (simp add: parseChatJson_def chatContentOf_def readChatMessages_def
        renderMessages_chatMessageType assembleOutput_def
        cong: sum.case_cong prod.case_cong option.case_cong if_cong)

text \<open>
  Claim C10. Two option records that agree on every field but \<open>chatMessageType\<close> give
  the same result for every content document: the same output, or the same failure.
\<close>

theorem chatMessageType_not_consumed:
  assumes "pch a = pch b" and "ns a = ns b" and "languageEnum a = languageEnum b"
      and "headerFiles a = headerFiles b" and "useCompileMacro a = useCompileMacro b"
      and "usePragmaOnce a = usePragmaOnce b"
  shows "parseChatJson a j = parseChatJson b j"
proof -
  from assms have "a = b\<lparr>chatMessageType := chatMessageType a\<rparr>" by simp
  then show ?thesis using parseChatJson_chatMessageType [where opts = b and t = "chatMessageType a" and j = j]
    by simp
qed

theorem chatMessageType_not_consumed_witness:
  "pch defaultAppOptions = pch (defaultAppOptions \<lparr> chatMessageType := ''auto'' \<rparr>)
   \<and> ns defaultAppOptions = ns (defaultAppOptions \<lparr> chatMessageType := ''auto'' \<rparr>)
   \<and> languageEnum defaultAppOptions
       = languageEnum (defaultAppOptions \<lparr> chatMessageType := ''auto'' \<rparr>)
   \<and> headerFiles defaultAppOptions
       = headerFiles (defaultAppOptions \<lparr> chatMessageType := ''auto'' \<rparr>)
   \<and> useCompileMacro defaultAppOptions
       = useCompileMacro (defaultAppOptions \<lparr> chatMessageType := ''auto'' \<rparr>)
   \<and> usePragmaOnce defaultAppOptions
       = usePragmaOnce (defaultAppOptions \<lparr> chatMessageType := ''auto'' \<rparr>)
   \<and> chatMessageType defaultAppOptions
       \<noteq> chatMessageType (defaultAppOptions \<lparr> chatMessageType := ''auto'' \<rparr>)
   \<and> parseChatJson defaultAppOptions example_document
       = parseChatJson (defaultAppOptions \<lparr> chatMessageType := ''auto'' \<rparr>) example_document"
  using chatMessageType_not_consumed
          [of defaultAppOptions "defaultAppOptions \<lparr> chatMessageType := ''auto'' \<rparr>"
              example_document]
  by (simp add: defaultAppOptions_def)

lemma parseChatJson_Inr:
  "chatContentOf opts j = Inr (lg', cc) \<Longrightarrow> parseChatJson opts j = Inr (assembleOutput opts cc)"
  by (simp add: parseChatJson_def)

lemma is_message_eq:
  "is_message = (\<lambda>val. json_type val = t_object \<and> contains val ''uniqueName''
                   \<and> contains val ''content'')"
  by (rule ext) (simp add: is_message_def)

lemma example_document_default:
  "chatContentOf defaultAppOptions example_document
     = Inr (example_table,
            concat (map (messageBlock defaultAppOptions example_table)
                      [two_languages, no_variants]))"
proof -
  from example_document_rendered [of defaultAppOptions]
  obtain lg' where r: "chatContentOf defaultAppOptions example_document
      = Inr (lg', concat (map (messageBlock defaultAppOptions example_table)
                            [two_languages, no_variants]))" ..
  then have "renderMessages defaultAppOptions (example_table, []) example_entries
      = Inr (lg', concat (map (messageBlock defaultAppOptions example_table)
                            [two_languages, no_variants]))"
    by (simp add: chatContentOf_eq [OF example_document_type example_document_languages
        example_document_messages])
  from renderMessages_langs [OF this] have "lg' = example_table"
    by (simp add: defaultAppOptions_def)
  with r show ?thesis by simp
qed

section \<open>The language table during rendering\<close>

lemma assignment_absent:
  "languageEnum opts \<noteq> [] \<Longrightarrow> lg k = None \<Longrightarrow>
     assignment opts lg (i, k, mc)
       = TAB @ TAB @ ''result[static_cast<int>('' @ languageEnum opts @ ''::)] = ''
           @ literal (useCompileMacro opts) (string_of mc ''processed'') @ '';\<newline>''"
  by (simp add: assignment_def index_expr_def name_of_def)

lemma enum_options_languageEnum: "languageEnum enum_options = ''Lang''"
  by (simp add: enum_options_def)

lemma enum_options_simps:
  "languageEnum enum_options = ''Lang''" "useCompileMacro enum_options = True"
  by (simp_all add: enum_options_def defaultAppOptions_def)














section \<open>Positional indices\<close>

lemma assignment_positional:
  "languageEnum opts = [] \<Longrightarrow>
     assignment opts lg =
       (\<lambda>(i, k, mc). TAB @ TAB @ ''result['' @ to_string i @ ''] = ''
          @ literal (useCompileMacro opts) (string_of mc ''processed'') @ '';\<newline>'')"
  by (rule ext) (simp add: assignment_def index_expr_def split_def)

lemma renderMessage_no_variants:
  assumes "is_message val" and "has_string val ''uniqueName''" and "variants_of val = []"
  shows "renderMessage opts (lg, cc) val
           = Inr (lg, cc @ formatBlock [] 0 [] (string_of val ''uniqueName''))"
proof -
  from assms(2) have "string_field val ''uniqueName'' = Inr (string_of val ''uniqueName'')"
    by (simp add: string_field_Inr)
  with assms(1,3) show ?thesis by (simp add: renderMessage_eq)
qed

lemma digit_inj:
  assumes "a < 10" and "b < 10" and "''0123456789'' ! a = ''0123456789'' ! b"
  shows "a = b"
proof -
  have d: "distinct ''0123456789''" by simp
  have l: "length ''0123456789'' = 10" by simp
  from assms nth_eq_iff_index_eq [OF d, of a b] l show ?thesis by simp
qed

lemma to_string_nonempty: "to_string n \<noteq> []"
  by (subst to_string.simps) simp

lemma to_string_inj: "to_string a = to_string b \<Longrightarrow> a = b"
proof (induction a arbitrary: b rule: less_induct)
  case (less a)
  show ?case
  proof (cases "a < 10")
    case True
    then have a: "to_string a = [''0123456789'' ! a]" by (subst to_string.simps) simp
    show ?thesis
    proof (cases "b < 10")
      case True
      then have "to_string b = [''0123456789'' ! b]" by (subst to_string.simps) simp
      with a less.prems \<open>a < 10\<close> True show ?thesis by (auto intro: digit_inj)
    next
      case False
      then have "to_string b = to_string (b div 10) @ [''0123456789'' ! (b mod 10)]"
        by (subst to_string.simps) simp
      with a less.prems to_string_nonempty [of "b div 10"] show ?thesis by simp
    qed
  next
    case False
    then have a: "to_string a = to_string (a div 10) @ [''0123456789'' ! (a mod 10)]"
      by (subst to_string.simps) simp
    show ?thesis
    proof (cases "b < 10")
      case True
      then have "to_string b = [''0123456789'' ! b]" by (subst to_string.simps) simp
      with a less.prems to_string_nonempty [of "a div 10"] show ?thesis by simp
    next
      case b: False
      then have "to_string b = to_string (b div 10) @ [''0123456789'' ! (b mod 10)]"
        by (subst to_string.simps) simp
      with a less.prems have q: "to_string (a div 10) = to_string (b div 10)"
          and r: "''0123456789'' ! (a mod 10) = ''0123456789'' ! (b mod 10)"
        by simp_all
      from False have "a div 10 < a" by simp
      from less.IH [OF this q] have "a div 10 = b div 10" .
      moreover from r have "a mod 10 = b mod 10" by (intro digit_inj) simp_all
      ultimately show ?thesis by (metis div_mult_mod_eq)
    qed
  qed
qed

lemma distinct_index_strings:
  "distinct (map (\<lambda>iv. to_string (fst iv)) (enumerate n vs))"
proof -
  have "distinct (map to_string [n..<n + length vs])"
    by (simp add: distinct_map inj_on_def to_string_inj)
  moreover have "map (to_string \<circ> fst) (enumerate n vs)
      = map to_string (map fst (enumerate n vs))"
    by (simp only: map_map)
  then have "map (\<lambda>iv. to_string (fst iv)) (enumerate n vs)
      = map to_string [n..<n + length vs]"
    by (simp add: comp_def)
  ultimately show ?thesis by simp
qed

lemma to_string_0: "to_string 0 = ''0''"
  by (simp add: to_string.simps)

section \<open>The assembled output\<close>

lemma appendHeaderFiles_eq:
  "appendHeaderFiles out hs
     = out @ concat (map (\<lambda>headerFile. ''#include '' @ headerFile @ ''\<newline>'') hs)"
  by (induction hs arbitrary: out) simp_all

lemma assembleOutput_eq:
  "assembleOutput opts chatContent =
     (if usePragmaOnce opts then ''#pragma once\<newline>\<newline>'' else [])
     @ (if pch opts \<noteq> [] then ''#include '' @ pch opts @ ''\<newline>'' else [])
     @ concat (map (\<lambda>headerFile. ''#include '' @ headerFile @ ''\<newline>'') (headerFiles opts))
     @ ''\<newline>\<newline>''
     @ (if ns opts \<noteq> [] then ''namespace '' @ ns opts @ ''\<newline>{\<newline>\<newline>'' else [])
     @ ''namespace internal {\<newline>struct ChatMessageBase {};\<newline>}\<newline>\<newline>''
     @ chatContent
     @ (if ns opts \<noteq> [] then ''\<newline>}\<newline>'' else [])"
  by (simp add: assembleOutput_def Let_def appendHeaderFiles_eq)

lemma chatMessages_of_eq:
  "find_key j ''chatMessages'' = Some (JArray entries) \<Longrightarrow> chatMessages_of j = entries"
  by (simp add: chatMessages_of_def)

lemma parseChatJson_Inr_iff:
  "parseChatJson opts j = Inr out \<Longrightarrow>
     \<exists>lg' cc. chatContentOf opts j = Inr (lg', cc) \<and> out = assembleOutput opts cc"
  by (auto simp: parseChatJson_def split: sum.splits)

lemma readAppOptions_usePragmaOnce:
  assumes "readAppOptions opts j = Inr opts'" and "\<not> contains j ''usePragmaOnce''"
  shows "usePragmaOnce opts' = usePragmaOnce opts"
  using assms
  by (auto simp: readAppOptions_def read_bool_option_def split: if_splits sum.splits)

text \<open>
  Claim C9. The output is, in this order: the line \<open>#pragma once\<close> if \<open>usePragmaOnce\<close>
  is set (the default, kept when the options document does not have the key); the include
  of the precompiled header if \<open>pch\<close> is not empty; one include line for each entry of
  \<open>headerFiles\<close>, in order; two line breaks; the opening of the namespace if \<open>namespace\<close>
  is not empty; the declaration of the base type, always and once; the blocks of the
  messages in the order of the document; the closing of the namespace if it was opened.
\<close>

theorem output_is_assembled_in_order:
  "(parseChatJson opts j = Inr out \<longrightarrow>
      (\<exists>lg. buildLanguages j = Inr lg \<and>
         out =
           (if usePragmaOnce opts then ''#pragma once\<newline>\<newline>'' else [])
           @ (if pch opts \<noteq> [] then ''#include '' @ pch opts @ ''\<newline>'' else [])
           @ concat (map (\<lambda>headerFile. ''#include '' @ headerFile @ ''\<newline>'')
                       (headerFiles opts))
           @ ''\<newline>\<newline>''
           @ (if ns opts \<noteq> [] then ''namespace '' @ ns opts @ ''\<newline>{\<newline>\<newline>'' else [])
           @ ''namespace internal {\<newline>struct ChatMessageBase {};\<newline>}\<newline>\<newline>''
           @ concat (map (messageBlock opts lg) (filter is_message (chatMessages_of j)))
           @ (if ns opts \<noteq> [] then ''\<newline>}\<newline>'' else [])))
   \<and> usePragmaOnce defaultAppOptions
   \<and> (readAppOptions defaultAppOptions optionsDoc = Inr opts'
        \<and> \<not> contains optionsDoc ''usePragmaOnce''
      \<longrightarrow> usePragmaOnce opts')"
proof (intro conjI impI)
  assume "parseChatJson opts j = Inr out"
  from parseChatJson_Inr_iff [OF this]
  obtain lg' cc where c: "chatContentOf opts j = Inr (lg', cc)"
      and out: "out = assembleOutput opts cc"
    by blast
  from chatContentOf_Inr [OF c]
  obtain lg entries where b: "buildLanguages j = Inr lg"
      and f: "find_key j ''chatMessages'' = Some (JArray entries)"
      and r: "renderMessages opts (lg, []) entries = Inr (lg', cc)"
    by blast
  from renderMessages_Inr [OF r] chatMessages_of_eq [OF f]
  have "cc = concat (map (messageBlock opts lg) (filter is_message (chatMessages_of j)))"
    by simp
  with out b show "\<exists>lg. buildLanguages j = Inr lg \<and>
         out =
           (if usePragmaOnce opts then ''#pragma once\<newline>\<newline>'' else [])
           @ (if pch opts \<noteq> [] then ''#include '' @ pch opts @ ''\<newline>'' else [])
           @ concat (map (\<lambda>headerFile. ''#include '' @ headerFile @ ''\<newline>'')
                       (headerFiles opts))
           @ ''\<newline>\<newline>''
           @ (if ns opts \<noteq> [] then ''namespace '' @ ns opts @ ''\<newline>{\<newline>\<newline>'' else [])
           @ ''namespace internal {\<newline>struct ChatMessageBase {};\<newline>}\<newline>\<newline>''
           @ concat (map (messageBlock opts lg) (filter is_message (chatMessages_of j)))
           @ (if ns opts \<noteq> [] then ''\<newline>}\<newline>'' else [])"
    by (simp only: assembleOutput_eq) blast
next
  show "usePragmaOnce defaultAppOptions" by (simp add: defaultAppOptions_def)
next
  assume "readAppOptions defaultAppOptions optionsDoc = Inr opts'
        \<and> \<not> contains optionsDoc ''usePragmaOnce''"
  then show "usePragmaOnce opts'"
    using readAppOptions_usePragmaOnce [of defaultAppOptions optionsDoc opts']
    by (simp add: defaultAppOptions_def)
qed


lemma options_document_read:
  "readAppOptions defaultAppOptions options_document = Inr example_options"
  by (simp add: readAppOptions_def options_document_def read_bool_option_def
        read_string_option_def read_headerFiles_def contains_def example_options_def
        defaultAppOptions_def)

theorem output_is_assembled_in_order_witness:
  "readAppOptions defaultAppOptions options_document = Inr example_options
   \<and> \<not> contains options_document ''usePragmaOnce''
   \<and> usePragmaOnce example_options
   \<and> parseChatJson example_options example_document
       = Inr (''#pragma once\<newline>\<newline>''
              @ ''#include PROJECT_PCH\<newline>''
              @ ''#include <array>\<newline>#include <string_view>\<newline>''
              @ ''\<newline>\<newline>''
              @ ''namespace chat_txt\<newline>{\<newline>\<newline>''
              @ ''namespace internal {\<newline>struct ChatMessageBase {};\<newline>}\<newline>\<newline>''
              @ messageBlock example_options example_table two_languages
              @ messageBlock example_options example_table no_variants
              @ ''\<newline>}\<newline>'')"
proof -
  have nc: "\<not> contains options_document ''usePragmaOnce''"
    by (simp add: contains_def options_document_def)
  from example_document_rendered [of example_options]
  obtain lg' where "chatContentOf example_options example_document
      = Inr (lg', concat (map (messageBlock example_options example_table)
                            [two_languages, no_variants]))" ..
  from parseChatJson_Inr [OF this]
  obtain out where p: "parseChatJson example_options example_document = Inr out" by blast
  from output_is_assembled_in_order
         [where opts = example_options and j = example_document and out = out
            and optionsDoc = options_document and opts' = example_options]
    p options_document_read nc
  obtain lg where b: "buildLanguages example_document = Inr lg"
    and out: "out =
           (if usePragmaOnce example_options then ''#pragma once\<newline>\<newline>'' else [])
           @ (if pch example_options \<noteq> []
              then ''#include '' @ pch example_options @ ''\<newline>'' else [])
           @ concat (map (\<lambda>headerFile. ''#include '' @ headerFile @ ''\<newline>'')
                       (headerFiles example_options))
           @ ''\<newline>\<newline>''
           @ (if ns example_options \<noteq> []
              then ''namespace '' @ ns example_options @ ''\<newline>{\<newline>\<newline>'' else [])
           @ ''namespace internal {\<newline>struct ChatMessageBase {};\<newline>}\<newline>\<newline>''
           @ concat (map (messageBlock example_options lg)
                       (filter is_message (chatMessages_of example_document)))
           @ (if ns example_options \<noteq> [] then ''\<newline>}\<newline>'' else [])"
    and u: "usePragmaOnce example_options"
    by blast
  from b example_document_languages have lg: "lg = example_table" by simp
  have "out = ''#pragma once\<newline>\<newline>''
              @ ''#include PROJECT_PCH\<newline>''
              @ ''#include <array>\<newline>#include <string_view>\<newline>''
              @ ''\<newline>\<newline>''
              @ ''namespace chat_txt\<newline>{\<newline>\<newline>''
              @ ''namespace internal {\<newline>struct ChatMessageBase {};\<newline>}\<newline>\<newline>''
              @ messageBlock example_options example_table two_languages
              @ messageBlock example_options example_table no_variants
              @ ''\<newline>}\<newline>''"
    unfolding out lg
    by (simp add: chatMessages_of_eq [OF example_document_messages] example_entries_messages
          example_options_def defaultAppOptions_def)
  with p options_document_read nc u show ?thesis by simp
qed

section \<open>Reading the options\<close>

lemma object_subscript:
  "json_type j = t_object \<Longrightarrow> find_key j k = Some v \<Longrightarrow> subscript j k = Inr v"
  by (cases j) simp_all

lemma read_bool_option_eq:
  assumes "json_type j = t_object"
  shows "read_bool_option j name cur =
     (case find_key j name of
        None \<Rightarrow> Inr cur
      | Some v \<Rightarrow>
          (case v of
             JBoolean b \<Rightarrow> Inr b
           | _ \<Rightarrow> Inl (runtime_error (option_type_message name ''boolean''))))"
  using assms
  by (cases j; cases "find_key j name")
     (auto simp: read_bool_option_def contains_def split: json.splits)

lemma read_string_option_eq:
  assumes "json_type j = t_object"
  shows "read_string_option j name cur =
     (case find_key j name of
        None \<Rightarrow> Inr cur
      | Some v \<Rightarrow>
          (case v of
             JString s \<Rightarrow> Inr s
           | _ \<Rightarrow> Inl (runtime_error (option_type_message name ''string''))))"
  using assms
  by (cases j; cases "find_key j name")
     (auto simp: read_string_option_def contains_def split: json.splits)

lemma read_bool_option_cases:
  "json_type j = t_object \<Longrightarrow>
     read_bool_option j name cur =
       (if mismatched j (name, t_boolean)
        then Inl (runtime_error (mismatch_message (name, t_boolean)))
        else Inr (bool_option_value j name cur))"
  by (auto simp: read_bool_option_eq mismatched_def mismatch_message_def bool_option_value_def
        split: option.splits json.splits)

lemma read_string_option_cases:
  "json_type j = t_object \<Longrightarrow>
     read_string_option j name cur =
       (if mismatched j (name, t_string)
        then Inl (runtime_error (mismatch_message (name, t_string)))
        else Inr (string_option_value j name cur))"
  by (auto simp: read_string_option_eq mismatched_def mismatch_message_def
        string_option_value_def split: option.splits json.splits)

lemma read_headerFiles_cases:
  "read_headerFiles j cur =
     (if mismatched j (''headerFiles'', t_array)
      then Inl (runtime_error (mismatch_message (''headerFiles'', t_array)))
      else Inr (headerFiles_value j cur))"
  by (auto simp: read_headerFiles_def mismatched_def mismatch_message_def headerFiles_value_def
        map_snd_zip split: option.splits json.splits)

lemma readAppOptions_eq:
  assumes "json_type j = t_object"
  shows "readAppOptions opts j =
     (case find (mismatched j) option_fields of
        Some f \<Rightarrow> Inl (runtime_error (mismatch_message f))
      | None \<Rightarrow>
          Inr (opts\<lparr> useCompileMacro :=
                       bool_option_value j ''useCompileMacro'' (useCompileMacro opts),
                     usePragmaOnce := bool_option_value j ''usePragmaOnce'' (usePragmaOnce opts),
                     languageEnum := string_option_value j ''languageEnum'' (languageEnum opts),
                     pch := string_option_value j ''pch'' (pch opts),
                     ns := string_option_value j ''namespace'' (ns opts),
                     chatMessageType :=
                       string_option_value j ''chatMessageType'' (chatMessageType opts),
                     headerFiles := headerFiles_value j (headerFiles opts) \<rparr>))"
  by (simp add: readAppOptions_def assms read_bool_option_cases [OF assms]
        read_string_option_cases [OF assms] read_headerFiles_cases option_fields_def)


lemma find_mismatched_only:
  assumes "find P fs = Some f" and "g \<in> set fs" and "P g" and "\<forall>h \<in> set fs. P h \<longrightarrow> h = g"
  shows "f = g"
proof -
  from assms(1) have "f \<in> set fs" and "P f" by (auto simp: find_Some_iff)
  with assms(4) show ?thesis by blast
qed

lemma find_mismatched_exists:
  assumes "g \<in> set fs" and "P g"
  shows "\<exists>f. find P fs = Some f \<and> f \<in> set fs \<and> P f"
proof (cases "find P fs")
  case None
  with assms show ?thesis by (auto simp: find_None_iff)
next
  case (Some f)
  then show ?thesis by (auto simp: find_Some_iff)
qed

lemma readAppOptions_absent_kept:
  assumes "readAppOptions opts j = Inr opts'"
  shows "(find_key j ''useCompileMacro'' = None \<longrightarrow> useCompileMacro opts' = useCompileMacro opts)
       \<and> (find_key j ''usePragmaOnce'' = None \<longrightarrow> usePragmaOnce opts' = usePragmaOnce opts)
       \<and> (find_key j ''languageEnum'' = None \<longrightarrow> languageEnum opts' = languageEnum opts)
       \<and> (find_key j ''pch'' = None \<longrightarrow> pch opts' = pch opts)
       \<and> (find_key j ''namespace'' = None \<longrightarrow> ns opts' = ns opts)
       \<and> (find_key j ''chatMessageType'' = None
            \<longrightarrow> chatMessageType opts' = chatMessageType opts)
       \<and> (find_key j ''headerFiles'' = None \<longrightarrow> headerFiles opts' = headerFiles opts)"
proof -
  from assms have obj: "json_type j = t_object"
    by (simp add: readAppOptions_def split: if_splits)
  from assms have opts': "opts' =
      opts\<lparr> useCompileMacro :=
                       bool_option_value j ''useCompileMacro'' (useCompileMacro opts),
                     usePragmaOnce := bool_option_value j ''usePragmaOnce'' (usePragmaOnce opts),
                     languageEnum := string_option_value j ''languageEnum'' (languageEnum opts),
                     pch := string_option_value j ''pch'' (pch opts),
                     ns := string_option_value j ''namespace'' (ns opts),
                     chatMessageType :=
                       string_option_value j ''chatMessageType'' (chatMessageType opts),
                     headerFiles := headerFiles_value j (headerFiles opts) \<rparr>"
    unfolding readAppOptions_eq [OF obj] by (simp split: option.splits)
  have b: "find_key j name = None \<Longrightarrow> bool_option_value j name cur = cur" for name cur
    by (simp add: bool_option_value_def)
  have s: "find_key j name = None \<Longrightarrow> string_option_value j name cur = cur" for name cur
    by (simp add: string_option_value_def)
  have h: "find_key j ''headerFiles'' = None \<Longrightarrow> headerFiles_value j cur = cur" for cur
    by (simp add: headerFiles_value_def)
  show ?thesis unfolding opts' by (simp add: b s h)
qed

section \<open>The macro around the literals\<close>























lemma messageBlock_literal:
  "messageBlock opts lg =
     (\<lambda>val. formatBlock (first_nonempty_comment (variants_of val)) (length (variants_of val))
        (concat (map (\<lambda>(i, k, mc).
                   TAB @ TAB @ ''result['' @ index_expr opts lg i k @ ''] = ''
                     @ (if useCompileMacro opts
                        then ''FMT_COMPILE('' @ DQ @ string_of mc ''processed'' @ DQ @ '')''
                        else DQ @ string_of mc ''processed'' @ DQ)
                     @ '';\<newline>'')
           (enumerate 0 (variants_of val))))
        (string_of val ''uniqueName''))"
proof -
  have a: "assignment opts lg =
     (\<lambda>(i, k, mc).
        TAB @ TAB @ ''result['' @ index_expr opts lg i k @ ''] = ''
          @ (if useCompileMacro opts
             then ''FMT_COMPILE('' @ DQ @ string_of mc ''processed'' @ DQ @ '')''
             else DQ @ string_of mc ''processed'' @ DQ)
          @ '';\<newline>'')"
    by (rule ext) (simp add: assignment_def literal_def split_def)
  show ?thesis by (rule ext) (simp only: messageBlock_def a)
qed

lemma example_document_positional:
  assumes "languageEnum opts = []"
  shows "chatContentOf opts example_document
     = Inr (example_table,
            concat (map (messageBlock opts example_table) [two_languages, no_variants]))"
proof -
  from example_document_rendered [of opts]
  obtain lg' where r: "chatContentOf opts example_document
      = Inr (lg', concat (map (messageBlock opts example_table)
                            [two_languages, no_variants]))" ..
  then have "renderMessages opts (example_table, []) example_entries
      = Inr (lg', concat (map (messageBlock opts example_table)
                            [two_languages, no_variants]))"
    by (simp add: chatContentOf_eq [OF example_document_type example_document_languages
        example_document_messages])
  from renderMessages_langs [OF this] assms have "lg' = example_table" by simp
  with r show ?thesis by simp
qed

lemma two_languages_block_plain:
  "messageBlock plain_options example_table two_languages
     = formatBlock ''a'' 2 two_languages_plain_lines ''Greeting''"
  by (simp add: messageBlock_def two_languages_variants assignment_def index_expr_def
        literal_def plain_options_def defaultAppOptions_def first_nonempty_comment_def
        string_of_def to_string.simps two_languages_plain_lines_def numeral_2_eq_2)
     (simp add: two_languages_def)

lemma two_languages_block_wrapped:
  "messageBlock defaultAppOptions example_table two_languages
     = formatBlock ''a'' 2 two_comments_lines ''Greeting''"
  by (simp add: messageBlock_def two_languages_variants assignment_def index_expr_def
        literal_def defaultAppOptions_def first_nonempty_comment_def
        string_of_def to_string.simps two_comments_lines_def numeral_2_eq_2)
     (simp add: two_languages_def)

lemma no_variants_block:
  "messageBlock opts lg no_variants = formatBlock [] 0 [] ''Silent''"
  by (simp add: messageBlock_def no_variants_variants first_nonempty_comment_def
        string_of_def)
     (simp add: no_variants_def)

section \<open>The text of a block, character by character\<close>

text \<open>
  The statements about the rendered text below spell the text out, with the tabulator
  as \<open>CHR 0x09\<close> and the double quote as \<open>CHR 0x22\<close>.
\<close>

lemma enumerate_nth: "enumerate 0 vs = map (\<lambda>i. (i, vs ! i)) [0..<length vs]"
  by (rule nth_equalityI) (simp_all add: nth_enumerate_eq)

lemma sublist_concat_mem: "x \<in> set xs \<Longrightarrow> sublist x (concat xs)"
proof -
  assume "x \<in> set xs"
  then obtain a b where "xs = a @ x # b" by (auto dest: split_list)
  then have "concat xs = concat a @ x @ concat b" by simp
  then show ?thesis by (simp only: sublist_appendI)
qed

lemma sublist_in_append:
  "sublist x b \<Longrightarrow> sublist x (a @ b @ c)"
  by (metis sublist_appendI sublist_order.order.trans)

lemma in_set_mapI: "x \<in> set xs \<Longrightarrow> f x \<in> set (map f xs)"
  by simp

lemma sublist_trans: "sublist x y \<Longrightarrow> sublist y z \<Longrightarrow> sublist x z"
  by (rule sublist_order.order.trans)

subsection \<open>Decimal notation\<close>

text \<open>
  A function that writes a number as \<open>std::to_string\<close> does, the digit of the units
  after the digits of the tenth of the number, writes it in decimal notation: the value
  of the digits is the number, and two numbers with the same digits are equal.
\<close>

lemma digit_values:
  "\<forall>n \<in> set [0..<10]. (of_char (''0123456789'' ! n) :: nat) - 48 = n"
  by code_simp

lemma digit_value:
  "n < 10 \<Longrightarrow> of_char (''0123456789'' ! n) - 48 = n"
  using digit_values by simp

lemma decimal_value_snoc:
  "decimal_value (s @ [c]) = 10 * decimal_value s + (of_char c - 48)"
  by (simp add: decimal_value_def)

lemma decimal_value_digits:
  assumes eq: "\<And>n. f n = (if n < 10 then [''0123456789'' ! n]
                 else f (n div 10) @ [''0123456789'' ! (n mod 10)])"
  shows "decimal_value (f n) = n"
proof (induction n rule: less_induct)
  case (less n)
  show ?case
  proof (cases "n < 10")
    case True
    then have "f n = [''0123456789'' ! n]" by (subst eq) simp
    with True show ?thesis
      using decimal_value_snoc [of "[]" "''0123456789'' ! n"]
      by (simp add: digit_value decimal_value_def)
  next
    case False
    then have "f n = f (n div 10) @ [''0123456789'' ! (n mod 10)]"
      by (subst eq) simp
    moreover from False have "n div 10 < n" by simp
    then have "decimal_value (f (n div 10)) = n div 10" by (rule less.IH)
    ultimately show ?thesis
      by (simp add: decimal_value_snoc digit_value)
  qed
qed

lemma digits_inj:
  assumes eq: "\<And>n. f n = (if n < 10 then [''0123456789'' ! n]
                 else f (n div 10) @ [''0123456789'' ! (n mod 10)])"
  shows "f a = f b \<Longrightarrow> a = b"
proof (induction a arbitrary: b rule: less_induct)
  case (less a)
  have ne: "f n \<noteq> []" for n by (subst eq) simp
  show ?case
  proof (cases "a < 10")
    case True
    then have a: "f a = [''0123456789'' ! a]" by (subst eq) simp
    show ?thesis
    proof (cases "b < 10")
      case True
      then have "f b = [''0123456789'' ! b]" by (subst eq) simp
      with a less.prems \<open>a < 10\<close> True show ?thesis by (auto intro: digit_inj)
    next
      case False
      then have "f b = f (b div 10) @ [''0123456789'' ! (b mod 10)]"
        by (subst eq) simp
      with a less.prems ne [of "b div 10"] show ?thesis by simp
    qed
  next
    case False
    then have a: "f a = f (a div 10) @ [''0123456789'' ! (a mod 10)]"
      by (subst eq) simp
    show ?thesis
    proof (cases "b < 10")
      case True
      then have "f b = [''0123456789'' ! b]" by (subst eq) simp
      with a less.prems ne [of "a div 10"] show ?thesis by simp
    next
      case b: False
      then have "f b = f (b div 10) @ [''0123456789'' ! (b mod 10)]"
        by (subst eq) simp
      with a less.prems have q: "f (a div 10) = f (b div 10)"
          and r: "''0123456789'' ! (a mod 10) = ''0123456789'' ! (b mod 10)"
        by simp_all
      from False have "a div 10 < a" by simp
      from less.IH [OF this q] have "a div 10 = b div 10" .
      moreover from r have "a mod 10 = b mod 10" by (intro digit_inj) simp_all
      ultimately show ?thesis by (metis div_mult_mod_eq)
    qed
  qed
qed

section \<open>The comment of a message in the output\<close>

text \<open>
  What the loops produce follows from the rule of one pass through the body of the inner
  loop: a pass keeps a non-empty comment and replaces an empty one by the comment of its
  variant, appends the assignment line of its variant, counts it, and leaves the names
  of the language table as they are.
\<close>

lemma lang_subscript_pair:
  "lang_subscript lg k = (n, lg') \<Longrightarrow> n = name_of lg k \<and> name_of lg' = name_of lg"
  using fst_lang_subscript [of lg k] name_of_lang_subscript [of lg k] by simp

lemma renderVariants_by_step:
  assumes step: "\<And>st v st'. renderVariant opts st v = Inr st' \<Longrightarrow>
            comment st' = (if comment st = [] then string_of (snd v) ''comment''
                           else comment st)
            \<and> langContent st'
                = langContent st @ assignment opts (langs st) (langIndex st, v)
            \<and> langIndex st' = Suc (langIndex st)
            \<and> name_of (langs st') = name_of (langs st)"
  shows "renderVariants opts st vs = Inr st' \<Longrightarrow>
           comment st' = (if comment st = [] then first_nonempty_comment vs else comment st)
           \<and> langContent st' = langContent st
                 @ concat (map (assignment opts (langs st)) (enumerate (langIndex st) vs))
           \<and> langIndex st' = langIndex st + length vs
           \<and> name_of (langs st') = name_of (langs st)"
proof (induction vs arbitrary: st)
  case Nil
  then show ?case by (simp add: first_nonempty_comment_def)
next
  case (Cons v vs)
  then obtain st1 where s1: "renderVariant opts st v = Inr st1"
      and r: "renderVariants opts st1 vs = Inr st'"
    by (auto split: sum.splits)
  from step [OF s1] have n: "name_of (langs st1) = name_of (langs st)" by simp
  then have "assignment opts (langs st1) = assignment opts (langs st)"
    by (rule assignment_cong)
  with step [OF s1] Cons.IH [OF r] show ?case
    by (simp add: first_nonempty_comment_Cons)
qed

lemma renderMessage_by_step:
  assumes step: "\<And>st v st'. renderVariant opts st v = Inr st' \<Longrightarrow>
            comment st' = (if comment st = [] then string_of (snd v) ''comment''
                           else comment st)
            \<and> langContent st'
                = langContent st @ assignment opts (langs st) (langIndex st, v)
            \<and> langIndex st' = Suc (langIndex st)
            \<and> name_of (langs st') = name_of (langs st)"
      and "is_message val" and "renderMessage opts (lg, cc) val = Inr (lg', cc')"
  shows "cc' = cc @ messageBlock opts lg val \<and> name_of lg' = name_of lg"
proof -
  let ?st0 = "\<lparr> langs = lg, comment = [], langContent = [], langIndex = 0 \<rparr>"
  from assms(2,3) obtain u st where u: "string_field val ''uniqueName'' = Inr u"
      and r: "renderVariants opts ?st0 (variants_of val) = Inr st"
      and res: "lg' = langs st"
        "cc' = cc @ formatBlock (comment st) (langIndex st) (langContent st) u"
    by (auto simp: renderMessage_eq split: sum.splits)
  from u have "u = string_of val ''uniqueName''" by (simp add: string_field_Inr)
  with renderVariants_by_step [OF step r] res show ?thesis
    by (simp add: messageBlock_def)
qed

lemma renderMessages_by_step:
  assumes step: "\<And>st v st'. renderVariant opts st v = Inr st' \<Longrightarrow>
            comment st' = (if comment st = [] then string_of (snd v) ''comment''
                           else comment st)
            \<and> langContent st'
                = langContent st @ assignment opts (langs st) (langIndex st, v)
            \<and> langIndex st' = Suc (langIndex st)
            \<and> name_of (langs st') = name_of (langs st)"
  shows "renderMessages opts (lg, cc) entries = Inr (lg', cc') \<Longrightarrow>
           cc' = cc @ concat (map (messageBlock opts lg) (filter is_message entries))
           \<and> name_of lg' = name_of lg"
proof (induction entries arbitrary: lg cc)
  case Nil
  then show ?case by simp
next
  case (Cons val rest)
  then obtain lg1 cc1 where s1: "renderMessage opts (lg, cc) val = Inr (lg1, cc1)"
      and r: "renderMessages opts (lg1, cc1) rest = Inr (lg', cc')"
    by (auto split: sum.splits)
  show ?case
  proof (cases "is_message val")
    case True
    from renderMessage_by_step [OF step True s1]
    have "cc1 = cc @ messageBlock opts lg val" and n: "name_of lg1 = name_of lg"
      by simp_all
    moreover from n have "messageBlock opts lg1 = messageBlock opts lg"
      by (rule messageBlock_cong)
    ultimately show ?thesis using Cons.IH [OF r] True by simp
  next
    case False
    with s1 have "lg1 = lg" "cc1 = cc" by (simp_all add: renderMessage_skip)
    with Cons.IH [OF r] False show ?thesis by simp
  qed
qed

lemma parseChatJson_by_step:
  assumes step: "\<And>st v st'. renderVariant opts st v = Inr st' \<Longrightarrow>
            comment st' = (if comment st = [] then string_of (snd v) ''comment''
                           else comment st)
            \<and> langContent st'
                = langContent st @ assignment opts (langs st) (langIndex st, v)
            \<and> langIndex st' = Suc (langIndex st)
            \<and> name_of (langs st') = name_of (langs st)"
      and "parseChatJson opts j = Inr out"
  shows "\<exists>lg. buildLanguages j = Inr lg \<and>
           out = assembleOutput opts
                   (concat (map (messageBlock opts lg)
                      (filter is_message (chatMessages_of j))))"
proof -
  from parseChatJson_Inr_iff [OF assms(2)]
  obtain lg' cc where c: "chatContentOf opts j = Inr (lg', cc)"
      and o: "out = assembleOutput opts cc"
    by blast
  from chatContentOf_Inr [OF c]
  obtain lg entries where b: "buildLanguages j = Inr lg"
      and f: "find_key j ''chatMessages'' = Some (JArray entries)"
      and r: "renderMessages opts (lg, []) entries = Inr (lg', cc)"
    by blast
  from renderMessages_by_step [OF step r] chatMessages_of_eq [OF f]
  have "cc = concat (map (messageBlock opts lg) (filter is_message (chatMessages_of j)))"
    by simp
  with o b show ?thesis by simp
qed

text \<open>
  Claim C1 says that the rendered comment is the comment of the first variant whatever the
  later variants hold, and stays empty when that first comment is empty. The source
  says so too (\<open>Load first comment-version of a message as a comment\<close>), but the test
  \<open>comment.empty()\<close> that is to load the comment once does not tell an empty first
  comment from no comment yet: for a message whose variants have the comments \<open>""\<close>
  and \<open>"b"\<close>, in this order, the comment line that is rendered holds \<open>b\<close>.
\<close>

theorem empty_first_comment_is_replaced:
  "variants_of two_comments
     = [(''de'', JObject [(''comment'', JString []), (''processed'', JString ''Hallo'')]),
        (''en'', JObject [(''comment'', JString ''b''), (''processed'', JString ''Hi'')])]
   \<and> renderMessage defaultAppOptions (Map.empty, []) two_comments
       = Inr (Map.empty,
            ''// '' @ [CHR 0x22] @ ''b'' @ [CHR 0x22] @ ''\<newline>''
            @ ''class \<newline>''
            @ [CHR 0x09] @ '': public internal::ChatMessageBase\<newline>''
            @ ''{\<newline>''
            @ [CHR 0x09] @ ''static constexpr auto generateContent = []\<newline>''
            @ [CHR 0x09] @ ''{\<newline>''
            @ [CHR 0x09] @ [CHR 0x09] @ ''std::array<std::string_view, 2> result;\<newline>''
            @ [CHR 0x09] @ [CHR 0x09] @ ''result[0] = FMT_COMPILE('' @ [CHR 0x22] @ ''Hallo'' @ [CHR 0x22] @ '');\<newline>''
            @ [CHR 0x09] @ [CHR 0x09] @ ''result[1] = FMT_COMPILE('' @ [CHR 0x22] @ ''Hi'' @ [CHR 0x22] @ '');\<newline>''
            @ [CHR 0x09] @ [CHR 0x09] @ ''return result;\<newline>''
            @ [CHR 0x09] @ ''};\<newline>''
            @ ''public:\<newline>''
            @ [CHR 0x09] @ ''static constexpr auto text = generateContent();\<newline>''
            @ ''} inline constexpr Greeting;\<newline>''
            @ ''\<newline>'')"
proof
  show "variants_of two_comments
     = [(''de'', JObject [(''comment'', JString []), (''processed'', JString ''Hallo'')]),
        (''en'', JObject [(''comment'', JString ''b''), (''processed'', JString ''Hi'')])]"
    by (rule two_comments_variants)
  show "renderMessage defaultAppOptions (Map.empty, []) two_comments
       = Inr (Map.empty,
            ''// '' @ [CHR 0x22] @ ''b'' @ [CHR 0x22] @ ''\<newline>''
            @ ''class \<newline>''
            @ [CHR 0x09] @ '': public internal::ChatMessageBase\<newline>''
            @ ''{\<newline>''
            @ [CHR 0x09] @ ''static constexpr auto generateContent = []\<newline>''
            @ [CHR 0x09] @ ''{\<newline>''
            @ [CHR 0x09] @ [CHR 0x09] @ ''std::array<std::string_view, 2> result;\<newline>''
            @ [CHR 0x09] @ [CHR 0x09] @ ''result[0] = FMT_COMPILE('' @ [CHR 0x22] @ ''Hallo'' @ [CHR 0x22] @ '');\<newline>''
            @ [CHR 0x09] @ [CHR 0x09] @ ''result[1] = FMT_COMPILE('' @ [CHR 0x22] @ ''Hi'' @ [CHR 0x22] @ '');\<newline>''
            @ [CHR 0x09] @ [CHR 0x09] @ ''return result;\<newline>''
            @ [CHR 0x09] @ ''};\<newline>''
            @ ''public:\<newline>''
            @ [CHR 0x09] @ ''static constexpr auto text = generateContent();\<newline>''
            @ ''} inline constexpr Greeting;\<newline>''
            @ ''\<newline>'')"
    by (simp add: two_comments_def defaultAppOptions_def
          renderMessage_def contains_def renderVariant_def lang_subscript_def
          formatBlock_def TAB_def DQ_def Let_def to_string.simps)
qed

theorem empty_first_comment_is_replaced_witness:
  "string_of (snd (hd (variants_of two_comments))) ''comment'' = []
   \<and> renderMessage defaultAppOptions (Map.empty, []) two_comments
       = Inr (Map.empty,
            ''// '' @ [CHR 0x22] @ ''b'' @ [CHR 0x22] @ ''\<newline>''
            @ ''class \<newline>''
            @ [CHR 0x09] @ '': public internal::ChatMessageBase\<newline>''
            @ ''{\<newline>''
            @ [CHR 0x09] @ ''static constexpr auto generateContent = []\<newline>''
            @ [CHR 0x09] @ ''{\<newline>''
            @ [CHR 0x09] @ [CHR 0x09] @ ''std::array<std::string_view, 2> result;\<newline>''
            @ [CHR 0x09] @ [CHR 0x09] @ ''result[0] = FMT_COMPILE('' @ [CHR 0x22] @ ''Hallo'' @ [CHR 0x22] @ '');\<newline>''
            @ [CHR 0x09] @ [CHR 0x09] @ ''result[1] = FMT_COMPILE('' @ [CHR 0x22] @ ''Hi'' @ [CHR 0x22] @ '');\<newline>''
            @ [CHR 0x09] @ [CHR 0x09] @ ''return result;\<newline>''
            @ [CHR 0x09] @ ''};\<newline>''
            @ ''public:\<newline>''
            @ [CHR 0x09] @ ''static constexpr auto text = generateContent();\<newline>''
            @ ''} inline constexpr Greeting;\<newline>''
            @ ''\<newline>'')
   \<and> renderMessage defaultAppOptions (Map.empty, []) two_comments
     \<noteq> Inr (Map.empty,
            ''// '' @ [CHR 0x22] @ [CHR 0x22] @ ''\<newline>''
            @ ''class \<newline>''
            @ [CHR 0x09] @ '': public internal::ChatMessageBase\<newline>''
            @ ''{\<newline>''
            @ [CHR 0x09] @ ''static constexpr auto generateContent = []\<newline>''
            @ [CHR 0x09] @ ''{\<newline>''
            @ [CHR 0x09] @ [CHR 0x09] @ ''std::array<std::string_view, 2> result;\<newline>''
            @ [CHR 0x09] @ [CHR 0x09] @ ''result[0] = FMT_COMPILE('' @ [CHR 0x22] @ ''Hallo'' @ [CHR 0x22] @ '');\<newline>''
            @ [CHR 0x09] @ [CHR 0x09] @ ''result[1] = FMT_COMPILE('' @ [CHR 0x22] @ ''Hi'' @ [CHR 0x22] @ '');\<newline>''
            @ [CHR 0x09] @ [CHR 0x09] @ ''return result;\<newline>''
            @ [CHR 0x09] @ ''};\<newline>''
            @ ''public:\<newline>''
            @ [CHR 0x09] @ ''static constexpr auto text = generateContent();\<newline>''
            @ ''} inline constexpr Greeting;\<newline>''
            @ ''\<newline>'')"
proof -
  have ev: "renderMessage defaultAppOptions (Map.empty, []) two_comments
       = Inr (Map.empty,
            ''// '' @ [CHR 0x22] @ ''b'' @ [CHR 0x22] @ ''\<newline>''
            @ ''class \<newline>''
            @ [CHR 0x09] @ '': public internal::ChatMessageBase\<newline>''
            @ ''{\<newline>''
            @ [CHR 0x09] @ ''static constexpr auto generateContent = []\<newline>''
            @ [CHR 0x09] @ ''{\<newline>''
            @ [CHR 0x09] @ [CHR 0x09] @ ''std::array<std::string_view, 2> result;\<newline>''
            @ [CHR 0x09] @ [CHR 0x09] @ ''result[0] = FMT_COMPILE('' @ [CHR 0x22] @ ''Hallo'' @ [CHR 0x22] @ '');\<newline>''
            @ [CHR 0x09] @ [CHR 0x09] @ ''result[1] = FMT_COMPILE('' @ [CHR 0x22] @ ''Hi'' @ [CHR 0x22] @ '');\<newline>''
            @ [CHR 0x09] @ [CHR 0x09] @ ''return result;\<newline>''
            @ [CHR 0x09] @ ''};\<newline>''
            @ ''public:\<newline>''
            @ [CHR 0x09] @ ''static constexpr auto text = generateContent();\<newline>''
            @ ''} inline constexpr Greeting;\<newline>''
            @ ''\<newline>'')"
    by (simp add: two_comments_def defaultAppOptions_def 
          renderMessage_def contains_def renderVariant_def lang_subscript_def
          formatBlock_def TAB_def DQ_def Let_def to_string.simps)
  from empty_first_comment_is_replaced
  have "string_of (snd (hd (variants_of two_comments))) ''comment'' = []"
    by (simp add: string_of_def)
  moreover from ev
  have "renderMessage defaultAppOptions (Map.empty, []) two_comments
     \<noteq> Inr (Map.empty,
            ''// '' @ [CHR 0x22] @ [CHR 0x22] @ ''\<newline>''
            @ ''class \<newline>''
            @ [CHR 0x09] @ '': public internal::ChatMessageBase\<newline>''
            @ ''{\<newline>''
            @ [CHR 0x09] @ ''static constexpr auto generateContent = []\<newline>''
            @ [CHR 0x09] @ ''{\<newline>''
            @ [CHR 0x09] @ [CHR 0x09] @ ''std::array<std::string_view, 2> result;\<newline>''
            @ [CHR 0x09] @ [CHR 0x09] @ ''result[0] = FMT_COMPILE('' @ [CHR 0x22] @ ''Hallo'' @ [CHR 0x22] @ '');\<newline>''
            @ [CHR 0x09] @ [CHR 0x09] @ ''result[1] = FMT_COMPILE('' @ [CHR 0x22] @ ''Hi'' @ [CHR 0x22] @ '');\<newline>''
            @ [CHR 0x09] @ [CHR 0x09] @ ''return result;\<newline>''
            @ [CHR 0x09] @ ''};\<newline>''
            @ ''public:\<newline>''
            @ [CHR 0x09] @ ''static constexpr auto text = generateContent();\<newline>''
            @ ''} inline constexpr Greeting;\<newline>''
            @ ''\<newline>'')"
    by simp
  ultimately show ?thesis using ev by (intro conjI)
qed

text \<open>
  Claim C2. The comment rendered for a message, between the quotes of the first line of
  its block, is the comment of the first variant, in iteration order, whose comment is a
  non-empty string, and it is empty when the comment of every variant is empty: variants
  with an empty comment in front of it do not stop a later non-empty comment from being
  taken.
\<close>

theorem rendered_comment_is_first_nonempty:
  assumes "is_message val" and "renderMessage opts (lg, cc) val = Inr (lg', cc')"
  shows "cc' = cc @
            ''// '' @ [CHR 0x22] @ (case find (\<lambda>v. string_of (snd v) ''comment'' \<noteq> []) (variants_of val) of
              Some v \<Rightarrow> string_of (snd v) ''comment''
            | None \<Rightarrow> []) @ [CHR 0x22] @ ''\<newline>''
            @ ''class \<newline>'' @ [CHR 0x09] @ '': public internal::ChatMessageBase\<newline>''
            @ ''{\<newline>''
            @ [CHR 0x09] @ ''static constexpr auto generateContent = []\<newline>'' @ [CHR 0x09] @ ''{\<newline>''
            @ [CHR 0x09] @ [CHR 0x09] @ ''std::array<std::string_view, '' @ to_string (length (variants_of val)) @ ''> result;\<newline>''
            @ (concat (map (\<lambda>(i, k, mc).
          [CHR 0x09] @ [CHR 0x09] @ ''result['' @ (if languageEnum opts = [] then to_string i
          else ''static_cast<int>('' @ languageEnum opts @ ''::''
                 @ (case lg k of Some name \<Rightarrow> name | None \<Rightarrow> []) @ '')'')
          @ ''] = '' @ (if useCompileMacro opts then ''FMT_COMPILE('' @ [CHR 0x22] @ string_of mc ''processed'' @ [CHR 0x22] @ '')''
          else [CHR 0x22] @ string_of mc ''processed'' @ [CHR 0x22])
          @ '';\<newline>'')
        (enumerate 0 (variants_of val))))
            @ [CHR 0x09] @ [CHR 0x09] @ ''return result;\<newline>''
            @ [CHR 0x09] @ ''};\<newline>''
            @ ''public:\<newline>''
            @ [CHR 0x09] @ ''static constexpr auto text = generateContent();\<newline>''
            @ ''} inline constexpr '' @ string_of val ''uniqueName'' @ '';\<newline>\<newline>''
         \<and> ((\<forall>v \<in> set (variants_of val). string_of (snd v) ''comment'' = [])
              \<longrightarrow> cc' = cc @
            ''// '' @ [CHR 0x22] @ [] @ [CHR 0x22] @ ''\<newline>''
            @ ''class \<newline>'' @ [CHR 0x09] @ '': public internal::ChatMessageBase\<newline>''
            @ ''{\<newline>''
            @ [CHR 0x09] @ ''static constexpr auto generateContent = []\<newline>'' @ [CHR 0x09] @ ''{\<newline>''
            @ [CHR 0x09] @ [CHR 0x09] @ ''std::array<std::string_view, '' @ to_string (length (variants_of val)) @ ''> result;\<newline>''
            @ (concat (map (\<lambda>(i, k, mc).
          [CHR 0x09] @ [CHR 0x09] @ ''result['' @ (if languageEnum opts = [] then to_string i
          else ''static_cast<int>('' @ languageEnum opts @ ''::''
                 @ (case lg k of Some name \<Rightarrow> name | None \<Rightarrow> []) @ '')'')
          @ ''] = '' @ (if useCompileMacro opts then ''FMT_COMPILE('' @ [CHR 0x22] @ string_of mc ''processed'' @ [CHR 0x22] @ '')''
          else [CHR 0x22] @ string_of mc ''processed'' @ [CHR 0x22])
          @ '';\<newline>'')
        (enumerate 0 (variants_of val))))
            @ [CHR 0x09] @ [CHR 0x09] @ ''return result;\<newline>''
            @ [CHR 0x09] @ ''};\<newline>''
            @ ''public:\<newline>''
            @ [CHR 0x09] @ ''static constexpr auto text = generateContent();\<newline>''
            @ ''} inline constexpr '' @ string_of val ''uniqueName'' @ '';\<newline>\<newline>'')
         \<and> (\<forall>pre v post.
               variants_of val = pre @ v # post
               \<and> (\<forall>w \<in> set pre. string_of (snd w) ''comment'' = [])
               \<and> string_of (snd v) ''comment'' \<noteq> []
               \<longrightarrow> cc' = cc @
            ''// '' @ [CHR 0x22] @ string_of (snd v) ''comment'' @ [CHR 0x22] @ ''\<newline>''
            @ ''class \<newline>'' @ [CHR 0x09] @ '': public internal::ChatMessageBase\<newline>''
            @ ''{\<newline>''
            @ [CHR 0x09] @ ''static constexpr auto generateContent = []\<newline>'' @ [CHR 0x09] @ ''{\<newline>''
            @ [CHR 0x09] @ [CHR 0x09] @ ''std::array<std::string_view, '' @ to_string (length (variants_of val)) @ ''> result;\<newline>''
            @ (concat (map (\<lambda>(i, k, mc).
          [CHR 0x09] @ [CHR 0x09] @ ''result['' @ (if languageEnum opts = [] then to_string i
          else ''static_cast<int>('' @ languageEnum opts @ ''::''
                 @ (case lg k of Some name \<Rightarrow> name | None \<Rightarrow> []) @ '')'')
          @ ''] = '' @ (if useCompileMacro opts then ''FMT_COMPILE('' @ [CHR 0x22] @ string_of mc ''processed'' @ [CHR 0x22] @ '')''
          else [CHR 0x22] @ string_of mc ''processed'' @ [CHR 0x22])
          @ '';\<newline>'')
        (enumerate 0 (variants_of val))))
            @ [CHR 0x09] @ [CHR 0x09] @ ''return result;\<newline>''
            @ [CHR 0x09] @ ''};\<newline>''
            @ ''public:\<newline>''
            @ [CHR 0x09] @ ''static constexpr auto text = generateContent();\<newline>''
            @ ''} inline constexpr '' @ string_of val ''uniqueName'' @ '';\<newline>\<newline>'')"
proof -
  have fb: "formatBlock cmt n lc uniqueName =
            ''// '' @ [CHR 0x22] @ cmt @ [CHR 0x22] @ ''\<newline>''
            @ ''class \<newline>'' @ [CHR 0x09] @ '': public internal::ChatMessageBase\<newline>''
            @ ''{\<newline>''
            @ [CHR 0x09] @ ''static constexpr auto generateContent = []\<newline>'' @ [CHR 0x09] @ ''{\<newline>''
            @ [CHR 0x09] @ [CHR 0x09] @ ''std::array<std::string_view, '' @ to_string n @ ''> result;\<newline>''
            @ lc
            @ [CHR 0x09] @ [CHR 0x09] @ ''return result;\<newline>''
            @ [CHR 0x09] @ ''};\<newline>''
            @ ''public:\<newline>''
            @ [CHR 0x09] @ ''static constexpr auto text = generateContent();\<newline>''
            @ ''} inline constexpr '' @ uniqueName @ '';\<newline>\<newline>''"
    for cmt n lc uniqueName
    by (simp add: formatBlock_def TAB_def DQ_def)
  have al: "assignment opts lg =
            (\<lambda>(i, k, mc).
          [CHR 0x09] @ [CHR 0x09] @ ''result['' @ (if languageEnum opts = [] then to_string i
          else ''static_cast<int>('' @ languageEnum opts @ ''::''
                 @ (case lg k of Some name \<Rightarrow> name | None \<Rightarrow> []) @ '')'')
          @ ''] = '' @ (if useCompileMacro opts then ''FMT_COMPILE('' @ [CHR 0x22] @ string_of mc ''processed'' @ [CHR 0x22] @ '')''
          else [CHR 0x22] @ string_of mc ''processed'' @ [CHR 0x22])
          @ '';\<newline>'')"
    by (rule ext)
       (simp add: assignment_def index_expr_def literal_def name_of_def TAB_def DQ_def
          split_def)
  have step: "comment st' = (if comment st = [] then string_of (snd v) ''comment''
                       else comment st)
        \<and> langContent st'
            = langContent st @ assignment opts (langs st) (langIndex st, v)
        \<and> langIndex st' = Suc (langIndex st)
        \<and> name_of (langs st') = name_of (langs st)"
    if "renderVariant opts st v = Inr st'" for st v st'
    using that
    by (auto simp: renderVariant_def Let_def assignment_def index_expr_def literal_def
          string_of_def dest!: lang_subscript_pair elim!: get_string.elims
          split: sum.splits if_splits prod.splits)
  have mb: "messageBlock opts lg val =
            ''// '' @ [CHR 0x22] @ first_nonempty_comment (variants_of val) @ [CHR 0x22] @ ''\<newline>''
            @ ''class \<newline>'' @ [CHR 0x09] @ '': public internal::ChatMessageBase\<newline>''
            @ ''{\<newline>''
            @ [CHR 0x09] @ ''static constexpr auto generateContent = []\<newline>'' @ [CHR 0x09] @ ''{\<newline>''
            @ [CHR 0x09] @ [CHR 0x09] @ ''std::array<std::string_view, '' @ to_string (length (variants_of val)) @ ''> result;\<newline>''
            @ (concat (map (\<lambda>(i, k, mc).
          [CHR 0x09] @ [CHR 0x09] @ ''result['' @ (if languageEnum opts = [] then to_string i
          else ''static_cast<int>('' @ languageEnum opts @ ''::''
                 @ (case lg k of Some name \<Rightarrow> name | None \<Rightarrow> []) @ '')'')
          @ ''] = '' @ (if useCompileMacro opts then ''FMT_COMPILE('' @ [CHR 0x22] @ string_of mc ''processed'' @ [CHR 0x22] @ '')''
          else [CHR 0x22] @ string_of mc ''processed'' @ [CHR 0x22])
          @ '';\<newline>'')
        (enumerate 0 (variants_of val))))
            @ [CHR 0x09] @ [CHR 0x09] @ ''return result;\<newline>''
            @ [CHR 0x09] @ ''};\<newline>''
            @ ''public:\<newline>''
            @ [CHR 0x09] @ ''static constexpr auto text = generateContent();\<newline>''
            @ ''} inline constexpr '' @ string_of val ''uniqueName'' @ '';\<newline>\<newline>''"
    for val
    by (simp only: messageBlock_def fb al)
  from renderMessage_by_step [OF step assms]
  have m: "cc' = cc @ messageBlock opts lg val" by (rule conjunct1)
  have b: "cc' = cc @
            ''// '' @ [CHR 0x22] @ first_nonempty_comment (variants_of val) @ [CHR 0x22] @ ''\<newline>''
            @ ''class \<newline>'' @ [CHR 0x09] @ '': public internal::ChatMessageBase\<newline>''
            @ ''{\<newline>''
            @ [CHR 0x09] @ ''static constexpr auto generateContent = []\<newline>'' @ [CHR 0x09] @ ''{\<newline>''
            @ [CHR 0x09] @ [CHR 0x09] @ ''std::array<std::string_view, '' @ to_string (length (variants_of val)) @ ''> result;\<newline>''
            @ (concat (map (\<lambda>(i, k, mc).
          [CHR 0x09] @ [CHR 0x09] @ ''result['' @ (if languageEnum opts = [] then to_string i
          else ''static_cast<int>('' @ languageEnum opts @ ''::''
                 @ (case lg k of Some name \<Rightarrow> name | None \<Rightarrow> []) @ '')'')
          @ ''] = '' @ (if useCompileMacro opts then ''FMT_COMPILE('' @ [CHR 0x22] @ string_of mc ''processed'' @ [CHR 0x22] @ '')''
          else [CHR 0x22] @ string_of mc ''processed'' @ [CHR 0x22])
          @ '';\<newline>'')
        (enumerate 0 (variants_of val))))
            @ [CHR 0x09] @ [CHR 0x09] @ ''return result;\<newline>''
            @ [CHR 0x09] @ ''};\<newline>''
            @ ''public:\<newline>''
            @ [CHR 0x09] @ ''static constexpr auto text = generateContent();\<newline>''
            @ ''} inline constexpr '' @ string_of val ''uniqueName'' @ '';\<newline>\<newline>''"
    using m unfolding mb .
  have f: "first_nonempty_comment (variants_of val) =
            (case find (\<lambda>v. string_of (snd v) ''comment'' \<noteq> []) (variants_of val) of
              Some v \<Rightarrow> string_of (snd v) ''comment''
            | None \<Rightarrow> [])"
    by (simp add: first_nonempty_comment_def)
  from b have "cc' = cc @
            ''// '' @ [CHR 0x22] @ (case find (\<lambda>v. string_of (snd v) ''comment'' \<noteq> []) (variants_of val) of
              Some v \<Rightarrow> string_of (snd v) ''comment''
            | None \<Rightarrow> []) @ [CHR 0x22] @ ''\<newline>''
            @ ''class \<newline>'' @ [CHR 0x09] @ '': public internal::ChatMessageBase\<newline>''
            @ ''{\<newline>''
            @ [CHR 0x09] @ ''static constexpr auto generateContent = []\<newline>'' @ [CHR 0x09] @ ''{\<newline>''
            @ [CHR 0x09] @ [CHR 0x09] @ ''std::array<std::string_view, '' @ to_string (length (variants_of val)) @ ''> result;\<newline>''
            @ (concat (map (\<lambda>(i, k, mc).
          [CHR 0x09] @ [CHR 0x09] @ ''result['' @ (if languageEnum opts = [] then to_string i
          else ''static_cast<int>('' @ languageEnum opts @ ''::''
                 @ (case lg k of Some name \<Rightarrow> name | None \<Rightarrow> []) @ '')'')
          @ ''] = '' @ (if useCompileMacro opts then ''FMT_COMPILE('' @ [CHR 0x22] @ string_of mc ''processed'' @ [CHR 0x22] @ '')''
          else [CHR 0x22] @ string_of mc ''processed'' @ [CHR 0x22])
          @ '';\<newline>'')
        (enumerate 0 (variants_of val))))
            @ [CHR 0x09] @ [CHR 0x09] @ ''return result;\<newline>''
            @ [CHR 0x09] @ ''};\<newline>''
            @ ''public:\<newline>''
            @ [CHR 0x09] @ ''static constexpr auto text = generateContent();\<newline>''
            @ ''} inline constexpr '' @ string_of val ''uniqueName'' @ '';\<newline>\<newline>''"
    unfolding f .
  moreover have "(\<forall>v \<in> set (variants_of val). string_of (snd v) ''comment'' = [])
              \<longrightarrow> cc' = cc @
            ''// '' @ [CHR 0x22] @ [] @ [CHR 0x22] @ ''\<newline>''
            @ ''class \<newline>'' @ [CHR 0x09] @ '': public internal::ChatMessageBase\<newline>''
            @ ''{\<newline>''
            @ [CHR 0x09] @ ''static constexpr auto generateContent = []\<newline>'' @ [CHR 0x09] @ ''{\<newline>''
            @ [CHR 0x09] @ [CHR 0x09] @ ''std::array<std::string_view, '' @ to_string (length (variants_of val)) @ ''> result;\<newline>''
            @ (concat (map (\<lambda>(i, k, mc).
          [CHR 0x09] @ [CHR 0x09] @ ''result['' @ (if languageEnum opts = [] then to_string i
          else ''static_cast<int>('' @ languageEnum opts @ ''::''
                 @ (case lg k of Some name \<Rightarrow> name | None \<Rightarrow> []) @ '')'')
          @ ''] = '' @ (if useCompileMacro opts then ''FMT_COMPILE('' @ [CHR 0x22] @ string_of mc ''processed'' @ [CHR 0x22] @ '')''
          else [CHR 0x22] @ string_of mc ''processed'' @ [CHR 0x22])
          @ '';\<newline>'')
        (enumerate 0 (variants_of val))))
            @ [CHR 0x09] @ [CHR 0x09] @ ''return result;\<newline>''
            @ [CHR 0x09] @ ''};\<newline>''
            @ ''public:\<newline>''
            @ [CHR 0x09] @ ''static constexpr auto text = generateContent();\<newline>''
            @ ''} inline constexpr '' @ string_of val ''uniqueName'' @ '';\<newline>\<newline>''"
  proof
    assume "\<forall>v \<in> set (variants_of val). string_of (snd v) ''comment'' = []"
    then have e: "first_nonempty_comment (variants_of val) = []"
      by (rule first_nonempty_comment_all_empty)
    from b show "cc' = cc @
            ''// '' @ [CHR 0x22] @ [] @ [CHR 0x22] @ ''\<newline>''
            @ ''class \<newline>'' @ [CHR 0x09] @ '': public internal::ChatMessageBase\<newline>''
            @ ''{\<newline>''
            @ [CHR 0x09] @ ''static constexpr auto generateContent = []\<newline>'' @ [CHR 0x09] @ ''{\<newline>''
            @ [CHR 0x09] @ [CHR 0x09] @ ''std::array<std::string_view, '' @ to_string (length (variants_of val)) @ ''> result;\<newline>''
            @ (concat (map (\<lambda>(i, k, mc).
          [CHR 0x09] @ [CHR 0x09] @ ''result['' @ (if languageEnum opts = [] then to_string i
          else ''static_cast<int>('' @ languageEnum opts @ ''::''
                 @ (case lg k of Some name \<Rightarrow> name | None \<Rightarrow> []) @ '')'')
          @ ''] = '' @ (if useCompileMacro opts then ''FMT_COMPILE('' @ [CHR 0x22] @ string_of mc ''processed'' @ [CHR 0x22] @ '')''
          else [CHR 0x22] @ string_of mc ''processed'' @ [CHR 0x22])
          @ '';\<newline>'')
        (enumerate 0 (variants_of val))))
            @ [CHR 0x09] @ [CHR 0x09] @ ''return result;\<newline>''
            @ [CHR 0x09] @ ''};\<newline>''
            @ ''public:\<newline>''
            @ [CHR 0x09] @ ''static constexpr auto text = generateContent();\<newline>''
            @ ''} inline constexpr '' @ string_of val ''uniqueName'' @ '';\<newline>\<newline>''"
      unfolding e .
  qed
  moreover have "\<forall>pre v post.
               variants_of val = pre @ v # post
               \<and> (\<forall>w \<in> set pre. string_of (snd w) ''comment'' = [])
               \<and> string_of (snd v) ''comment'' \<noteq> []
               \<longrightarrow> cc' = cc @
            ''// '' @ [CHR 0x22] @ string_of (snd v) ''comment'' @ [CHR 0x22] @ ''\<newline>''
            @ ''class \<newline>'' @ [CHR 0x09] @ '': public internal::ChatMessageBase\<newline>''
            @ ''{\<newline>''
            @ [CHR 0x09] @ ''static constexpr auto generateContent = []\<newline>'' @ [CHR 0x09] @ ''{\<newline>''
            @ [CHR 0x09] @ [CHR 0x09] @ ''std::array<std::string_view, '' @ to_string (length (variants_of val)) @ ''> result;\<newline>''
            @ (concat (map (\<lambda>(i, k, mc).
          [CHR 0x09] @ [CHR 0x09] @ ''result['' @ (if languageEnum opts = [] then to_string i
          else ''static_cast<int>('' @ languageEnum opts @ ''::''
                 @ (case lg k of Some name \<Rightarrow> name | None \<Rightarrow> []) @ '')'')
          @ ''] = '' @ (if useCompileMacro opts then ''FMT_COMPILE('' @ [CHR 0x22] @ string_of mc ''processed'' @ [CHR 0x22] @ '')''
          else [CHR 0x22] @ string_of mc ''processed'' @ [CHR 0x22])
          @ '';\<newline>'')
        (enumerate 0 (variants_of val))))
            @ [CHR 0x09] @ [CHR 0x09] @ ''return result;\<newline>''
            @ [CHR 0x09] @ ''};\<newline>''
            @ ''public:\<newline>''
            @ [CHR 0x09] @ ''static constexpr auto text = generateContent();\<newline>''
            @ ''} inline constexpr '' @ string_of val ''uniqueName'' @ '';\<newline>\<newline>''"
  proof (intro allI impI)
    fix pre v post
    assume a: "variants_of val = pre @ v # post
               \<and> (\<forall>w \<in> set pre. string_of (snd w) ''comment'' = [])
               \<and> string_of (snd v) ''comment'' \<noteq> []"
    then have e: "first_nonempty_comment (variants_of val) = string_of (snd v) ''comment''"
      by (simp add: first_nonempty_comment_skips)
    from b show "cc' = cc @
            ''// '' @ [CHR 0x22] @ string_of (snd v) ''comment'' @ [CHR 0x22] @ ''\<newline>''
            @ ''class \<newline>'' @ [CHR 0x09] @ '': public internal::ChatMessageBase\<newline>''
            @ ''{\<newline>''
            @ [CHR 0x09] @ ''static constexpr auto generateContent = []\<newline>'' @ [CHR 0x09] @ ''{\<newline>''
            @ [CHR 0x09] @ [CHR 0x09] @ ''std::array<std::string_view, '' @ to_string (length (variants_of val)) @ ''> result;\<newline>''
            @ (concat (map (\<lambda>(i, k, mc).
          [CHR 0x09] @ [CHR 0x09] @ ''result['' @ (if languageEnum opts = [] then to_string i
          else ''static_cast<int>('' @ languageEnum opts @ ''::''
                 @ (case lg k of Some name \<Rightarrow> name | None \<Rightarrow> []) @ '')'')
          @ ''] = '' @ (if useCompileMacro opts then ''FMT_COMPILE('' @ [CHR 0x22] @ string_of mc ''processed'' @ [CHR 0x22] @ '')''
          else [CHR 0x22] @ string_of mc ''processed'' @ [CHR 0x22])
          @ '';\<newline>'')
        (enumerate 0 (variants_of val))))
            @ [CHR 0x09] @ [CHR 0x09] @ ''return result;\<newline>''
            @ [CHR 0x09] @ ''};\<newline>''
            @ ''public:\<newline>''
            @ [CHR 0x09] @ ''static constexpr auto text = generateContent();\<newline>''
            @ ''} inline constexpr '' @ string_of val ''uniqueName'' @ '';\<newline>\<newline>''"
      unfolding e .
  qed
  ultimately show ?thesis by (intro conjI)
qed

theorem rendered_comment_is_first_nonempty_witness:
  "is_message two_comments
   \<and> renderMessage defaultAppOptions (Map.empty, []) two_comments
       = Inr (Map.empty,
            ''// '' @ [CHR 0x22] @ ''b'' @ [CHR 0x22] @ ''\<newline>''
            @ ''class \<newline>''
            @ [CHR 0x09] @ '': public internal::ChatMessageBase\<newline>''
            @ ''{\<newline>''
            @ [CHR 0x09] @ ''static constexpr auto generateContent = []\<newline>''
            @ [CHR 0x09] @ ''{\<newline>''
            @ [CHR 0x09] @ [CHR 0x09] @ ''std::array<std::string_view, 2> result;\<newline>''
            @ [CHR 0x09] @ [CHR 0x09] @ ''result[0] = FMT_COMPILE('' @ [CHR 0x22] @ ''Hallo'' @ [CHR 0x22] @ '');\<newline>''
            @ [CHR 0x09] @ [CHR 0x09] @ ''result[1] = FMT_COMPILE('' @ [CHR 0x22] @ ''Hi'' @ [CHR 0x22] @ '');\<newline>''
            @ [CHR 0x09] @ [CHR 0x09] @ ''return result;\<newline>''
            @ [CHR 0x09] @ ''};\<newline>''
            @ ''public:\<newline>''
            @ [CHR 0x09] @ ''static constexpr auto text = generateContent();\<newline>''
            @ ''} inline constexpr Greeting;\<newline>''
            @ ''\<newline>'')
   \<and> variants_of two_comments = [(''de'', JObject [(''comment'', JString []), (''processed'', JString ''Hallo'')])] @ (''en'', JObject [(''comment'', JString ''b''), (''processed'', JString ''Hi'')]) # []
   \<and> string_of (snd (''de'', JObject [(''comment'', JString []), (''processed'', JString ''Hallo'')])) ''comment'' = []
   \<and> string_of (snd (''en'', JObject [(''comment'', JString ''b''), (''processed'', JString ''Hi'')])) ''comment'' = ''b''
   \<and> ''// '' @ [CHR 0x22] @ ''b'' @ [CHR 0x22] @ ''\<newline>''
            @ ''class \<newline>''
            @ [CHR 0x09] @ '': public internal::ChatMessageBase\<newline>''
            @ ''{\<newline>''
            @ [CHR 0x09] @ ''static constexpr auto generateContent = []\<newline>''
            @ [CHR 0x09] @ ''{\<newline>''
            @ [CHR 0x09] @ [CHR 0x09] @ ''std::array<std::string_view, 2> result;\<newline>''
            @ [CHR 0x09] @ [CHR 0x09] @ ''result[0] = FMT_COMPILE('' @ [CHR 0x22] @ ''Hallo'' @ [CHR 0x22] @ '');\<newline>''
            @ [CHR 0x09] @ [CHR 0x09] @ ''result[1] = FMT_COMPILE('' @ [CHR 0x22] @ ''Hi'' @ [CHR 0x22] @ '');\<newline>''
            @ [CHR 0x09] @ [CHR 0x09] @ ''return result;\<newline>''
            @ [CHR 0x09] @ ''};\<newline>''
            @ ''public:\<newline>''
            @ [CHR 0x09] @ ''static constexpr auto text = generateContent();\<newline>''
            @ ''} inline constexpr Greeting;\<newline>''
            @ ''\<newline>''
       = [] @
            ''// '' @ [CHR 0x22] @ string_of (snd (''en'', JObject [(''comment'', JString ''b''), (''processed'', JString ''Hi'')])) ''comment'' @ [CHR 0x22] @ ''\<newline>''
            @ ''class \<newline>'' @ [CHR 0x09] @ '': public internal::ChatMessageBase\<newline>''
            @ ''{\<newline>''
            @ [CHR 0x09] @ ''static constexpr auto generateContent = []\<newline>'' @ [CHR 0x09] @ ''{\<newline>''
            @ [CHR 0x09] @ [CHR 0x09] @ ''std::array<std::string_view, '' @ to_string (length (variants_of two_comments)) @ ''> result;\<newline>''
            @ (concat (map (\<lambda>(i, k, mc).
          [CHR 0x09] @ [CHR 0x09] @ ''result['' @ (if languageEnum defaultAppOptions = [] then to_string i
          else ''static_cast<int>('' @ languageEnum defaultAppOptions @ ''::''
                 @ (case Map.empty k of Some name \<Rightarrow> name | None \<Rightarrow> []) @ '')'')
          @ ''] = '' @ (if useCompileMacro defaultAppOptions then ''FMT_COMPILE('' @ [CHR 0x22] @ string_of mc ''processed'' @ [CHR 0x22] @ '')''
          else [CHR 0x22] @ string_of mc ''processed'' @ [CHR 0x22])
          @ '';\<newline>'')
        (enumerate 0 (variants_of two_comments))))
            @ [CHR 0x09] @ [CHR 0x09] @ ''return result;\<newline>''
            @ [CHR 0x09] @ ''};\<newline>''
            @ ''public:\<newline>''
            @ [CHR 0x09] @ ''static constexpr auto text = generateContent();\<newline>''
            @ ''} inline constexpr '' @ string_of two_comments ''uniqueName'' @ '';\<newline>\<newline>''"
proof -
  have ev: "renderMessage defaultAppOptions (Map.empty, []) two_comments
       = Inr (Map.empty,
            ''// '' @ [CHR 0x22] @ ''b'' @ [CHR 0x22] @ ''\<newline>''
            @ ''class \<newline>''
            @ [CHR 0x09] @ '': public internal::ChatMessageBase\<newline>''
            @ ''{\<newline>''
            @ [CHR 0x09] @ ''static constexpr auto generateContent = []\<newline>''
            @ [CHR 0x09] @ ''{\<newline>''
            @ [CHR 0x09] @ [CHR 0x09] @ ''std::array<std::string_view, 2> result;\<newline>''
            @ [CHR 0x09] @ [CHR 0x09] @ ''result[0] = FMT_COMPILE('' @ [CHR 0x22] @ ''Hallo'' @ [CHR 0x22] @ '');\<newline>''
            @ [CHR 0x09] @ [CHR 0x09] @ ''result[1] = FMT_COMPILE('' @ [CHR 0x22] @ ''Hi'' @ [CHR 0x22] @ '');\<newline>''
            @ [CHR 0x09] @ [CHR 0x09] @ ''return result;\<newline>''
            @ [CHR 0x09] @ ''};\<newline>''
            @ ''public:\<newline>''
            @ [CHR 0x09] @ ''static constexpr auto text = generateContent();\<newline>''
            @ ''} inline constexpr Greeting;\<newline>''
            @ ''\<newline>'')"
    by (simp add: two_comments_def defaultAppOptions_def 
          renderMessage_def contains_def renderVariant_def lang_subscript_def
          formatBlock_def TAB_def DQ_def Let_def to_string.simps)
  have v: "variants_of two_comments = [(''de'', JObject [(''comment'', JString []), (''processed'', JString ''Hallo'')])] @ (''en'', JObject [(''comment'', JString ''b''), (''processed'', JString ''Hi'')]) # []"
    by (simp add: two_comments_variants)
  have p: "\<forall>w \<in> set [(''de'', JObject [(''comment'', JString []), (''processed'', JString ''Hallo'')])]. string_of (snd w) ''comment'' = []"
    by (simp add: string_of_def)
  have c: "string_of (snd (''en'', JObject [(''comment'', JString ''b''), (''processed'', JString ''Hi'')])) ''comment'' = ''b''"
    by (simp add: string_of_def)
  have ne: "string_of (snd (''en'', JObject [(''comment'', JString ''b''), (''processed'', JString ''Hi'')])) ''comment'' \<noteq> []"
    by (simp add: string_of_def)
  note t = rendered_comment_is_first_nonempty
             [OF two_comments_is_message ev, THEN conjunct2, THEN conjunct2, rule_format,
              of "[(''de'', JObject [(''comment'', JString []), (''processed'', JString ''Hallo'')])]" "(''en'', JObject [(''comment'', JString ''b''), (''processed'', JString ''Hi'')])" "[]"]
  from t [OF conjI [OF v conjI [OF p ne]]]
  have "''// '' @ [CHR 0x22] @ ''b'' @ [CHR 0x22] @ ''\<newline>''
            @ ''class \<newline>''
            @ [CHR 0x09] @ '': public internal::ChatMessageBase\<newline>''
            @ ''{\<newline>''
            @ [CHR 0x09] @ ''static constexpr auto generateContent = []\<newline>''
            @ [CHR 0x09] @ ''{\<newline>''
            @ [CHR 0x09] @ [CHR 0x09] @ ''std::array<std::string_view, 2> result;\<newline>''
            @ [CHR 0x09] @ [CHR 0x09] @ ''result[0] = FMT_COMPILE('' @ [CHR 0x22] @ ''Hallo'' @ [CHR 0x22] @ '');\<newline>''
            @ [CHR 0x09] @ [CHR 0x09] @ ''result[1] = FMT_COMPILE('' @ [CHR 0x22] @ ''Hi'' @ [CHR 0x22] @ '');\<newline>''
            @ [CHR 0x09] @ [CHR 0x09] @ ''return result;\<newline>''
            @ [CHR 0x09] @ ''};\<newline>''
            @ ''public:\<newline>''
            @ [CHR 0x09] @ ''static constexpr auto text = generateContent();\<newline>''
            @ ''} inline constexpr Greeting;\<newline>''
            @ ''\<newline>''
       = [] @
            ''// '' @ [CHR 0x22] @ string_of (snd (''en'', JObject [(''comment'', JString ''b''), (''processed'', JString ''Hi'')])) ''comment'' @ [CHR 0x22] @ ''\<newline>''
            @ ''class \<newline>'' @ [CHR 0x09] @ '': public internal::ChatMessageBase\<newline>''
            @ ''{\<newline>''
            @ [CHR 0x09] @ ''static constexpr auto generateContent = []\<newline>'' @ [CHR 0x09] @ ''{\<newline>''
            @ [CHR 0x09] @ [CHR 0x09] @ ''std::array<std::string_view, '' @ to_string (length (variants_of two_comments)) @ ''> result;\<newline>''
            @ (concat (map (\<lambda>(i, k, mc).
          [CHR 0x09] @ [CHR 0x09] @ ''result['' @ (if languageEnum defaultAppOptions = [] then to_string i
          else ''static_cast<int>('' @ languageEnum defaultAppOptions @ ''::''
                 @ (case Map.empty k of Some name \<Rightarrow> name | None \<Rightarrow> []) @ '')'')
          @ ''] = '' @ (if useCompileMacro defaultAppOptions then ''FMT_COMPILE('' @ [CHR 0x22] @ string_of mc ''processed'' @ [CHR 0x22] @ '')''
          else [CHR 0x22] @ string_of mc ''processed'' @ [CHR 0x22])
          @ '';\<newline>'')
        (enumerate 0 (variants_of two_comments))))
            @ [CHR 0x09] @ [CHR 0x09] @ ''return result;\<newline>''
            @ [CHR 0x09] @ ''};\<newline>''
            @ ''public:\<newline>''
            @ [CHR 0x09] @ ''static constexpr auto text = generateContent();\<newline>''
            @ ''} inline constexpr '' @ string_of two_comments ''uniqueName'' @ '';\<newline>\<newline>''" .
  moreover have "string_of (snd (''de'', JObject [(''comment'', JString []), (''processed'', JString ''Hallo'')])) ''comment'' = []"
    by (simp add: string_of_def)
  ultimately show ?thesis using two_comments_is_message ev v c by (intro conjI)
qed

section \<open>Positional indices in the output\<close>

lemma positional_lines:
  assumes "languageEnum opts = []"
  shows "concat (map (\<lambda>(i, k, mc).
          [CHR 0x09] @ [CHR 0x09] @ ''result['' @ (if languageEnum opts = [] then to_string i
          else ''static_cast<int>('' @ languageEnum opts @ ''::''
                 @ (case lg k of Some name \<Rightarrow> name | None \<Rightarrow> []) @ '')'')
          @ ''] = '' @ (if useCompileMacro opts then ''FMT_COMPILE('' @ [CHR 0x22] @ string_of mc ''processed'' @ [CHR 0x22] @ '')''
          else [CHR 0x22] @ string_of mc ''processed'' @ [CHR 0x22])
          @ '';\<newline>'')
        (enumerate 0 (vs)))
       = concat (map (\<lambda>i.
          [CHR 0x09] @ [CHR 0x09] @ ''result['' @ to_string i
          @ ''] = '' @ (if useCompileMacro opts then ''FMT_COMPILE('' @ [CHR 0x22] @ string_of (snd ((vs) ! i)) ''processed'' @ [CHR 0x22] @ '')''
          else [CHR 0x22] @ string_of (snd ((vs) ! i)) ''processed'' @ [CHR 0x22])
          @ '';\<newline>'')
        [0..<length (vs)])"
  using assms by (simp add: enumerate_nth comp_def split_def cong: if_cong)

text \<open>
  Claim C6. With an empty \<open>languageEnum\<close>, the block of a message with \<open>N\<close> variants
  declares \<open>std::array<std::string_view, N>\<close> and holds, between that declaration and
  the \<open>return\<close>, one line \<open>result[i] = \<dots>;\<close> for each \<open>i\<close> from \<open>0\<close> to \<open>N - 1\<close>, in
  this order, with the text of the variant at position \<open>i\<close> of the iteration. The
  numbers are written in decimal, so each index is written once. A message without
  variants is rendered, with the size \<open>0\<close> and no line.
\<close>

theorem positional_indices_cover_the_variants:
  "(is_message val \<and> languageEnum opts = []
      \<and> renderMessage opts (lg, cc) val = Inr (lg', cc')
    \<longrightarrow> cc' = cc @
            ''// '' @ [CHR 0x22] @ first_nonempty_comment (variants_of val) @ [CHR 0x22] @ ''\<newline>''
            @ ''class \<newline>'' @ [CHR 0x09] @ '': public internal::ChatMessageBase\<newline>''
            @ ''{\<newline>''
            @ [CHR 0x09] @ ''static constexpr auto generateContent = []\<newline>'' @ [CHR 0x09] @ ''{\<newline>''
            @ [CHR 0x09] @ [CHR 0x09] @ ''std::array<std::string_view, '' @ to_string (length (variants_of val)) @ ''> result;\<newline>''
            @ (concat (map (\<lambda>i.
          [CHR 0x09] @ [CHR 0x09] @ ''result['' @ to_string i
          @ ''] = '' @ (if useCompileMacro opts then ''FMT_COMPILE('' @ [CHR 0x22] @ string_of (snd ((variants_of val) ! i)) ''processed'' @ [CHR 0x22] @ '')''
          else [CHR 0x22] @ string_of (snd ((variants_of val) ! i)) ''processed'' @ [CHR 0x22])
          @ '';\<newline>'')
        [0..<length (variants_of val)]))
            @ [CHR 0x09] @ [CHR 0x09] @ ''return result;\<newline>''
            @ [CHR 0x09] @ ''};\<newline>''
            @ ''public:\<newline>''
            @ [CHR 0x09] @ ''static constexpr auto text = generateContent();\<newline>''
            @ ''} inline constexpr '' @ string_of val ''uniqueName'' @ '';\<newline>\<newline>'')
   \<and> (is_message val \<and> has_string val ''uniqueName'' \<and> variants_of val = []
      \<longrightarrow> renderMessage opts (lg, cc) val
            = Inr (lg, cc @
            ''// '' @ [CHR 0x22] @ [] @ [CHR 0x22] @ ''\<newline>''
            @ ''class \<newline>'' @ [CHR 0x09] @ '': public internal::ChatMessageBase\<newline>''
            @ ''{\<newline>''
            @ [CHR 0x09] @ ''static constexpr auto generateContent = []\<newline>'' @ [CHR 0x09] @ ''{\<newline>''
            @ [CHR 0x09] @ [CHR 0x09] @ ''std::array<std::string_view, '' @ ''0'' @ ''> result;\<newline>''
            @ []
            @ [CHR 0x09] @ [CHR 0x09] @ ''return result;\<newline>''
            @ [CHR 0x09] @ ''};\<newline>''
            @ ''public:\<newline>''
            @ [CHR 0x09] @ ''static constexpr auto text = generateContent();\<newline>''
            @ ''} inline constexpr '' @ string_of val ''uniqueName'' @ '';\<newline>\<newline>''))
   \<and> (\<forall>n. decimal_value (to_string n) = n)
   \<and> (\<forall>m n. to_string m = to_string n \<longrightarrow> m = n)"
proof (intro conjI impI allI)
  have fb: "formatBlock cmt n lc uniqueName =
            ''// '' @ [CHR 0x22] @ cmt @ [CHR 0x22] @ ''\<newline>''
            @ ''class \<newline>'' @ [CHR 0x09] @ '': public internal::ChatMessageBase\<newline>''
            @ ''{\<newline>''
            @ [CHR 0x09] @ ''static constexpr auto generateContent = []\<newline>'' @ [CHR 0x09] @ ''{\<newline>''
            @ [CHR 0x09] @ [CHR 0x09] @ ''std::array<std::string_view, '' @ to_string n @ ''> result;\<newline>''
            @ lc
            @ [CHR 0x09] @ [CHR 0x09] @ ''return result;\<newline>''
            @ [CHR 0x09] @ ''};\<newline>''
            @ ''public:\<newline>''
            @ [CHR 0x09] @ ''static constexpr auto text = generateContent();\<newline>''
            @ ''} inline constexpr '' @ uniqueName @ '';\<newline>\<newline>''"
    for cmt n lc uniqueName
    by (simp add: formatBlock_def TAB_def DQ_def)
  have al: "assignment opts lg =
            (\<lambda>(i, k, mc).
          [CHR 0x09] @ [CHR 0x09] @ ''result['' @ (if languageEnum opts = [] then to_string i
          else ''static_cast<int>('' @ languageEnum opts @ ''::''
                 @ (case lg k of Some name \<Rightarrow> name | None \<Rightarrow> []) @ '')'')
          @ ''] = '' @ (if useCompileMacro opts then ''FMT_COMPILE('' @ [CHR 0x22] @ string_of mc ''processed'' @ [CHR 0x22] @ '')''
          else [CHR 0x22] @ string_of mc ''processed'' @ [CHR 0x22])
          @ '';\<newline>'')"
    by (rule ext)
       (simp add: assignment_def index_expr_def literal_def name_of_def TAB_def DQ_def
          split_def)
  have mb: "messageBlock opts lg val =
            ''// '' @ [CHR 0x22] @ first_nonempty_comment (variants_of val) @ [CHR 0x22] @ ''\<newline>''
            @ ''class \<newline>'' @ [CHR 0x09] @ '': public internal::ChatMessageBase\<newline>''
            @ ''{\<newline>''
            @ [CHR 0x09] @ ''static constexpr auto generateContent = []\<newline>'' @ [CHR 0x09] @ ''{\<newline>''
            @ [CHR 0x09] @ [CHR 0x09] @ ''std::array<std::string_view, '' @ to_string (length (variants_of val)) @ ''> result;\<newline>''
            @ (concat (map (\<lambda>(i, k, mc).
          [CHR 0x09] @ [CHR 0x09] @ ''result['' @ (if languageEnum opts = [] then to_string i
          else ''static_cast<int>('' @ languageEnum opts @ ''::''
                 @ (case lg k of Some name \<Rightarrow> name | None \<Rightarrow> []) @ '')'')
          @ ''] = '' @ (if useCompileMacro opts then ''FMT_COMPILE('' @ [CHR 0x22] @ string_of mc ''processed'' @ [CHR 0x22] @ '')''
          else [CHR 0x22] @ string_of mc ''processed'' @ [CHR 0x22])
          @ '';\<newline>'')
        (enumerate 0 (variants_of val))))
            @ [CHR 0x09] @ [CHR 0x09] @ ''return result;\<newline>''
            @ [CHR 0x09] @ ''};\<newline>''
            @ ''public:\<newline>''
            @ [CHR 0x09] @ ''static constexpr auto text = generateContent();\<newline>''
            @ ''} inline constexpr '' @ string_of val ''uniqueName'' @ '';\<newline>\<newline>''"
    for val
    by (simp only: messageBlock_def fb al)
  have step: "comment st' = (if comment st = [] then string_of (snd v) ''comment''
                       else comment st)
        \<and> langContent st'
            = langContent st @ assignment opts (langs st) (langIndex st, v)
        \<and> langIndex st' = Suc (langIndex st)
        \<and> name_of (langs st') = name_of (langs st)"
    if "renderVariant opts st v = Inr st'" for st v st'
    using that
    by (auto simp: renderVariant_def Let_def assignment_def index_expr_def literal_def
          string_of_def dest!: lang_subscript_pair elim!: get_string.elims
          split: sum.splits if_splits prod.splits)
  assume a: "is_message val \<and> languageEnum opts = []
      \<and> renderMessage opts (lg, cc) val = Inr (lg', cc')"
  then have "is_message val" and "renderMessage opts (lg, cc) val = Inr (lg', cc')"
    by simp_all
  from renderMessage_by_step [OF step this]
  have m: "cc' = cc @ messageBlock opts lg val" by (rule conjunct1)
  from a have e: "languageEnum opts = []" by simp
  show "cc' = cc @
            ''// '' @ [CHR 0x22] @ first_nonempty_comment (variants_of val) @ [CHR 0x22] @ ''\<newline>''
            @ ''class \<newline>'' @ [CHR 0x09] @ '': public internal::ChatMessageBase\<newline>''
            @ ''{\<newline>''
            @ [CHR 0x09] @ ''static constexpr auto generateContent = []\<newline>'' @ [CHR 0x09] @ ''{\<newline>''
            @ [CHR 0x09] @ [CHR 0x09] @ ''std::array<std::string_view, '' @ to_string (length (variants_of val)) @ ''> result;\<newline>''
            @ (concat (map (\<lambda>i.
          [CHR 0x09] @ [CHR 0x09] @ ''result['' @ to_string i
          @ ''] = '' @ (if useCompileMacro opts then ''FMT_COMPILE('' @ [CHR 0x22] @ string_of (snd ((variants_of val) ! i)) ''processed'' @ [CHR 0x22] @ '')''
          else [CHR 0x22] @ string_of (snd ((variants_of val) ! i)) ''processed'' @ [CHR 0x22])
          @ '';\<newline>'')
        [0..<length (variants_of val)]))
            @ [CHR 0x09] @ [CHR 0x09] @ ''return result;\<newline>''
            @ [CHR 0x09] @ ''};\<newline>''
            @ ''public:\<newline>''
            @ [CHR 0x09] @ ''static constexpr auto text = generateContent();\<newline>''
            @ ''} inline constexpr '' @ string_of val ''uniqueName'' @ '';\<newline>\<newline>''"
    using m unfolding mb positional_lines [OF e] .
next
  have fb: "formatBlock cmt n lc uniqueName =
            ''// '' @ [CHR 0x22] @ cmt @ [CHR 0x22] @ ''\<newline>''
            @ ''class \<newline>'' @ [CHR 0x09] @ '': public internal::ChatMessageBase\<newline>''
            @ ''{\<newline>''
            @ [CHR 0x09] @ ''static constexpr auto generateContent = []\<newline>'' @ [CHR 0x09] @ ''{\<newline>''
            @ [CHR 0x09] @ [CHR 0x09] @ ''std::array<std::string_view, '' @ to_string n @ ''> result;\<newline>''
            @ lc
            @ [CHR 0x09] @ [CHR 0x09] @ ''return result;\<newline>''
            @ [CHR 0x09] @ ''};\<newline>''
            @ ''public:\<newline>''
            @ [CHR 0x09] @ ''static constexpr auto text = generateContent();\<newline>''
            @ ''} inline constexpr '' @ uniqueName @ '';\<newline>\<newline>''"
    for cmt n lc uniqueName
    by (simp add: formatBlock_def TAB_def DQ_def)
  have z: "to_string 0 = ''0''" by (simp add: to_string.simps)
  assume "is_message val \<and> has_string val ''uniqueName'' \<and> variants_of val = []"
  then have "renderMessage opts (lg, cc) val
      = Inr (lg, cc @ formatBlock [] 0 [] (string_of val ''uniqueName''))"
    by (simp add: renderMessage_no_variants)
  then show "renderMessage opts (lg, cc) val
            = Inr (lg, cc @
            ''// '' @ [CHR 0x22] @ [] @ [CHR 0x22] @ ''\<newline>''
            @ ''class \<newline>'' @ [CHR 0x09] @ '': public internal::ChatMessageBase\<newline>''
            @ ''{\<newline>''
            @ [CHR 0x09] @ ''static constexpr auto generateContent = []\<newline>'' @ [CHR 0x09] @ ''{\<newline>''
            @ [CHR 0x09] @ [CHR 0x09] @ ''std::array<std::string_view, '' @ ''0'' @ ''> result;\<newline>''
            @ []
            @ [CHR 0x09] @ [CHR 0x09] @ ''return result;\<newline>''
            @ [CHR 0x09] @ ''};\<newline>''
            @ ''public:\<newline>''
            @ [CHR 0x09] @ ''static constexpr auto text = generateContent();\<newline>''
            @ ''} inline constexpr '' @ string_of val ''uniqueName'' @ '';\<newline>\<newline>'')"
    by (simp only: fb z)
next
  fix n
  show "decimal_value (to_string n) = n"
    by (rule decimal_value_digits [where f = to_string]) (rule to_string.simps)
next
  fix m n
  assume "to_string m = to_string n"
  then show "m = n"
    by (rule digits_inj [where f = to_string, rotated]) (rule to_string.simps)
qed

theorem positional_indices_cover_the_variants_witness:
  "is_message two_languages \<and> languageEnum defaultAppOptions = []
   \<and> renderMessage defaultAppOptions (Map.empty, []) two_languages
       = Inr (Map.empty,
            ''// '' @ [CHR 0x22] @ ''a'' @ [CHR 0x22] @ ''\<newline>''
            @ ''class \<newline>''
            @ [CHR 0x09] @ '': public internal::ChatMessageBase\<newline>''
            @ ''{\<newline>''
            @ [CHR 0x09] @ ''static constexpr auto generateContent = []\<newline>''
            @ [CHR 0x09] @ ''{\<newline>''
            @ [CHR 0x09] @ [CHR 0x09] @ ''std::array<std::string_view, 2> result;\<newline>''
            @ [CHR 0x09] @ [CHR 0x09] @ ''result[0] = FMT_COMPILE('' @ [CHR 0x22] @ ''Hallo'' @ [CHR 0x22] @ '');\<newline>''
            @ [CHR 0x09] @ [CHR 0x09] @ ''result[1] = FMT_COMPILE('' @ [CHR 0x22] @ ''Hi'' @ [CHR 0x22] @ '');\<newline>''
            @ [CHR 0x09] @ [CHR 0x09] @ ''return result;\<newline>''
            @ [CHR 0x09] @ ''};\<newline>''
            @ ''public:\<newline>''
            @ [CHR 0x09] @ ''static constexpr auto text = generateContent();\<newline>''
            @ ''} inline constexpr Greeting;\<newline>''
            @ ''\<newline>'')
   \<and> length (variants_of two_languages) = 2
   \<and> ''// '' @ [CHR 0x22] @ ''a'' @ [CHR 0x22] @ ''\<newline>''
            @ ''class \<newline>''
            @ [CHR 0x09] @ '': public internal::ChatMessageBase\<newline>''
            @ ''{\<newline>''
            @ [CHR 0x09] @ ''static constexpr auto generateContent = []\<newline>''
            @ [CHR 0x09] @ ''{\<newline>''
            @ [CHR 0x09] @ [CHR 0x09] @ ''std::array<std::string_view, 2> result;\<newline>''
            @ [CHR 0x09] @ [CHR 0x09] @ ''result[0] = FMT_COMPILE('' @ [CHR 0x22] @ ''Hallo'' @ [CHR 0x22] @ '');\<newline>''
            @ [CHR 0x09] @ [CHR 0x09] @ ''result[1] = FMT_COMPILE('' @ [CHR 0x22] @ ''Hi'' @ [CHR 0x22] @ '');\<newline>''
            @ [CHR 0x09] @ [CHR 0x09] @ ''return result;\<newline>''
            @ [CHR 0x09] @ ''};\<newline>''
            @ ''public:\<newline>''
            @ [CHR 0x09] @ ''static constexpr auto text = generateContent();\<newline>''
            @ ''} inline constexpr Greeting;\<newline>''
            @ ''\<newline>''
       = [] @
            ''// '' @ [CHR 0x22] @ first_nonempty_comment (variants_of two_languages) @ [CHR 0x22] @ ''\<newline>''
            @ ''class \<newline>'' @ [CHR 0x09] @ '': public internal::ChatMessageBase\<newline>''
            @ ''{\<newline>''
            @ [CHR 0x09] @ ''static constexpr auto generateContent = []\<newline>'' @ [CHR 0x09] @ ''{\<newline>''
            @ [CHR 0x09] @ [CHR 0x09] @ ''std::array<std::string_view, '' @ to_string (length (variants_of two_languages)) @ ''> result;\<newline>''
            @ (concat (map (\<lambda>i.
          [CHR 0x09] @ [CHR 0x09] @ ''result['' @ to_string i
          @ ''] = '' @ (if useCompileMacro defaultAppOptions then ''FMT_COMPILE('' @ [CHR 0x22] @ string_of (snd ((variants_of two_languages) ! i)) ''processed'' @ [CHR 0x22] @ '')''
          else [CHR 0x22] @ string_of (snd ((variants_of two_languages) ! i)) ''processed'' @ [CHR 0x22])
          @ '';\<newline>'')
        [0..<length (variants_of two_languages)]))
            @ [CHR 0x09] @ [CHR 0x09] @ ''return result;\<newline>''
            @ [CHR 0x09] @ ''};\<newline>''
            @ ''public:\<newline>''
            @ [CHR 0x09] @ ''static constexpr auto text = generateContent();\<newline>''
            @ ''} inline constexpr '' @ string_of two_languages ''uniqueName'' @ '';\<newline>\<newline>''
   \<and> is_message no_variants \<and> has_string no_variants ''uniqueName''
   \<and> variants_of no_variants = []
   \<and> renderMessage defaultAppOptions (Map.empty, []) no_variants
       = Inr (Map.empty,
            ''// '' @ [CHR 0x22] @ [CHR 0x22] @ ''\<newline>''
            @ ''class \<newline>''
            @ [CHR 0x09] @ '': public internal::ChatMessageBase\<newline>''
            @ ''{\<newline>''
            @ [CHR 0x09] @ ''static constexpr auto generateContent = []\<newline>''
            @ [CHR 0x09] @ ''{\<newline>''
            @ [CHR 0x09] @ [CHR 0x09] @ ''std::array<std::string_view, 0> result;\<newline>''
            @ [CHR 0x09] @ [CHR 0x09] @ ''return result;\<newline>''
            @ [CHR 0x09] @ ''};\<newline>''
            @ ''public:\<newline>''
            @ [CHR 0x09] @ ''static constexpr auto text = generateContent();\<newline>''
            @ ''} inline constexpr Silent;\<newline>''
            @ ''\<newline>'')
   \<and> renderMessage defaultAppOptions (Map.empty, []) no_variants
       = Inr (Map.empty, [] @
            ''// '' @ [CHR 0x22] @ [] @ [CHR 0x22] @ ''\<newline>''
            @ ''class \<newline>'' @ [CHR 0x09] @ '': public internal::ChatMessageBase\<newline>''
            @ ''{\<newline>''
            @ [CHR 0x09] @ ''static constexpr auto generateContent = []\<newline>'' @ [CHR 0x09] @ ''{\<newline>''
            @ [CHR 0x09] @ [CHR 0x09] @ ''std::array<std::string_view, '' @ ''0'' @ ''> result;\<newline>''
            @ []
            @ [CHR 0x09] @ [CHR 0x09] @ ''return result;\<newline>''
            @ [CHR 0x09] @ ''};\<newline>''
            @ ''public:\<newline>''
            @ [CHR 0x09] @ ''static constexpr auto text = generateContent();\<newline>''
            @ ''} inline constexpr '' @ string_of no_variants ''uniqueName'' @ '';\<newline>\<newline>'')"
proof -
  have ev: "renderMessage defaultAppOptions (Map.empty, []) two_languages
       = Inr (Map.empty,
            ''// '' @ [CHR 0x22] @ ''a'' @ [CHR 0x22] @ ''\<newline>''
            @ ''class \<newline>''
            @ [CHR 0x09] @ '': public internal::ChatMessageBase\<newline>''
            @ ''{\<newline>''
            @ [CHR 0x09] @ ''static constexpr auto generateContent = []\<newline>''
            @ [CHR 0x09] @ ''{\<newline>''
            @ [CHR 0x09] @ [CHR 0x09] @ ''std::array<std::string_view, 2> result;\<newline>''
            @ [CHR 0x09] @ [CHR 0x09] @ ''result[0] = FMT_COMPILE('' @ [CHR 0x22] @ ''Hallo'' @ [CHR 0x22] @ '');\<newline>''
            @ [CHR 0x09] @ [CHR 0x09] @ ''result[1] = FMT_COMPILE('' @ [CHR 0x22] @ ''Hi'' @ [CHR 0x22] @ '');\<newline>''
            @ [CHR 0x09] @ [CHR 0x09] @ ''return result;\<newline>''
            @ [CHR 0x09] @ ''};\<newline>''
            @ ''public:\<newline>''
            @ [CHR 0x09] @ ''static constexpr auto text = generateContent();\<newline>''
            @ ''} inline constexpr Greeting;\<newline>''
            @ ''\<newline>'')"
    by (simp add: two_languages_def defaultAppOptions_def 
          renderMessage_def contains_def renderVariant_def lang_subscript_def
          formatBlock_def TAB_def DQ_def Let_def to_string.simps)
  have ez: "renderMessage defaultAppOptions (Map.empty, []) no_variants
       = Inr (Map.empty,
            ''// '' @ [CHR 0x22] @ [CHR 0x22] @ ''\<newline>''
            @ ''class \<newline>''
            @ [CHR 0x09] @ '': public internal::ChatMessageBase\<newline>''
            @ ''{\<newline>''
            @ [CHR 0x09] @ ''static constexpr auto generateContent = []\<newline>''
            @ [CHR 0x09] @ ''{\<newline>''
            @ [CHR 0x09] @ [CHR 0x09] @ ''std::array<std::string_view, 0> result;\<newline>''
            @ [CHR 0x09] @ [CHR 0x09] @ ''return result;\<newline>''
            @ [CHR 0x09] @ ''};\<newline>''
            @ ''public:\<newline>''
            @ [CHR 0x09] @ ''static constexpr auto text = generateContent();\<newline>''
            @ ''} inline constexpr Silent;\<newline>''
            @ ''\<newline>'')"
    by (simp add: no_variants_def defaultAppOptions_def 
          renderMessage_def contains_def renderVariant_def lang_subscript_def
          formatBlock_def TAB_def DQ_def Let_def to_string.simps)
  have e: "languageEnum defaultAppOptions = []" by (simp add: defaultAppOptions_def)
  have u: "has_string no_variants ''uniqueName''"
    by (simp add: has_string_def no_variants_def)
  have n: "length (variants_of two_languages) = 2" by (simp add: two_languages_variants)
  note t = positional_indices_cover_the_variants
             [where val = two_languages and opts = defaultAppOptions and lg = Map.empty
                and cc = "[]" and lg' = Map.empty and cc' = "''// '' @ [CHR 0x22] @ ''a'' @ [CHR 0x22] @ ''\<newline>''
            @ ''class \<newline>''
            @ [CHR 0x09] @ '': public internal::ChatMessageBase\<newline>''
            @ ''{\<newline>''
            @ [CHR 0x09] @ ''static constexpr auto generateContent = []\<newline>''
            @ [CHR 0x09] @ ''{\<newline>''
            @ [CHR 0x09] @ [CHR 0x09] @ ''std::array<std::string_view, 2> result;\<newline>''
            @ [CHR 0x09] @ [CHR 0x09] @ ''result[0] = FMT_COMPILE('' @ [CHR 0x22] @ ''Hallo'' @ [CHR 0x22] @ '');\<newline>''
            @ [CHR 0x09] @ [CHR 0x09] @ ''result[1] = FMT_COMPILE('' @ [CHR 0x22] @ ''Hi'' @ [CHR 0x22] @ '');\<newline>''
            @ [CHR 0x09] @ [CHR 0x09] @ ''return result;\<newline>''
            @ [CHR 0x09] @ ''};\<newline>''
            @ ''public:\<newline>''
            @ [CHR 0x09] @ ''static constexpr auto text = generateContent();\<newline>''
            @ ''} inline constexpr Greeting;\<newline>''
            @ ''\<newline>''"]
  from t [THEN conjunct1] two_languages_is_message e ev
  have first: "''// '' @ [CHR 0x22] @ ''a'' @ [CHR 0x22] @ ''\<newline>''
            @ ''class \<newline>''
            @ [CHR 0x09] @ '': public internal::ChatMessageBase\<newline>''
            @ ''{\<newline>''
            @ [CHR 0x09] @ ''static constexpr auto generateContent = []\<newline>''
            @ [CHR 0x09] @ ''{\<newline>''
            @ [CHR 0x09] @ [CHR 0x09] @ ''std::array<std::string_view, 2> result;\<newline>''
            @ [CHR 0x09] @ [CHR 0x09] @ ''result[0] = FMT_COMPILE('' @ [CHR 0x22] @ ''Hallo'' @ [CHR 0x22] @ '');\<newline>''
            @ [CHR 0x09] @ [CHR 0x09] @ ''result[1] = FMT_COMPILE('' @ [CHR 0x22] @ ''Hi'' @ [CHR 0x22] @ '');\<newline>''
            @ [CHR 0x09] @ [CHR 0x09] @ ''return result;\<newline>''
            @ [CHR 0x09] @ ''};\<newline>''
            @ ''public:\<newline>''
            @ [CHR 0x09] @ ''static constexpr auto text = generateContent();\<newline>''
            @ ''} inline constexpr Greeting;\<newline>''
            @ ''\<newline>''
       = [] @
            ''// '' @ [CHR 0x22] @ first_nonempty_comment (variants_of two_languages) @ [CHR 0x22] @ ''\<newline>''
            @ ''class \<newline>'' @ [CHR 0x09] @ '': public internal::ChatMessageBase\<newline>''
            @ ''{\<newline>''
            @ [CHR 0x09] @ ''static constexpr auto generateContent = []\<newline>'' @ [CHR 0x09] @ ''{\<newline>''
            @ [CHR 0x09] @ [CHR 0x09] @ ''std::array<std::string_view, '' @ to_string (length (variants_of two_languages)) @ ''> result;\<newline>''
            @ (concat (map (\<lambda>i.
          [CHR 0x09] @ [CHR 0x09] @ ''result['' @ to_string i
          @ ''] = '' @ (if useCompileMacro defaultAppOptions then ''FMT_COMPILE('' @ [CHR 0x22] @ string_of (snd ((variants_of two_languages) ! i)) ''processed'' @ [CHR 0x22] @ '')''
          else [CHR 0x22] @ string_of (snd ((variants_of two_languages) ! i)) ''processed'' @ [CHR 0x22])
          @ '';\<newline>'')
        [0..<length (variants_of two_languages)]))
            @ [CHR 0x09] @ [CHR 0x09] @ ''return result;\<newline>''
            @ [CHR 0x09] @ ''};\<newline>''
            @ ''public:\<newline>''
            @ [CHR 0x09] @ ''static constexpr auto text = generateContent();\<newline>''
            @ ''} inline constexpr '' @ string_of two_languages ''uniqueName'' @ '';\<newline>\<newline>''"
    by (rule mp [OF _ conjI [OF _ conjI]])
  note z = positional_indices_cover_the_variants
             [where val = no_variants and opts = defaultAppOptions and lg = Map.empty
                and cc = "[]"]
  from z [THEN conjunct2, THEN conjunct1] no_variants_is_message u no_variants_variants
  have second: "renderMessage defaultAppOptions (Map.empty, []) no_variants
       = Inr (Map.empty, [] @
            ''// '' @ [CHR 0x22] @ [] @ [CHR 0x22] @ ''\<newline>''
            @ ''class \<newline>'' @ [CHR 0x09] @ '': public internal::ChatMessageBase\<newline>''
            @ ''{\<newline>''
            @ [CHR 0x09] @ ''static constexpr auto generateContent = []\<newline>'' @ [CHR 0x09] @ ''{\<newline>''
            @ [CHR 0x09] @ [CHR 0x09] @ ''std::array<std::string_view, '' @ ''0'' @ ''> result;\<newline>''
            @ []
            @ [CHR 0x09] @ [CHR 0x09] @ ''return result;\<newline>''
            @ [CHR 0x09] @ ''};\<newline>''
            @ ''public:\<newline>''
            @ [CHR 0x09] @ ''static constexpr auto text = generateContent();\<newline>''
            @ ''} inline constexpr '' @ string_of no_variants ''uniqueName'' @ '';\<newline>\<newline>'')"
    by (rule mp [OF _ conjI [OF _ conjI]])
  from two_languages_is_message e ev n first no_variants_is_message u
    no_variants_variants ez second
  show ?thesis by (intro conjI)
qed

section \<open>The output of a document, character by character\<close>

text \<open>
  Claim C5. When \<open>chatMessages\<close> is an array and the run produces output, that output
  holds, between the declaration of the base type and the end, one block for each
  entry that is an object with both a \<open>uniqueName\<close> and a \<open>content\<close> key, in the order
  of the entries, and nothing for the others: there are as many blocks as such entries,
  none of them empty, and an entry of any other shape leaves the language table and the
  text as they are and raises nothing.
\<close>

theorem one_block_per_message_entry:
  assumes "find_key j ''chatMessages'' = Some (JArray entries)"
      and "parseChatJson opts j = Inr out"
  shows "\<exists>lg blocks.
           buildLanguages j = Inr lg
           \<and> blocks = map (\<lambda>val.
                ''// '' @ [CHR 0x22] @ first_nonempty_comment (variants_of val) @ [CHR 0x22] @ ''\<newline>''
                @ ''class \<newline>'' @ [CHR 0x09] @ '': public internal::ChatMessageBase\<newline>''
                @ ''{\<newline>''
                @ [CHR 0x09] @ ''static constexpr auto generateContent = []\<newline>'' @ [CHR 0x09] @ ''{\<newline>''
                @ [CHR 0x09] @ [CHR 0x09] @ ''std::array<std::string_view, '' @ to_string (length (variants_of val)) @ ''> result;\<newline>''
                @ (concat (map (\<lambda>(i, k, mc).
          [CHR 0x09] @ [CHR 0x09] @ ''result['' @ (if languageEnum opts = [] then to_string i
          else ''static_cast<int>('' @ languageEnum opts @ ''::''
                 @ (case lg k of Some name \<Rightarrow> name | None \<Rightarrow> []) @ '')'')
          @ ''] = '' @ (if useCompileMacro opts then ''FMT_COMPILE('' @ [CHR 0x22] @ string_of mc ''processed'' @ [CHR 0x22] @ '')''
          else [CHR 0x22] @ string_of mc ''processed'' @ [CHR 0x22])
          @ '';\<newline>'')
        (enumerate 0 (variants_of val))))
                @ [CHR 0x09] @ [CHR 0x09] @ ''return result;\<newline>''
                @ [CHR 0x09] @ ''};\<newline>''
                @ ''public:\<newline>''
                @ [CHR 0x09] @ ''static constexpr auto text = generateContent();\<newline>''
                @ ''} inline constexpr '' @ string_of val ''uniqueName'' @ '';\<newline>\<newline>'')
                (filter (\<lambda>val. json_type val = t_object \<and> contains val ''uniqueName''
                     \<and> contains val ''content'') entries)
           \<and> out =
             (if usePragmaOnce opts then ''#pragma once\<newline>\<newline>'' else [])
             @ (if pch opts \<noteq> [] then ''#include '' @ pch opts @ ''\<newline>'' else [])
             @ concat (map (\<lambda>headerFile. ''#include '' @ headerFile @ ''\<newline>'')
                         (headerFiles opts))
             @ ''\<newline>\<newline>''
             @ (if ns opts \<noteq> [] then ''namespace '' @ ns opts @ ''\<newline>{\<newline>\<newline>'' else [])
             @ ''namespace internal {\<newline>struct ChatMessageBase {};\<newline>}\<newline>\<newline>''
             @ concat blocks
             @ (if ns opts \<noteq> [] then ''\<newline>}\<newline>'' else [])
           \<and> length blocks = length (filter (\<lambda>val. json_type val = t_object \<and> contains val ''uniqueName''
                     \<and> contains val ''content'') entries)
           \<and> (\<forall>b \<in> set blocks. b \<noteq> [])
           \<and> (\<forall>val acc.
                 \<not> (json_type val = t_object \<and> contains val ''uniqueName''
                      \<and> contains val ''content'')
                 \<longrightarrow> renderMessage opts acc val = Inr acc)"
proof -
  have step: "comment st' = (if comment st = [] then string_of (snd v) ''comment''
                       else comment st)
        \<and> langContent st'
            = langContent st @ assignment opts (langs st) (langIndex st, v)
        \<and> langIndex st' = Suc (langIndex st)
        \<and> name_of (langs st') = name_of (langs st)"
    if "renderVariant opts st v = Inr st'" for st v st'
    using that
    by (auto simp: renderVariant_def Let_def assignment_def index_expr_def literal_def
          string_of_def dest!: lang_subscript_pair elim!: get_string.elims
          split: sum.splits if_splits prod.splits)
  from parseChatJson_by_step [OF step assms(2)] chatMessages_of_eq [OF assms(1)]
  obtain lg where b: "buildLanguages j = Inr lg"
      and o: "out = assembleOutput opts
                (concat (map (messageBlock opts lg) (filter is_message entries)))"
    by auto
  have fb: "formatBlock cmt n lc uniqueName =
            ''// '' @ [CHR 0x22] @ cmt @ [CHR 0x22] @ ''\<newline>''
            @ ''class \<newline>'' @ [CHR 0x09] @ '': public internal::ChatMessageBase\<newline>''
            @ ''{\<newline>''
            @ [CHR 0x09] @ ''static constexpr auto generateContent = []\<newline>'' @ [CHR 0x09] @ ''{\<newline>''
            @ [CHR 0x09] @ [CHR 0x09] @ ''std::array<std::string_view, '' @ to_string n @ ''> result;\<newline>''
            @ lc
            @ [CHR 0x09] @ [CHR 0x09] @ ''return result;\<newline>''
            @ [CHR 0x09] @ ''};\<newline>''
            @ ''public:\<newline>''
            @ [CHR 0x09] @ ''static constexpr auto text = generateContent();\<newline>''
            @ ''} inline constexpr '' @ uniqueName @ '';\<newline>\<newline>''"
    for cmt n lc uniqueName
    by (simp add: formatBlock_def TAB_def DQ_def)
  have al: "assignment opts lg =
            (\<lambda>(i, k, mc).
          [CHR 0x09] @ [CHR 0x09] @ ''result['' @ (if languageEnum opts = [] then to_string i
          else ''static_cast<int>('' @ languageEnum opts @ ''::''
                 @ (case lg k of Some name \<Rightarrow> name | None \<Rightarrow> []) @ '')'')
          @ ''] = '' @ (if useCompileMacro opts then ''FMT_COMPILE('' @ [CHR 0x22] @ string_of mc ''processed'' @ [CHR 0x22] @ '')''
          else [CHR 0x22] @ string_of mc ''processed'' @ [CHR 0x22])
          @ '';\<newline>'')"
    by (rule ext)
       (simp add: assignment_def index_expr_def literal_def name_of_def TAB_def DQ_def
          split_def)
  have mb: "messageBlock opts lg val =
            ''// '' @ [CHR 0x22] @ first_nonempty_comment (variants_of val) @ [CHR 0x22] @ ''\<newline>''
            @ ''class \<newline>'' @ [CHR 0x09] @ '': public internal::ChatMessageBase\<newline>''
            @ ''{\<newline>''
            @ [CHR 0x09] @ ''static constexpr auto generateContent = []\<newline>'' @ [CHR 0x09] @ ''{\<newline>''
            @ [CHR 0x09] @ [CHR 0x09] @ ''std::array<std::string_view, '' @ to_string (length (variants_of val)) @ ''> result;\<newline>''
            @ (concat (map (\<lambda>(i, k, mc).
          [CHR 0x09] @ [CHR 0x09] @ ''result['' @ (if languageEnum opts = [] then to_string i
          else ''static_cast<int>('' @ languageEnum opts @ ''::''
                 @ (case lg k of Some name \<Rightarrow> name | None \<Rightarrow> []) @ '')'')
          @ ''] = '' @ (if useCompileMacro opts then ''FMT_COMPILE('' @ [CHR 0x22] @ string_of mc ''processed'' @ [CHR 0x22] @ '')''
          else [CHR 0x22] @ string_of mc ''processed'' @ [CHR 0x22])
          @ '';\<newline>'')
        (enumerate 0 (variants_of val))))
            @ [CHR 0x09] @ [CHR 0x09] @ ''return result;\<newline>''
            @ [CHR 0x09] @ ''};\<newline>''
            @ ''public:\<newline>''
            @ [CHR 0x09] @ ''static constexpr auto text = generateContent();\<newline>''
            @ ''} inline constexpr '' @ string_of val ''uniqueName'' @ '';\<newline>\<newline>''"
    for val
    by (simp only: messageBlock_def fb al)
  have mbf: "messageBlock opts lg =
            (\<lambda>val.
            ''// '' @ [CHR 0x22] @ first_nonempty_comment (variants_of val) @ [CHR 0x22] @ ''\<newline>''
            @ ''class \<newline>'' @ [CHR 0x09] @ '': public internal::ChatMessageBase\<newline>''
            @ ''{\<newline>''
            @ [CHR 0x09] @ ''static constexpr auto generateContent = []\<newline>'' @ [CHR 0x09] @ ''{\<newline>''
            @ [CHR 0x09] @ [CHR 0x09] @ ''std::array<std::string_view, '' @ to_string (length (variants_of val)) @ ''> result;\<newline>''
            @ (concat (map (\<lambda>(i, k, mc).
          [CHR 0x09] @ [CHR 0x09] @ ''result['' @ (if languageEnum opts = [] then to_string i
          else ''static_cast<int>('' @ languageEnum opts @ ''::''
                 @ (case lg k of Some name \<Rightarrow> name | None \<Rightarrow> []) @ '')'')
          @ ''] = '' @ (if useCompileMacro opts then ''FMT_COMPILE('' @ [CHR 0x22] @ string_of mc ''processed'' @ [CHR 0x22] @ '')''
          else [CHR 0x22] @ string_of mc ''processed'' @ [CHR 0x22])
          @ '';\<newline>'')
        (enumerate 0 (variants_of val))))
            @ [CHR 0x09] @ [CHR 0x09] @ ''return result;\<newline>''
            @ [CHR 0x09] @ ''};\<newline>''
            @ ''public:\<newline>''
            @ [CHR 0x09] @ ''static constexpr auto text = generateContent();\<newline>''
            @ ''} inline constexpr '' @ string_of val ''uniqueName'' @ '';\<newline>\<newline>'')"
    by (rule ext) (rule mb)
  have ao: "assembleOutput opts cc =
             (if usePragmaOnce opts then ''#pragma once\<newline>\<newline>'' else [])
             @ (if pch opts \<noteq> [] then ''#include '' @ pch opts @ ''\<newline>'' else [])
             @ concat (map (\<lambda>headerFile. ''#include '' @ headerFile @ ''\<newline>'')
                         (headerFiles opts))
             @ ''\<newline>\<newline>''
             @ (if ns opts \<noteq> [] then ''namespace '' @ ns opts @ ''\<newline>{\<newline>\<newline>'' else [])
             @ ''namespace internal {\<newline>struct ChatMessageBase {};\<newline>}\<newline>\<newline>''
             @ cc
             @ (if ns opts \<noteq> [] then ''\<newline>}\<newline>'' else [])"
    for cc
    by (simp add: assembleOutput_def Let_def appendHeaderFiles_eq)
  let ?blocks = "map (\<lambda>val.
                ''// '' @ [CHR 0x22] @ first_nonempty_comment (variants_of val) @ [CHR 0x22] @ ''\<newline>''
                @ ''class \<newline>'' @ [CHR 0x09] @ '': public internal::ChatMessageBase\<newline>''
                @ ''{\<newline>''
                @ [CHR 0x09] @ ''static constexpr auto generateContent = []\<newline>'' @ [CHR 0x09] @ ''{\<newline>''
                @ [CHR 0x09] @ [CHR 0x09] @ ''std::array<std::string_view, '' @ to_string (length (variants_of val)) @ ''> result;\<newline>''
                @ (concat (map (\<lambda>(i, k, mc).
          [CHR 0x09] @ [CHR 0x09] @ ''result['' @ (if languageEnum opts = [] then to_string i
          else ''static_cast<int>('' @ languageEnum opts @ ''::''
                 @ (case lg k of Some name \<Rightarrow> name | None \<Rightarrow> []) @ '')'')
          @ ''] = '' @ (if useCompileMacro opts then ''FMT_COMPILE('' @ [CHR 0x22] @ string_of mc ''processed'' @ [CHR 0x22] @ '')''
          else [CHR 0x22] @ string_of mc ''processed'' @ [CHR 0x22])
          @ '';\<newline>'')
        (enumerate 0 (variants_of val))))
                @ [CHR 0x09] @ [CHR 0x09] @ ''return result;\<newline>''
                @ [CHR 0x09] @ ''};\<newline>''
                @ ''public:\<newline>''
                @ [CHR 0x09] @ ''static constexpr auto text = generateContent();\<newline>''
                @ ''} inline constexpr '' @ string_of val ''uniqueName'' @ '';\<newline>\<newline>'')
                (filter (\<lambda>val. json_type val = t_object \<and> contains val ''uniqueName''
                     \<and> contains val ''content'') entries)"
  have ne: "\<forall>b \<in> set ?blocks. b \<noteq> []" by auto
  have skip: "\<forall>val acc.
                 \<not> (json_type val = t_object \<and> contains val ''uniqueName''
                      \<and> contains val ''content'')
                 \<longrightarrow> renderMessage opts acc val = Inr acc"
    using renderMessage_skip unfolding is_message_eq by blast
  have len: "length ?blocks = length (filter (\<lambda>val. json_type val = t_object \<and> contains val ''uniqueName''
                     \<and> contains val ''content'') entries)"
    by (rule length_map)
  have o': "out =
             (if usePragmaOnce opts then ''#pragma once\<newline>\<newline>'' else [])
             @ (if pch opts \<noteq> [] then ''#include '' @ pch opts @ ''\<newline>'' else [])
             @ concat (map (\<lambda>headerFile. ''#include '' @ headerFile @ ''\<newline>'')
                         (headerFiles opts))
             @ ''\<newline>\<newline>''
             @ (if ns opts \<noteq> [] then ''namespace '' @ ns opts @ ''\<newline>{\<newline>\<newline>'' else [])
             @ ''namespace internal {\<newline>struct ChatMessageBase {};\<newline>}\<newline>\<newline>''
             @ concat ?blocks
             @ (if ns opts \<noteq> [] then ''\<newline>}\<newline>'' else [])"
    unfolding o ao mbf is_message_eq ..
  show ?thesis
    by (rule exI [of _ lg], rule exI [of _ ?blocks]) (intro conjI b refl o' len ne skip)
qed

theorem one_block_per_message_entry_witness:
  "find_key example_document ''chatMessages'' = Some (JArray example_entries)
   \<and> parseChatJson defaultAppOptions example_document
       = Inr (''#pragma once\<newline>''
            @ ''\<newline>''
            @ ''\<newline>''
            @ ''\<newline>''
            @ ''namespace internal {\<newline>''
            @ ''struct ChatMessageBase {};\<newline>''
            @ ''}\<newline>''
            @ ''\<newline>''
            @ ''// '' @ [CHR 0x22] @ ''a'' @ [CHR 0x22] @ ''\<newline>''
            @ ''class \<newline>''
            @ [CHR 0x09] @ '': public internal::ChatMessageBase\<newline>''
            @ ''{\<newline>''
            @ [CHR 0x09] @ ''static constexpr auto generateContent = []\<newline>''
            @ [CHR 0x09] @ ''{\<newline>''
            @ [CHR 0x09] @ [CHR 0x09] @ ''std::array<std::string_view, 2> result;\<newline>''
            @ [CHR 0x09] @ [CHR 0x09] @ ''result[0] = FMT_COMPILE('' @ [CHR 0x22] @ ''Hallo'' @ [CHR 0x22] @ '');\<newline>''
            @ [CHR 0x09] @ [CHR 0x09] @ ''result[1] = FMT_COMPILE('' @ [CHR 0x22] @ ''Hi'' @ [CHR 0x22] @ '');\<newline>''
            @ [CHR 0x09] @ [CHR 0x09] @ ''return result;\<newline>''
            @ [CHR 0x09] @ ''};\<newline>''
            @ ''public:\<newline>''
            @ [CHR 0x09] @ ''static constexpr auto text = generateContent();\<newline>''
            @ ''} inline constexpr Greeting;\<newline>''
            @ ''\<newline>''
            @ ''// '' @ [CHR 0x22] @ [CHR 0x22] @ ''\<newline>''
            @ ''class \<newline>''
            @ [CHR 0x09] @ '': public internal::ChatMessageBase\<newline>''
            @ ''{\<newline>''
            @ [CHR 0x09] @ ''static constexpr auto generateContent = []\<newline>''
            @ [CHR 0x09] @ ''{\<newline>''
            @ [CHR 0x09] @ [CHR 0x09] @ ''std::array<std::string_view, 0> result;\<newline>''
            @ [CHR 0x09] @ [CHR 0x09] @ ''return result;\<newline>''
            @ [CHR 0x09] @ ''};\<newline>''
            @ ''public:\<newline>''
            @ [CHR 0x09] @ ''static constexpr auto text = generateContent();\<newline>''
            @ ''} inline constexpr Silent;\<newline>''
            @ ''\<newline>'')
   \<and> length example_entries = 4
   \<and> filter (\<lambda>val. json_type val = t_object \<and> contains val ''uniqueName''
                     \<and> contains val ''content'') example_entries
       = [two_languages, no_variants]
   \<and> (\<exists>lg blocks.
           buildLanguages example_document = Inr lg
           \<and> blocks = map (\<lambda>val.
                ''// '' @ [CHR 0x22] @ first_nonempty_comment (variants_of val) @ [CHR 0x22] @ ''\<newline>''
                @ ''class \<newline>'' @ [CHR 0x09] @ '': public internal::ChatMessageBase\<newline>''
                @ ''{\<newline>''
                @ [CHR 0x09] @ ''static constexpr auto generateContent = []\<newline>'' @ [CHR 0x09] @ ''{\<newline>''
                @ [CHR 0x09] @ [CHR 0x09] @ ''std::array<std::string_view, '' @ to_string (length (variants_of val)) @ ''> result;\<newline>''
                @ (concat (map (\<lambda>(i, k, mc).
          [CHR 0x09] @ [CHR 0x09] @ ''result['' @ (if languageEnum defaultAppOptions = [] then to_string i
          else ''static_cast<int>('' @ languageEnum defaultAppOptions @ ''::''
                 @ (case lg k of Some name \<Rightarrow> name | None \<Rightarrow> []) @ '')'')
          @ ''] = '' @ (if useCompileMacro defaultAppOptions then ''FMT_COMPILE('' @ [CHR 0x22] @ string_of mc ''processed'' @ [CHR 0x22] @ '')''
          else [CHR 0x22] @ string_of mc ''processed'' @ [CHR 0x22])
          @ '';\<newline>'')
        (enumerate 0 (variants_of val))))
                @ [CHR 0x09] @ [CHR 0x09] @ ''return result;\<newline>''
                @ [CHR 0x09] @ ''};\<newline>''
                @ ''public:\<newline>''
                @ [CHR 0x09] @ ''static constexpr auto text = generateContent();\<newline>''
                @ ''} inline constexpr '' @ string_of val ''uniqueName'' @ '';\<newline>\<newline>'')
                [two_languages, no_variants]
           \<and> parseChatJson defaultAppOptions example_document
               = Inr ((if usePragmaOnce defaultAppOptions then ''#pragma once\<newline>\<newline>'' else [])
             @ (if pch defaultAppOptions \<noteq> [] then ''#include '' @ pch defaultAppOptions @ ''\<newline>'' else [])
             @ concat (map (\<lambda>headerFile. ''#include '' @ headerFile @ ''\<newline>'')
                         (headerFiles defaultAppOptions))
             @ ''\<newline>\<newline>''
             @ (if ns defaultAppOptions \<noteq> [] then ''namespace '' @ ns defaultAppOptions @ ''\<newline>{\<newline>\<newline>'' else [])
             @ ''namespace internal {\<newline>struct ChatMessageBase {};\<newline>}\<newline>\<newline>''
             @ concat blocks
             @ (if ns defaultAppOptions \<noteq> [] then ''\<newline>}\<newline>'' else []))
           \<and> length blocks = 2)
   \<and> renderMessage defaultAppOptions (example_table, ''x'') (JString ''note'')
       = Inr (example_table, ''x'')"
proof -
  have ev: "parseChatJson defaultAppOptions example_document
       = Inr (''#pragma once\<newline>''
            @ ''\<newline>''
            @ ''\<newline>''
            @ ''\<newline>''
            @ ''namespace internal {\<newline>''
            @ ''struct ChatMessageBase {};\<newline>''
            @ ''}\<newline>''
            @ ''\<newline>''
            @ ''// '' @ [CHR 0x22] @ ''a'' @ [CHR 0x22] @ ''\<newline>''
            @ ''class \<newline>''
            @ [CHR 0x09] @ '': public internal::ChatMessageBase\<newline>''
            @ ''{\<newline>''
            @ [CHR 0x09] @ ''static constexpr auto generateContent = []\<newline>''
            @ [CHR 0x09] @ ''{\<newline>''
            @ [CHR 0x09] @ [CHR 0x09] @ ''std::array<std::string_view, 2> result;\<newline>''
            @ [CHR 0x09] @ [CHR 0x09] @ ''result[0] = FMT_COMPILE('' @ [CHR 0x22] @ ''Hallo'' @ [CHR 0x22] @ '');\<newline>''
            @ [CHR 0x09] @ [CHR 0x09] @ ''result[1] = FMT_COMPILE('' @ [CHR 0x22] @ ''Hi'' @ [CHR 0x22] @ '');\<newline>''
            @ [CHR 0x09] @ [CHR 0x09] @ ''return result;\<newline>''
            @ [CHR 0x09] @ ''};\<newline>''
            @ ''public:\<newline>''
            @ [CHR 0x09] @ ''static constexpr auto text = generateContent();\<newline>''
            @ ''} inline constexpr Greeting;\<newline>''
            @ ''\<newline>''
            @ ''// '' @ [CHR 0x22] @ [CHR 0x22] @ ''\<newline>''
            @ ''class \<newline>''
            @ [CHR 0x09] @ '': public internal::ChatMessageBase\<newline>''
            @ ''{\<newline>''
            @ [CHR 0x09] @ ''static constexpr auto generateContent = []\<newline>''
            @ [CHR 0x09] @ ''{\<newline>''
            @ [CHR 0x09] @ [CHR 0x09] @ ''std::array<std::string_view, 0> result;\<newline>''
            @ [CHR 0x09] @ [CHR 0x09] @ ''return result;\<newline>''
            @ [CHR 0x09] @ ''};\<newline>''
            @ ''public:\<newline>''
            @ [CHR 0x09] @ ''static constexpr auto text = generateContent();\<newline>''
            @ ''} inline constexpr Silent;\<newline>''
            @ ''\<newline>'')"
    by (simp add: defaultAppOptions_def
          parseChatJson_def chatContentOf_def buildLanguages_def readChatMessages_def
          example_document_def example_entries_def two_languages_def no_variants_def
          contains_def renderMessage_def renderVariant_def lang_subscript_def
          assembleOutput_def formatBlock_def TAB_def DQ_def Let_def to_string.simps)
  have f: "filter (\<lambda>val. json_type val = t_object \<and> contains val ''uniqueName''
                     \<and> contains val ''content'') example_entries
       = [two_languages, no_variants]"
    using example_entries_messages unfolding is_message_eq .
  have n: "length example_entries = 4" by (simp add: example_entries_def)
  from one_block_per_message_entry [OF example_document_messages ev]
  obtain lg blocks where b: "buildLanguages example_document = Inr lg"
    and bl: "blocks = map (\<lambda>val.
                ''// '' @ [CHR 0x22] @ first_nonempty_comment (variants_of val) @ [CHR 0x22] @ ''\<newline>''
                @ ''class \<newline>'' @ [CHR 0x09] @ '': public internal::ChatMessageBase\<newline>''
                @ ''{\<newline>''
                @ [CHR 0x09] @ ''static constexpr auto generateContent = []\<newline>'' @ [CHR 0x09] @ ''{\<newline>''
                @ [CHR 0x09] @ [CHR 0x09] @ ''std::array<std::string_view, '' @ to_string (length (variants_of val)) @ ''> result;\<newline>''
                @ (concat (map (\<lambda>(i, k, mc).
          [CHR 0x09] @ [CHR 0x09] @ ''result['' @ (if languageEnum defaultAppOptions = [] then to_string i
          else ''static_cast<int>('' @ languageEnum defaultAppOptions @ ''::''
                 @ (case lg k of Some name \<Rightarrow> name | None \<Rightarrow> []) @ '')'')
          @ ''] = '' @ (if useCompileMacro defaultAppOptions then ''FMT_COMPILE('' @ [CHR 0x22] @ string_of mc ''processed'' @ [CHR 0x22] @ '')''
          else [CHR 0x22] @ string_of mc ''processed'' @ [CHR 0x22])
          @ '';\<newline>'')
        (enumerate 0 (variants_of val))))
                @ [CHR 0x09] @ [CHR 0x09] @ ''return result;\<newline>''
                @ [CHR 0x09] @ ''};\<newline>''
                @ ''public:\<newline>''
                @ [CHR 0x09] @ ''static constexpr auto text = generateContent();\<newline>''
                @ ''} inline constexpr '' @ string_of val ''uniqueName'' @ '';\<newline>\<newline>'')
                (filter (\<lambda>val. json_type val = t_object \<and> contains val ''uniqueName''
                     \<and> contains val ''content'') example_entries)"
    and o: "''#pragma once\<newline>''
            @ ''\<newline>''
            @ ''\<newline>''
            @ ''\<newline>''
            @ ''namespace internal {\<newline>''
            @ ''struct ChatMessageBase {};\<newline>''
            @ ''}\<newline>''
            @ ''\<newline>''
            @ ''// '' @ [CHR 0x22] @ ''a'' @ [CHR 0x22] @ ''\<newline>''
            @ ''class \<newline>''
            @ [CHR 0x09] @ '': public internal::ChatMessageBase\<newline>''
            @ ''{\<newline>''
            @ [CHR 0x09] @ ''static constexpr auto generateContent = []\<newline>''
            @ [CHR 0x09] @ ''{\<newline>''
            @ [CHR 0x09] @ [CHR 0x09] @ ''std::array<std::string_view, 2> result;\<newline>''
            @ [CHR 0x09] @ [CHR 0x09] @ ''result[0] = FMT_COMPILE('' @ [CHR 0x22] @ ''Hallo'' @ [CHR 0x22] @ '');\<newline>''
            @ [CHR 0x09] @ [CHR 0x09] @ ''result[1] = FMT_COMPILE('' @ [CHR 0x22] @ ''Hi'' @ [CHR 0x22] @ '');\<newline>''
            @ [CHR 0x09] @ [CHR 0x09] @ ''return result;\<newline>''
            @ [CHR 0x09] @ ''};\<newline>''
            @ ''public:\<newline>''
            @ [CHR 0x09] @ ''static constexpr auto text = generateContent();\<newline>''
            @ ''} inline constexpr Greeting;\<newline>''
            @ ''\<newline>''
            @ ''// '' @ [CHR 0x22] @ [CHR 0x22] @ ''\<newline>''
            @ ''class \<newline>''
            @ [CHR 0x09] @ '': public internal::ChatMessageBase\<newline>''
            @ ''{\<newline>''
            @ [CHR 0x09] @ ''static constexpr auto generateContent = []\<newline>''
            @ [CHR 0x09] @ ''{\<newline>''
            @ [CHR 0x09] @ [CHR 0x09] @ ''std::array<std::string_view, 0> result;\<newline>''
            @ [CHR 0x09] @ [CHR 0x09] @ ''return result;\<newline>''
            @ [CHR 0x09] @ ''};\<newline>''
            @ ''public:\<newline>''
            @ [CHR 0x09] @ ''static constexpr auto text = generateContent();\<newline>''
            @ ''} inline constexpr Silent;\<newline>''
            @ ''\<newline>'' =
             (if usePragmaOnce defaultAppOptions then ''#pragma once\<newline>\<newline>'' else [])
             @ (if pch defaultAppOptions \<noteq> [] then ''#include '' @ pch defaultAppOptions @ ''\<newline>'' else [])
             @ concat (map (\<lambda>headerFile. ''#include '' @ headerFile @ ''\<newline>'')
                         (headerFiles defaultAppOptions))
             @ ''\<newline>\<newline>''
             @ (if ns defaultAppOptions \<noteq> [] then ''namespace '' @ ns defaultAppOptions @ ''\<newline>{\<newline>\<newline>'' else [])
             @ ''namespace internal {\<newline>struct ChatMessageBase {};\<newline>}\<newline>\<newline>''
             @ concat blocks
             @ (if ns defaultAppOptions \<noteq> [] then ''\<newline>}\<newline>'' else [])"
    and l: "length blocks = length (filter (\<lambda>val. json_type val = t_object \<and> contains val ''uniqueName''
                     \<and> contains val ''content'') example_entries)"
    and s: "\<forall>val acc.
                 \<not> (json_type val = t_object \<and> contains val ''uniqueName''
                      \<and> contains val ''content'')
                 \<longrightarrow> renderMessage defaultAppOptions acc val = Inr acc"
    by blast
  from s have k: "renderMessage defaultAppOptions (example_table, ''x'') (JString ''note'')
       = Inr (example_table, ''x'')"
    by simp
  from o ev
  have p: "parseChatJson defaultAppOptions example_document
               = Inr ((if usePragmaOnce defaultAppOptions then ''#pragma once\<newline>\<newline>'' else [])
             @ (if pch defaultAppOptions \<noteq> [] then ''#include '' @ pch defaultAppOptions @ ''\<newline>'' else [])
             @ concat (map (\<lambda>headerFile. ''#include '' @ headerFile @ ''\<newline>'')
                         (headerFiles defaultAppOptions))
             @ ''\<newline>\<newline>''
             @ (if ns defaultAppOptions \<noteq> [] then ''namespace '' @ ns defaultAppOptions @ ''\<newline>{\<newline>\<newline>'' else [])
             @ ''namespace internal {\<newline>struct ChatMessageBase {};\<newline>}\<newline>\<newline>''
             @ concat blocks
             @ (if ns defaultAppOptions \<noteq> [] then ''\<newline>}\<newline>'' else []))"
    by (simp only:)
  from l have l2: "length blocks = 2" unfolding f by simp
  have "\<exists>lg blocks.
           buildLanguages example_document = Inr lg
           \<and> blocks = map (\<lambda>val.
                ''// '' @ [CHR 0x22] @ first_nonempty_comment (variants_of val) @ [CHR 0x22] @ ''\<newline>''
                @ ''class \<newline>'' @ [CHR 0x09] @ '': public internal::ChatMessageBase\<newline>''
                @ ''{\<newline>''
                @ [CHR 0x09] @ ''static constexpr auto generateContent = []\<newline>'' @ [CHR 0x09] @ ''{\<newline>''
                @ [CHR 0x09] @ [CHR 0x09] @ ''std::array<std::string_view, '' @ to_string (length (variants_of val)) @ ''> result;\<newline>''
                @ (concat (map (\<lambda>(i, k, mc).
          [CHR 0x09] @ [CHR 0x09] @ ''result['' @ (if languageEnum defaultAppOptions = [] then to_string i
          else ''static_cast<int>('' @ languageEnum defaultAppOptions @ ''::''
                 @ (case lg k of Some name \<Rightarrow> name | None \<Rightarrow> []) @ '')'')
          @ ''] = '' @ (if useCompileMacro defaultAppOptions then ''FMT_COMPILE('' @ [CHR 0x22] @ string_of mc ''processed'' @ [CHR 0x22] @ '')''
          else [CHR 0x22] @ string_of mc ''processed'' @ [CHR 0x22])
          @ '';\<newline>'')
        (enumerate 0 (variants_of val))))
                @ [CHR 0x09] @ [CHR 0x09] @ ''return result;\<newline>''
                @ [CHR 0x09] @ ''};\<newline>''
                @ ''public:\<newline>''
                @ [CHR 0x09] @ ''static constexpr auto text = generateContent();\<newline>''
                @ ''} inline constexpr '' @ string_of val ''uniqueName'' @ '';\<newline>\<newline>'')
                [two_languages, no_variants]
           \<and> parseChatJson defaultAppOptions example_document
               = Inr ((if usePragmaOnce defaultAppOptions then ''#pragma once\<newline>\<newline>'' else [])
             @ (if pch defaultAppOptions \<noteq> [] then ''#include '' @ pch defaultAppOptions @ ''\<newline>'' else [])
             @ concat (map (\<lambda>headerFile. ''#include '' @ headerFile @ ''\<newline>'')
                         (headerFiles defaultAppOptions))
             @ ''\<newline>\<newline>''
             @ (if ns defaultAppOptions \<noteq> [] then ''namespace '' @ ns defaultAppOptions @ ''\<newline>{\<newline>\<newline>'' else [])
             @ ''namespace internal {\<newline>struct ChatMessageBase {};\<newline>}\<newline>\<newline>''
             @ concat blocks
             @ (if ns defaultAppOptions \<noteq> [] then ''\<newline>}\<newline>'' else []))
           \<and> length blocks = 2"
    by (rule exI [of _ lg], rule exI [of _ blocks])
       (intro conjI b bl [unfolded f] p l2)
  with example_document_messages ev n f k show ?thesis by (intro conjI)
qed

section \<open>Languages that are not in the table\<close>

lemma enum_lines:
  assumes "languageEnum opts \<noteq> []"
  shows "concat (map (\<lambda>(i, k, mc).
          [CHR 0x09] @ [CHR 0x09] @ ''result['' @ (if languageEnum opts = [] then to_string i
          else ''static_cast<int>('' @ languageEnum opts @ ''::''
                 @ (case lg k of Some name \<Rightarrow> name | None \<Rightarrow> []) @ '')'')
          @ ''] = '' @ (if useCompileMacro opts then ''FMT_COMPILE('' @ [CHR 0x22] @ string_of mc ''processed'' @ [CHR 0x22] @ '')''
          else [CHR 0x22] @ string_of mc ''processed'' @ [CHR 0x22])
          @ '';\<newline>'')
        (enumerate 0 (vs)))
       = concat (map (\<lambda>(i, k, mc).
          [CHR 0x09] @ [CHR 0x09] @ ''result['' @ ''static_cast<int>('' @ languageEnum opts @ ''::''
                 @ (case lg k of Some name \<Rightarrow> name | None \<Rightarrow> []) @ '')''
          @ ''] = '' @ (if useCompileMacro opts then ''FMT_COMPILE('' @ [CHR 0x22] @ string_of mc ''processed'' @ [CHR 0x22] @ '')''
          else [CHR 0x22] @ string_of mc ''processed'' @ [CHR 0x22])
          @ '';\<newline>'')
        (enumerate 0 (vs)))"
  using assms by (simp cong: if_cong)

lemma formatBlock_split:
  "formatBlock cmt n lc uniqueName =
     (''// '' @ DQ @ cmt @ DQ @ ''\<newline>''
      @ ''class \<newline>'' @ TAB @ '': public internal::ChatMessageBase\<newline>''
      @ ''{\<newline>''
      @ TAB @ ''static constexpr auto generateContent = []\<newline>'' @ TAB @ ''{\<newline>''
      @ TAB @ TAB @ ''std::array<std::string_view, '' @ to_string n @ ''> result;\<newline>'')
     @ lc
     @ (TAB @ TAB @ ''return result;\<newline>''
        @ TAB @ ''};\<newline>''
        @ ''public:\<newline>''
        @ TAB @ ''static constexpr auto text = generateContent();\<newline>''
        @ ''} inline constexpr '' @ uniqueName @ '';\<newline>\<newline>'')"
  by (simp add: formatBlock_def)

lemma assembleOutput_split:
  "assembleOutput opts chatContent =
     ((if usePragmaOnce opts then ''#pragma once\<newline>\<newline>'' else [])
      @ (if pch opts \<noteq> [] then ''#include '' @ pch opts @ ''\<newline>'' else [])
      @ concat (map (\<lambda>headerFile. ''#include '' @ headerFile @ ''\<newline>'') (headerFiles opts))
      @ ''\<newline>\<newline>''
      @ (if ns opts \<noteq> [] then ''namespace '' @ ns opts @ ''\<newline>{\<newline>\<newline>'' else [])
      @ ''namespace internal {\<newline>struct ChatMessageBase {};\<newline>}\<newline>\<newline>'')
     @ chatContent
     @ (if ns opts \<noteq> [] then ''\<newline>}\<newline>'' else [])"
  by (simp add: assembleOutput_eq)

lemma assignment_in_output:
  assumes "val \<in> set msgs" and "v \<in> set (variants_of val)"
  shows "\<exists>i. sublist (assignment opts lg (i, v))
               (assembleOutput opts (concat (map (messageBlock opts lg) msgs)))"
proof -
  from assms(2) obtain i where i: "i < length (variants_of val)" "variants_of val ! i = v"
    by (auto simp: in_set_conv_nth)
  then have "(i, v) \<in> set (enumerate 0 (variants_of val))"
    by (auto simp: enumerate_nth)
  then have "assignment opts lg (i, v)
      \<in> set (map (assignment opts lg) (enumerate 0 (variants_of val)))"
    by (intro in_set_mapI)
  then have "sublist (assignment opts lg (i, v))
      (concat (map (assignment opts lg) (enumerate 0 (variants_of val))))"
    by (rule sublist_concat_mem)
  then have "sublist (assignment opts lg (i, v)) (messageBlock opts lg val)"
    unfolding messageBlock_def formatBlock_split by (rule sublist_in_append)
  moreover from assms(1) have "messageBlock opts lg val \<in> set (map (messageBlock opts lg) msgs)"
    by simp
  then have "sublist (messageBlock opts lg val) (concat (map (messageBlock opts lg) msgs))"
    by (rule sublist_concat_mem)
  then have "sublist (messageBlock opts lg val)
      (assembleOutput opts (concat (map (messageBlock opts lg) msgs)))"
    unfolding assembleOutput_split by (rule sublist_in_append)
  ultimately show ?thesis by (blast intro: sublist_trans)
qed

text \<open>
  Claim C3. With a non-empty \<open>languageEnum\<close>, a variant whose language identifier is not
  in the language table does not make rendering fail: a document whose message entries
  have a string \<open>uniqueName\<close> and variants with string \<open>comment\<close> and \<open>processed\<close>
  fields is rendered. In the output the index of a variant is the cast of the enum
  qualifier followed by the name the table has for its identifier and by nothing when it
  has none, so for each variant of a message whose identifier is not in the table the
  output contains the line with \<open>static_cast<int>(<languageEnum>::)\<close>.
\<close>

theorem absent_language_renders_empty_name:
  assumes "languageEnum opts \<noteq> []"
      and "json_type j = t_object"
      and "buildLanguages j = Inr lg"
      and "find_key j ''chatMessages'' = Some (JArray entries)"
      and "\<forall>val \<in> set entries. is_message val \<longrightarrow>
             has_string val ''uniqueName'' \<and>
             (\<forall>v \<in> set (variants_of val).
                has_string (snd v) ''comment'' \<and> has_string (snd v) ''processed'')"
  shows "\<exists>out.
           parseChatJson opts j = Inr out
           \<and> out =
             (if usePragmaOnce opts then ''#pragma once\<newline>\<newline>'' else [])
             @ (if pch opts \<noteq> [] then ''#include '' @ pch opts @ ''\<newline>'' else [])
             @ concat (map (\<lambda>headerFile. ''#include '' @ headerFile @ ''\<newline>'')
                         (headerFiles opts))
             @ ''\<newline>\<newline>''
             @ (if ns opts \<noteq> [] then ''namespace '' @ ns opts @ ''\<newline>{\<newline>\<newline>'' else [])
             @ ''namespace internal {\<newline>struct ChatMessageBase {};\<newline>}\<newline>\<newline>''
             @ concat (map (\<lambda>val.
                ''// '' @ [CHR 0x22] @ first_nonempty_comment (variants_of val) @ [CHR 0x22] @ ''\<newline>''
                @ ''class \<newline>'' @ [CHR 0x09] @ '': public internal::ChatMessageBase\<newline>''
                @ ''{\<newline>''
                @ [CHR 0x09] @ ''static constexpr auto generateContent = []\<newline>'' @ [CHR 0x09] @ ''{\<newline>''
                @ [CHR 0x09] @ [CHR 0x09] @ ''std::array<std::string_view, '' @ to_string (length (variants_of val)) @ ''> result;\<newline>''
                @ (concat (map (\<lambda>(i, k, mc).
          [CHR 0x09] @ [CHR 0x09] @ ''result['' @ ''static_cast<int>('' @ languageEnum opts @ ''::''
                 @ (case lg k of Some name \<Rightarrow> name | None \<Rightarrow> []) @ '')''
          @ ''] = '' @ (if useCompileMacro opts then ''FMT_COMPILE('' @ [CHR 0x22] @ string_of mc ''processed'' @ [CHR 0x22] @ '')''
          else [CHR 0x22] @ string_of mc ''processed'' @ [CHR 0x22])
          @ '';\<newline>'')
        (enumerate 0 (variants_of val))))
                @ [CHR 0x09] @ [CHR 0x09] @ ''return result;\<newline>''
                @ [CHR 0x09] @ ''};\<newline>''
                @ ''public:\<newline>''
                @ [CHR 0x09] @ ''static constexpr auto text = generateContent();\<newline>''
                @ ''} inline constexpr '' @ string_of val ''uniqueName'' @ '';\<newline>\<newline>'')
                (filter is_message entries))
             @ (if ns opts \<noteq> [] then ''\<newline>}\<newline>'' else [])
           \<and> (\<forall>val \<in> set (filter is_message entries).
                 \<forall>v \<in> set (variants_of val).
                   lg (fst v) = None \<longrightarrow>
                   sublist
                     ([CHR 0x09] @ [CHR 0x09] @ ''result[static_cast<int>('' @ languageEnum opts @ ''::)] = ''
          @ (if useCompileMacro opts then ''FMT_COMPILE('' @ [CHR 0x22] @ string_of (snd v) ''processed'' @ [CHR 0x22] @ '')''
          else [CHR 0x22] @ string_of (snd v) ''processed'' @ [CHR 0x22])
          @ '';\<newline>'')
                     out)"
proof -
  have fb: "formatBlock cmt n lc uniqueName =
            ''// '' @ [CHR 0x22] @ cmt @ [CHR 0x22] @ ''\<newline>''
            @ ''class \<newline>'' @ [CHR 0x09] @ '': public internal::ChatMessageBase\<newline>''
            @ ''{\<newline>''
            @ [CHR 0x09] @ ''static constexpr auto generateContent = []\<newline>'' @ [CHR 0x09] @ ''{\<newline>''
            @ [CHR 0x09] @ [CHR 0x09] @ ''std::array<std::string_view, '' @ to_string n @ ''> result;\<newline>''
            @ lc
            @ [CHR 0x09] @ [CHR 0x09] @ ''return result;\<newline>''
            @ [CHR 0x09] @ ''};\<newline>''
            @ ''public:\<newline>''
            @ [CHR 0x09] @ ''static constexpr auto text = generateContent();\<newline>''
            @ ''} inline constexpr '' @ uniqueName @ '';\<newline>\<newline>''"
    for cmt n lc uniqueName
    by (simp add: formatBlock_def TAB_def DQ_def)
  have al: "assignment opts lg =
            (\<lambda>(i, k, mc).
          [CHR 0x09] @ [CHR 0x09] @ ''result['' @ (if languageEnum opts = [] then to_string i
          else ''static_cast<int>('' @ languageEnum opts @ ''::''
                 @ (case lg k of Some name \<Rightarrow> name | None \<Rightarrow> []) @ '')'')
          @ ''] = '' @ (if useCompileMacro opts then ''FMT_COMPILE('' @ [CHR 0x22] @ string_of mc ''processed'' @ [CHR 0x22] @ '')''
          else [CHR 0x22] @ string_of mc ''processed'' @ [CHR 0x22])
          @ '';\<newline>'')"
    by (rule ext)
       (simp add: assignment_def index_expr_def literal_def name_of_def TAB_def DQ_def
          split_def)
  have mb: "messageBlock opts lg val =
            ''// '' @ [CHR 0x22] @ first_nonempty_comment (variants_of val) @ [CHR 0x22] @ ''\<newline>''
            @ ''class \<newline>'' @ [CHR 0x09] @ '': public internal::ChatMessageBase\<newline>''
            @ ''{\<newline>''
            @ [CHR 0x09] @ ''static constexpr auto generateContent = []\<newline>'' @ [CHR 0x09] @ ''{\<newline>''
            @ [CHR 0x09] @ [CHR 0x09] @ ''std::array<std::string_view, '' @ to_string (length (variants_of val)) @ ''> result;\<newline>''
            @ (concat (map (\<lambda>(i, k, mc).
          [CHR 0x09] @ [CHR 0x09] @ ''result['' @ (if languageEnum opts = [] then to_string i
          else ''static_cast<int>('' @ languageEnum opts @ ''::''
                 @ (case lg k of Some name \<Rightarrow> name | None \<Rightarrow> []) @ '')'')
          @ ''] = '' @ (if useCompileMacro opts then ''FMT_COMPILE('' @ [CHR 0x22] @ string_of mc ''processed'' @ [CHR 0x22] @ '')''
          else [CHR 0x22] @ string_of mc ''processed'' @ [CHR 0x22])
          @ '';\<newline>'')
        (enumerate 0 (variants_of val))))
            @ [CHR 0x09] @ [CHR 0x09] @ ''return result;\<newline>''
            @ [CHR 0x09] @ ''};\<newline>''
            @ ''public:\<newline>''
            @ [CHR 0x09] @ ''static constexpr auto text = generateContent();\<newline>''
            @ ''} inline constexpr '' @ string_of val ''uniqueName'' @ '';\<newline>\<newline>''"
    for val
    by (simp only: messageBlock_def fb al)
  have mbf: "messageBlock opts lg =
            (\<lambda>val.
            ''// '' @ [CHR 0x22] @ first_nonempty_comment (variants_of val) @ [CHR 0x22] @ ''\<newline>''
            @ ''class \<newline>'' @ [CHR 0x09] @ '': public internal::ChatMessageBase\<newline>''
            @ ''{\<newline>''
            @ [CHR 0x09] @ ''static constexpr auto generateContent = []\<newline>'' @ [CHR 0x09] @ ''{\<newline>''
            @ [CHR 0x09] @ [CHR 0x09] @ ''std::array<std::string_view, '' @ to_string (length (variants_of val)) @ ''> result;\<newline>''
            @ (concat (map (\<lambda>(i, k, mc).
          [CHR 0x09] @ [CHR 0x09] @ ''result['' @ (if languageEnum opts = [] then to_string i
          else ''static_cast<int>('' @ languageEnum opts @ ''::''
                 @ (case lg k of Some name \<Rightarrow> name | None \<Rightarrow> []) @ '')'')
          @ ''] = '' @ (if useCompileMacro opts then ''FMT_COMPILE('' @ [CHR 0x22] @ string_of mc ''processed'' @ [CHR 0x22] @ '')''
          else [CHR 0x22] @ string_of mc ''processed'' @ [CHR 0x22])
          @ '';\<newline>'')
        (enumerate 0 (variants_of val))))
            @ [CHR 0x09] @ [CHR 0x09] @ ''return result;\<newline>''
            @ [CHR 0x09] @ ''};\<newline>''
            @ ''public:\<newline>''
            @ [CHR 0x09] @ ''static constexpr auto text = generateContent();\<newline>''
            @ ''} inline constexpr '' @ string_of val ''uniqueName'' @ '';\<newline>\<newline>'')"
    by (rule ext) (rule mb)
  have ao: "assembleOutput opts cc =
             (if usePragmaOnce opts then ''#pragma once\<newline>\<newline>'' else [])
             @ (if pch opts \<noteq> [] then ''#include '' @ pch opts @ ''\<newline>'' else [])
             @ concat (map (\<lambda>headerFile. ''#include '' @ headerFile @ ''\<newline>'')
                         (headerFiles opts))
             @ ''\<newline>\<newline>''
             @ (if ns opts \<noteq> [] then ''namespace '' @ ns opts @ ''\<newline>{\<newline>\<newline>'' else [])
             @ ''namespace internal {\<newline>struct ChatMessageBase {};\<newline>}\<newline>\<newline>''
             @ cc
             @ (if ns opts \<noteq> [] then ''\<newline>}\<newline>'' else [])"
    for cc
    by (simp add: assembleOutput_def Let_def appendHeaderFiles_eq)
  have absent: "assignment opts lg (i, v) =
          [CHR 0x09] @ [CHR 0x09] @ ''result[static_cast<int>('' @ languageEnum opts @ ''::)] = ''
          @ (if useCompileMacro opts then ''FMT_COMPILE('' @ [CHR 0x22] @ string_of (snd v) ''processed'' @ [CHR 0x22] @ '')''
          else [CHR 0x22] @ string_of (snd v) ''processed'' @ [CHR 0x22])
          @ '';\<newline>''"
    if "lg (fst v) = None" for i v
    using assms(1) that
    by (simp add: assignment_def index_expr_def literal_def name_of_def TAB_def DQ_def)
  let ?msgs = "filter is_message entries"
  let ?out = "assembleOutput opts (concat (map (messageBlock opts lg) ?msgs))"
  from renderMessages_success [OF assms(5), of opts lg "[]"]
  obtain lg' cc where "renderMessages opts (lg, []) entries = Inr (lg', cc)"
    by auto
  then have "chatContentOf opts j = Inr (lg', cc)"
    by (simp add: chatContentOf_eq [OF assms(2,3,4)])
  then have "parseChatJson opts j = Inr (assembleOutput opts cc)"
    by (rule parseChatJson_Inr)
  then obtain out where p: "parseChatJson opts j = Inr out" ..
  have step: "comment st' = (if comment st = [] then string_of (snd v) ''comment''
                       else comment st)
        \<and> langContent st'
            = langContent st @ assignment opts (langs st) (langIndex st, v)
        \<and> langIndex st' = Suc (langIndex st)
        \<and> name_of (langs st') = name_of (langs st)"
    if "renderVariant opts st v = Inr st'" for st v st'
    using that
    by (auto simp: renderVariant_def Let_def assignment_def index_expr_def literal_def
          string_of_def dest!: lang_subscript_pair elim!: get_string.elims
          split: sum.splits if_splits prod.splits)
  from parseChatJson_by_step [OF step p] assms(3) chatMessages_of_eq [OF assms(4)]
  have o: "out = ?out" by auto
  have t: "?out =
             (if usePragmaOnce opts then ''#pragma once\<newline>\<newline>'' else [])
             @ (if pch opts \<noteq> [] then ''#include '' @ pch opts @ ''\<newline>'' else [])
             @ concat (map (\<lambda>headerFile. ''#include '' @ headerFile @ ''\<newline>'')
                         (headerFiles opts))
             @ ''\<newline>\<newline>''
             @ (if ns opts \<noteq> [] then ''namespace '' @ ns opts @ ''\<newline>{\<newline>\<newline>'' else [])
             @ ''namespace internal {\<newline>struct ChatMessageBase {};\<newline>}\<newline>\<newline>''
             @ concat (map (\<lambda>val.
                ''// '' @ [CHR 0x22] @ first_nonempty_comment (variants_of val) @ [CHR 0x22] @ ''\<newline>''
                @ ''class \<newline>'' @ [CHR 0x09] @ '': public internal::ChatMessageBase\<newline>''
                @ ''{\<newline>''
                @ [CHR 0x09] @ ''static constexpr auto generateContent = []\<newline>'' @ [CHR 0x09] @ ''{\<newline>''
                @ [CHR 0x09] @ [CHR 0x09] @ ''std::array<std::string_view, '' @ to_string (length (variants_of val)) @ ''> result;\<newline>''
                @ (concat (map (\<lambda>(i, k, mc).
          [CHR 0x09] @ [CHR 0x09] @ ''result['' @ ''static_cast<int>('' @ languageEnum opts @ ''::''
                 @ (case lg k of Some name \<Rightarrow> name | None \<Rightarrow> []) @ '')''
          @ ''] = '' @ (if useCompileMacro opts then ''FMT_COMPILE('' @ [CHR 0x22] @ string_of mc ''processed'' @ [CHR 0x22] @ '')''
          else [CHR 0x22] @ string_of mc ''processed'' @ [CHR 0x22])
          @ '';\<newline>'')
        (enumerate 0 (variants_of val))))
                @ [CHR 0x09] @ [CHR 0x09] @ ''return result;\<newline>''
                @ [CHR 0x09] @ ''};\<newline>''
                @ ''public:\<newline>''
                @ [CHR 0x09] @ ''static constexpr auto text = generateContent();\<newline>''
                @ ''} inline constexpr '' @ string_of val ''uniqueName'' @ '';\<newline>\<newline>'')
                (filter is_message entries))
             @ (if ns opts \<noteq> [] then ''\<newline>}\<newline>'' else [])"
    unfolding ao mbf enum_lines [OF assms(1)] ..
  have s: "\<forall>val \<in> set ?msgs.
                 \<forall>v \<in> set (variants_of val).
                   lg (fst v) = None \<longrightarrow>
                   sublist
                     ([CHR 0x09] @ [CHR 0x09] @ ''result[static_cast<int>('' @ languageEnum opts @ ''::)] = ''
          @ (if useCompileMacro opts then ''FMT_COMPILE('' @ [CHR 0x22] @ string_of (snd v) ''processed'' @ [CHR 0x22] @ '')''
          else [CHR 0x22] @ string_of (snd v) ''processed'' @ [CHR 0x22])
          @ '';\<newline>'')
                     ?out"
  proof (intro ballI impI)
    fix val v
    assume "val \<in> set ?msgs" and "v \<in> set (variants_of val)" and a: "lg (fst v) = None"
    then obtain i where "sublist (assignment opts lg (i, v)) ?out"
      using assignment_in_output by blast
    then show "sublist
                     ([CHR 0x09] @ [CHR 0x09] @ ''result[static_cast<int>('' @ languageEnum opts @ ''::)] = ''
          @ (if useCompileMacro opts then ''FMT_COMPILE('' @ [CHR 0x22] @ string_of (snd v) ''processed'' @ [CHR 0x22] @ '')''
          else [CHR 0x22] @ string_of (snd v) ''processed'' @ [CHR 0x22])
          @ '';\<newline>'')
                     ?out"
      unfolding absent [OF a] .
  qed
  show ?thesis
    by (rule exI [of _ out]) (intro conjI p t [folded o] s [folded o])
qed

theorem absent_language_renders_empty_name_witness:
  "languageEnum enum_options = ''Lang''
   \<and> json_type example_document = t_object
   \<and> buildLanguages example_document = Inr example_table
   \<and> find_key example_document ''chatMessages'' = Some (JArray example_entries)
   \<and> filter is_message example_entries = [two_languages, no_variants]
   \<and> (''de'', JObject [(''comment'', JString ''a''), (''processed'', JString ''Hallo'')]) \<in> set (variants_of two_languages)
   \<and> example_table ''de'' = None
   \<and> parseChatJson enum_options example_document
       = Inr (''#pragma once\<newline>''
            @ ''\<newline>''
            @ ''\<newline>''
            @ ''\<newline>''
            @ ''namespace internal {\<newline>''
            @ ''struct ChatMessageBase {};\<newline>''
            @ ''}\<newline>''
            @ ''\<newline>''
            @ ''// '' @ [CHR 0x22] @ ''a'' @ [CHR 0x22] @ ''\<newline>''
            @ ''class \<newline>''
            @ [CHR 0x09] @ '': public internal::ChatMessageBase\<newline>''
            @ ''{\<newline>''
            @ [CHR 0x09] @ ''static constexpr auto generateContent = []\<newline>''
            @ [CHR 0x09] @ ''{\<newline>''
            @ [CHR 0x09] @ [CHR 0x09] @ ''std::array<std::string_view, 2> result;\<newline>''
            @ [CHR 0x09] @ [CHR 0x09] @ ''result[static_cast<int>(Lang::)] = FMT_COMPILE('' @ [CHR 0x22] @ ''Hallo'' @ [CHR 0x22] @ '');\<newline>''
            @ [CHR 0x09] @ [CHR 0x09] @ ''result[static_cast<int>(Lang::English)] = FMT_COMPILE('' @ [CHR 0x22] @ ''Hi'' @ [CHR 0x22] @ '');\<newline>''
            @ [CHR 0x09] @ [CHR 0x09] @ ''return result;\<newline>''
            @ [CHR 0x09] @ ''};\<newline>''
            @ ''public:\<newline>''
            @ [CHR 0x09] @ ''static constexpr auto text = generateContent();\<newline>''
            @ ''} inline constexpr Greeting;\<newline>''
            @ ''\<newline>''
            @ ''// '' @ [CHR 0x22] @ [CHR 0x22] @ ''\<newline>''
            @ ''class \<newline>''
            @ [CHR 0x09] @ '': public internal::ChatMessageBase\<newline>''
            @ ''{\<newline>''
            @ [CHR 0x09] @ ''static constexpr auto generateContent = []\<newline>''
            @ [CHR 0x09] @ ''{\<newline>''
            @ [CHR 0x09] @ [CHR 0x09] @ ''std::array<std::string_view, 0> result;\<newline>''
            @ [CHR 0x09] @ [CHR 0x09] @ ''return result;\<newline>''
            @ [CHR 0x09] @ ''};\<newline>''
            @ ''public:\<newline>''
            @ [CHR 0x09] @ ''static constexpr auto text = generateContent();\<newline>''
            @ ''} inline constexpr Silent;\<newline>''
            @ ''\<newline>'')
   \<and> sublist
         ([CHR 0x09] @ [CHR 0x09] @ ''result[static_cast<int>(Lang::)] = FMT_COMPILE('' @ [CHR 0x22] @ ''Hallo'' @ [CHR 0x22] @ '');\<newline>'')
         (''#pragma once\<newline>''
            @ ''\<newline>''
            @ ''\<newline>''
            @ ''\<newline>''
            @ ''namespace internal {\<newline>''
            @ ''struct ChatMessageBase {};\<newline>''
            @ ''}\<newline>''
            @ ''\<newline>''
            @ ''// '' @ [CHR 0x22] @ ''a'' @ [CHR 0x22] @ ''\<newline>''
            @ ''class \<newline>''
            @ [CHR 0x09] @ '': public internal::ChatMessageBase\<newline>''
            @ ''{\<newline>''
            @ [CHR 0x09] @ ''static constexpr auto generateContent = []\<newline>''
            @ [CHR 0x09] @ ''{\<newline>''
            @ [CHR 0x09] @ [CHR 0x09] @ ''std::array<std::string_view, 2> result;\<newline>''
            @ [CHR 0x09] @ [CHR 0x09] @ ''result[static_cast<int>(Lang::)] = FMT_COMPILE('' @ [CHR 0x22] @ ''Hallo'' @ [CHR 0x22] @ '');\<newline>''
            @ [CHR 0x09] @ [CHR 0x09] @ ''result[static_cast<int>(Lang::English)] = FMT_COMPILE('' @ [CHR 0x22] @ ''Hi'' @ [CHR 0x22] @ '');\<newline>''
            @ [CHR 0x09] @ [CHR 0x09] @ ''return result;\<newline>''
            @ [CHR 0x09] @ ''};\<newline>''
            @ ''public:\<newline>''
            @ [CHR 0x09] @ ''static constexpr auto text = generateContent();\<newline>''
            @ ''} inline constexpr Greeting;\<newline>''
            @ ''\<newline>''
            @ ''// '' @ [CHR 0x22] @ [CHR 0x22] @ ''\<newline>''
            @ ''class \<newline>''
            @ [CHR 0x09] @ '': public internal::ChatMessageBase\<newline>''
            @ ''{\<newline>''
            @ [CHR 0x09] @ ''static constexpr auto generateContent = []\<newline>''
            @ [CHR 0x09] @ ''{\<newline>''
            @ [CHR 0x09] @ [CHR 0x09] @ ''std::array<std::string_view, 0> result;\<newline>''
            @ [CHR 0x09] @ [CHR 0x09] @ ''return result;\<newline>''
            @ [CHR 0x09] @ ''};\<newline>''
            @ ''public:\<newline>''
            @ [CHR 0x09] @ ''static constexpr auto text = generateContent();\<newline>''
            @ ''} inline constexpr Silent;\<newline>''
            @ ''\<newline>'')"
proof -
  have ev: "parseChatJson enum_options example_document
       = Inr (''#pragma once\<newline>''
            @ ''\<newline>''
            @ ''\<newline>''
            @ ''\<newline>''
            @ ''namespace internal {\<newline>''
            @ ''struct ChatMessageBase {};\<newline>''
            @ ''}\<newline>''
            @ ''\<newline>''
            @ ''// '' @ [CHR 0x22] @ ''a'' @ [CHR 0x22] @ ''\<newline>''
            @ ''class \<newline>''
            @ [CHR 0x09] @ '': public internal::ChatMessageBase\<newline>''
            @ ''{\<newline>''
            @ [CHR 0x09] @ ''static constexpr auto generateContent = []\<newline>''
            @ [CHR 0x09] @ ''{\<newline>''
            @ [CHR 0x09] @ [CHR 0x09] @ ''std::array<std::string_view, 2> result;\<newline>''
            @ [CHR 0x09] @ [CHR 0x09] @ ''result[static_cast<int>(Lang::)] = FMT_COMPILE('' @ [CHR 0x22] @ ''Hallo'' @ [CHR 0x22] @ '');\<newline>''
            @ [CHR 0x09] @ [CHR 0x09] @ ''result[static_cast<int>(Lang::English)] = FMT_COMPILE('' @ [CHR 0x22] @ ''Hi'' @ [CHR 0x22] @ '');\<newline>''
            @ [CHR 0x09] @ [CHR 0x09] @ ''return result;\<newline>''
            @ [CHR 0x09] @ ''};\<newline>''
            @ ''public:\<newline>''
            @ [CHR 0x09] @ ''static constexpr auto text = generateContent();\<newline>''
            @ ''} inline constexpr Greeting;\<newline>''
            @ ''\<newline>''
            @ ''// '' @ [CHR 0x22] @ [CHR 0x22] @ ''\<newline>''
            @ ''class \<newline>''
            @ [CHR 0x09] @ '': public internal::ChatMessageBase\<newline>''
            @ ''{\<newline>''
            @ [CHR 0x09] @ ''static constexpr auto generateContent = []\<newline>''
            @ [CHR 0x09] @ ''{\<newline>''
            @ [CHR 0x09] @ [CHR 0x09] @ ''std::array<std::string_view, 0> result;\<newline>''
            @ [CHR 0x09] @ [CHR 0x09] @ ''return result;\<newline>''
            @ [CHR 0x09] @ ''};\<newline>''
            @ ''public:\<newline>''
            @ [CHR 0x09] @ ''static constexpr auto text = generateContent();\<newline>''
            @ ''} inline constexpr Silent;\<newline>''
            @ ''\<newline>'')"
    by (simp add: enum_options_def defaultAppOptions_def
          parseChatJson_def chatContentOf_def buildLanguages_def readChatMessages_def
          example_document_def example_entries_def two_languages_def no_variants_def
          contains_def renderMessage_def renderVariant_def lang_subscript_def
          assembleOutput_def formatBlock_def TAB_def DQ_def Let_def to_string.simps)
  have ne: "languageEnum enum_options \<noteq> []" by (simp add: enum_options_def)
  have absent: "example_table (fst (''de'', JObject [(''comment'', JString ''a''), (''processed'', JString ''Hallo'')])) = None"
    by (simp add: example_table_def)
  have v: "(''de'', JObject [(''comment'', JString ''a''), (''processed'', JString ''Hallo'')]) \<in> set (variants_of two_languages)"
    by (simp add: two_languages_variants)
  have m: "two_languages \<in> set (filter is_message example_entries)"
    by (simp add: example_entries_messages)
  from absent_language_renders_empty_name
         [OF ne example_document_type example_document_languages example_document_messages
             example_entries_wellformed]
  obtain out where p: "parseChatJson enum_options example_document = Inr out"
    and s: "\<forall>val \<in> set (filter is_message example_entries).
                 \<forall>v \<in> set (variants_of val).
                   example_table (fst v) = None \<longrightarrow>
                   sublist
                     ([CHR 0x09] @ [CHR 0x09] @ ''result[static_cast<int>('' @ languageEnum enum_options @ ''::)] = ''
          @ (if useCompileMacro enum_options then ''FMT_COMPILE('' @ [CHR 0x22] @ string_of (snd v) ''processed'' @ [CHR 0x22] @ '')''
          else [CHR 0x22] @ string_of (snd v) ''processed'' @ [CHR 0x22])
          @ '';\<newline>'')
                     out"
    by blast
  from p ev
  have o: "out = ''#pragma once\<newline>''
            @ ''\<newline>''
            @ ''\<newline>''
            @ ''\<newline>''
            @ ''namespace internal {\<newline>''
            @ ''struct ChatMessageBase {};\<newline>''
            @ ''}\<newline>''
            @ ''\<newline>''
            @ ''// '' @ [CHR 0x22] @ ''a'' @ [CHR 0x22] @ ''\<newline>''
            @ ''class \<newline>''
            @ [CHR 0x09] @ '': public internal::ChatMessageBase\<newline>''
            @ ''{\<newline>''
            @ [CHR 0x09] @ ''static constexpr auto generateContent = []\<newline>''
            @ [CHR 0x09] @ ''{\<newline>''
            @ [CHR 0x09] @ [CHR 0x09] @ ''std::array<std::string_view, 2> result;\<newline>''
            @ [CHR 0x09] @ [CHR 0x09] @ ''result[static_cast<int>(Lang::)] = FMT_COMPILE('' @ [CHR 0x22] @ ''Hallo'' @ [CHR 0x22] @ '');\<newline>''
            @ [CHR 0x09] @ [CHR 0x09] @ ''result[static_cast<int>(Lang::English)] = FMT_COMPILE('' @ [CHR 0x22] @ ''Hi'' @ [CHR 0x22] @ '');\<newline>''
            @ [CHR 0x09] @ [CHR 0x09] @ ''return result;\<newline>''
            @ [CHR 0x09] @ ''};\<newline>''
            @ ''public:\<newline>''
            @ [CHR 0x09] @ ''static constexpr auto text = generateContent();\<newline>''
            @ ''} inline constexpr Greeting;\<newline>''
            @ ''\<newline>''
            @ ''// '' @ [CHR 0x22] @ [CHR 0x22] @ ''\<newline>''
            @ ''class \<newline>''
            @ [CHR 0x09] @ '': public internal::ChatMessageBase\<newline>''
            @ ''{\<newline>''
            @ [CHR 0x09] @ ''static constexpr auto generateContent = []\<newline>''
            @ [CHR 0x09] @ ''{\<newline>''
            @ [CHR 0x09] @ [CHR 0x09] @ ''std::array<std::string_view, 0> result;\<newline>''
            @ [CHR 0x09] @ [CHR 0x09] @ ''return result;\<newline>''
            @ [CHR 0x09] @ ''};\<newline>''
            @ ''public:\<newline>''
            @ [CHR 0x09] @ ''static constexpr auto text = generateContent();\<newline>''
            @ ''} inline constexpr Silent;\<newline>''
            @ ''\<newline>''"
    by simp
  from s m v absent
  have "sublist
          ([CHR 0x09] @ [CHR 0x09] @ ''result[static_cast<int>('' @ languageEnum enum_options @ ''::)] = ''
          @ (if useCompileMacro enum_options then ''FMT_COMPILE('' @ [CHR 0x22] @ string_of (snd (''de'', JObject [(''comment'', JString ''a''), (''processed'', JString ''Hallo'')])) ''processed'' @ [CHR 0x22] @ '')''
          else [CHR 0x22] @ string_of (snd (''de'', JObject [(''comment'', JString ''a''), (''processed'', JString ''Hallo'')])) ''processed'' @ [CHR 0x22])
          @ '';\<newline>'')
          out"
    by blast
  then have "sublist
         ([CHR 0x09] @ [CHR 0x09] @ ''result[static_cast<int>(Lang::)] = FMT_COMPILE('' @ [CHR 0x22] @ ''Hallo'' @ [CHR 0x22] @ '');\<newline>'')
         (''#pragma once\<newline>''
            @ ''\<newline>''
            @ ''\<newline>''
            @ ''\<newline>''
            @ ''namespace internal {\<newline>''
            @ ''struct ChatMessageBase {};\<newline>''
            @ ''}\<newline>''
            @ ''\<newline>''
            @ ''// '' @ [CHR 0x22] @ ''a'' @ [CHR 0x22] @ ''\<newline>''
            @ ''class \<newline>''
            @ [CHR 0x09] @ '': public internal::ChatMessageBase\<newline>''
            @ ''{\<newline>''
            @ [CHR 0x09] @ ''static constexpr auto generateContent = []\<newline>''
            @ [CHR 0x09] @ ''{\<newline>''
            @ [CHR 0x09] @ [CHR 0x09] @ ''std::array<std::string_view, 2> result;\<newline>''
            @ [CHR 0x09] @ [CHR 0x09] @ ''result[static_cast<int>(Lang::)] = FMT_COMPILE('' @ [CHR 0x22] @ ''Hallo'' @ [CHR 0x22] @ '');\<newline>''
            @ [CHR 0x09] @ [CHR 0x09] @ ''result[static_cast<int>(Lang::English)] = FMT_COMPILE('' @ [CHR 0x22] @ ''Hi'' @ [CHR 0x22] @ '');\<newline>''
            @ [CHR 0x09] @ [CHR 0x09] @ ''return result;\<newline>''
            @ [CHR 0x09] @ ''};\<newline>''
            @ ''public:\<newline>''
            @ [CHR 0x09] @ ''static constexpr auto text = generateContent();\<newline>''
            @ ''} inline constexpr Greeting;\<newline>''
            @ ''\<newline>''
            @ ''// '' @ [CHR 0x22] @ [CHR 0x22] @ ''\<newline>''
            @ ''class \<newline>''
            @ [CHR 0x09] @ '': public internal::ChatMessageBase\<newline>''
            @ ''{\<newline>''
            @ [CHR 0x09] @ ''static constexpr auto generateContent = []\<newline>''
            @ [CHR 0x09] @ ''{\<newline>''
            @ [CHR 0x09] @ [CHR 0x09] @ ''std::array<std::string_view, 0> result;\<newline>''
            @ [CHR 0x09] @ [CHR 0x09] @ ''return result;\<newline>''
            @ [CHR 0x09] @ ''};\<newline>''
            @ ''public:\<newline>''
            @ [CHR 0x09] @ ''static constexpr auto text = generateContent();\<newline>''
            @ ''} inline constexpr Silent;\<newline>''
            @ ''\<newline>'')"
    unfolding o by (simp add: enum_options_simps literal_def string_of_def)
  with absent v ev show ?thesis
    by (simp add: enum_options_languageEnum example_document_type example_document_languages
          example_document_messages example_entries_messages)
qed

section \<open>The macro around the literals in the output\<close>





section \<open>Options of the wrong type\<close>

text \<open>
  Claim C7 says that a recognised field of the wrong type makes the loader fail with
  the error that names that field. The loader checks the fields one after the other
  and stops at the first failure: with a number for \<open>pch\<close> and a string for
  \<open>useCompileMacro\<close>, the error names \<open>useCompileMacro\<close>, which is checked first, and
  not \<open>pch\<close>.
\<close>

theorem later_mismatch_not_named_counterexample:
  "find_key two_mismatches ''pch'' = Some (JNumberInteger 1)
   \<and> json_type (JNumberInteger 1) \<noteq> t_string
   \<and> readAppOptions defaultAppOptions two_mismatches
       = Inl (runtime_error
              (''Could not parse options file - '' @ [CHR 0x22] @ ''useCompileMacro'' @ [CHR 0x22]
                @ '' value is not a boolean.''))
   \<and> runtime_error
              (''Could not parse options file - '' @ [CHR 0x22] @ ''useCompileMacro'' @ [CHR 0x22]
                @ '' value is not a boolean.'')
       \<noteq> runtime_error
              (''Could not parse options file - '' @ [CHR 0x22] @ ''pch'' @ [CHR 0x22]
                @ '' value is not a string.'')"
  by (simp add: two_mismatches_def readAppOptions_def read_bool_option_def contains_def
        option_type_message_def DQ_def)

text \<open>
  Claim C7, amended. When a field that the loader recognises is in the options document
  with another JSON type than the expected one, the loader fails with the type message
  that names the first field of the wrong type in the order of its checks
  (\<open>useCompileMacro\<close>, \<open>usePragmaOnce\<close>, \<open>languageEnum\<close>, \<open>pch\<close>, \<open>namespace\<close>,
  \<open>chatMessageType\<close>, \<open>headerFiles\<close>), which is that field when it is the only one of
  the wrong type. The run stops with this error and renders nothing. After a load
  without failure, a field that is not in the document has the value it had before, the
  default.
\<close>

theorem options_type_mismatch_aborts:
  "(json_type j = t_object \<and> g \<in> set option_fields \<and> mismatched j g \<longrightarrow>
      (\<exists>f. find (mismatched j) option_fields = Some f
           \<and> f \<in> set option_fields \<and> mismatched j f
           \<and> readAppOptions opts j
               = Inl (runtime_error
                   (''Could not parse options file - '' @ [CHR 0x22] @ fst f @ [CHR 0x22]
                @ (if snd f = t_array then '' field not exists or is not an array.''
                   else '' value is not a ''
                     @ (if snd f = t_boolean then ''boolean'' else ''string'') @ ''.'')))
           \<and> run j content
               = Inl (runtime_error
                   (''Could not parse options file - '' @ [CHR 0x22] @ fst f @ [CHR 0x22]
                @ (if snd f = t_array then '' field not exists or is not an array.''
                   else '' value is not a ''
                     @ (if snd f = t_boolean then ''boolean'' else ''string'') @ ''.'')))
           \<and> ((\<forall>h \<in> set option_fields. mismatched j h \<longrightarrow> h = g) \<longrightarrow> f = g)))
   \<and> (readAppOptions opts j = Inr opts' \<longrightarrow>
        (find_key j ''useCompileMacro'' = None \<longrightarrow> useCompileMacro opts' = useCompileMacro opts)
      \<and> (find_key j ''usePragmaOnce'' = None \<longrightarrow> usePragmaOnce opts' = usePragmaOnce opts)
      \<and> (find_key j ''languageEnum'' = None \<longrightarrow> languageEnum opts' = languageEnum opts)
      \<and> (find_key j ''pch'' = None \<longrightarrow> pch opts' = pch opts)
      \<and> (find_key j ''namespace'' = None \<longrightarrow> ns opts' = ns opts)
      \<and> (find_key j ''chatMessageType'' = None
           \<longrightarrow> chatMessageType opts' = chatMessageType opts)
      \<and> (find_key j ''headerFiles'' = None \<longrightarrow> headerFiles opts' = headerFiles opts))"
proof (rule conjI; rule impI)
  assume a: "json_type j = t_object \<and> g \<in> set option_fields \<and> mismatched j g"
  then have obj: "json_type j = t_object" by simp
  from a find_mismatched_exists [of g option_fields "mismatched j"]
  obtain f where f: "find (mismatched j) option_fields = Some f"
      and m: "f \<in> set option_fields" "mismatched j f"
    by blast
  from m(1) have mt: "mismatch_message f =
           ''Could not parse options file - '' @ [CHR 0x22] @ fst f @ [CHR 0x22]
                @ (if snd f = t_array then '' field not exists or is not an array.''
                   else '' value is not a ''
                     @ (if snd f = t_boolean then ''boolean'' else ''string'') @ ''.'')"
    by (auto simp: option_fields_def mismatch_message_def option_type_message_def
          headerFiles_message_def DQ_def)
  have r: "readAppOptions opts j
               = Inl (runtime_error
                   (''Could not parse options file - '' @ [CHR 0x22] @ fst f @ [CHR 0x22]
                @ (if snd f = t_array then '' field not exists or is not an array.''
                   else '' value is not a ''
                     @ (if snd f = t_boolean then ''boolean'' else ''string'') @ ''.'')))" for opts
    by (simp only: readAppOptions_eq [OF obj] f option.case mt)
  have "run j content
               = Inl (runtime_error
                   (''Could not parse options file - '' @ [CHR 0x22] @ fst f @ [CHR 0x22]
                @ (if snd f = t_array then '' field not exists or is not an array.''
                   else '' value is not a ''
                     @ (if snd f = t_boolean then ''boolean'' else ''string'') @ ''.'')))"
    unfolding run_def r by simp
  moreover have "(\<forall>h \<in> set option_fields. mismatched j h \<longrightarrow> h = g) \<longrightarrow> f = g"
    using find_mismatched_only [OF f] a by blast
  ultimately
  show "\<exists>f. find (mismatched j) option_fields = Some f
           \<and> f \<in> set option_fields \<and> mismatched j f
           \<and> readAppOptions opts j
               = Inl (runtime_error
                   (''Could not parse options file - '' @ [CHR 0x22] @ fst f @ [CHR 0x22]
                @ (if snd f = t_array then '' field not exists or is not an array.''
                   else '' value is not a ''
                     @ (if snd f = t_boolean then ''boolean'' else ''string'') @ ''.'')))
           \<and> run j content
               = Inl (runtime_error
                   (''Could not parse options file - '' @ [CHR 0x22] @ fst f @ [CHR 0x22]
                @ (if snd f = t_array then '' field not exists or is not an array.''
                   else '' value is not a ''
                     @ (if snd f = t_boolean then ''boolean'' else ''string'') @ ''.'')))
           \<and> ((\<forall>h \<in> set option_fields. mismatched j h \<longrightarrow> h = g) \<longrightarrow> f = g)"
    using f m r by (intro exI [of _ f] conjI)
next
  assume "readAppOptions opts j = Inr opts'"
  then show "(find_key j ''useCompileMacro'' = None \<longrightarrow> useCompileMacro opts' = useCompileMacro opts)
      \<and> (find_key j ''usePragmaOnce'' = None \<longrightarrow> usePragmaOnce opts' = usePragmaOnce opts)
      \<and> (find_key j ''languageEnum'' = None \<longrightarrow> languageEnum opts' = languageEnum opts)
      \<and> (find_key j ''pch'' = None \<longrightarrow> pch opts' = pch opts)
      \<and> (find_key j ''namespace'' = None \<longrightarrow> ns opts' = ns opts)
      \<and> (find_key j ''chatMessageType'' = None
           \<longrightarrow> chatMessageType opts' = chatMessageType opts)
      \<and> (find_key j ''headerFiles'' = None \<longrightarrow> headerFiles opts' = headerFiles opts)"
    by (rule readAppOptions_absent_kept)
qed

theorem options_type_mismatch_aborts_witness:
  "json_type malformed_options = t_object
   \<and> (''useCompileMacro'', t_boolean) \<in> set option_fields
   \<and> mismatched malformed_options (''useCompileMacro'', t_boolean)
   \<and> readAppOptions defaultAppOptions malformed_options
       = Inl (runtime_error
              (''Could not parse options file - '' @ [CHR 0x22] @ ''useCompileMacro'' @ [CHR 0x22]
                @ '' value is not a boolean.''))
   \<and> run malformed_options example_document
       = Inl (runtime_error
              (''Could not parse options file - '' @ [CHR 0x22] @ ''useCompileMacro'' @ [CHR 0x22]
                @ '' value is not a boolean.''))
   \<and> readAppOptions defaultAppOptions options_document = Inr example_options
   \<and> find_key options_document ''useCompileMacro'' = None
   \<and> useCompileMacro example_options = useCompileMacro defaultAppOptions"
proof -
  let ?g = "(''useCompileMacro'', t_boolean)"
  have ev: "readAppOptions defaultAppOptions malformed_options
          = Inl (runtime_error
              (''Could not parse options file - '' @ [CHR 0x22] @ ''useCompileMacro'' @ [CHR 0x22]
                @ '' value is not a boolean.''))"
    by (simp add: malformed_options_def readAppOptions_def read_bool_option_def contains_def
          option_type_message_def DQ_def)
  have obj: "json_type malformed_options = t_object" by (simp add: malformed_options_def)
  have g: "?g \<in> set option_fields" by (simp add: option_fields_def)
  have m: "mismatched malformed_options ?g"
    by (simp add: mismatched_def malformed_options_def)
  have only: "\<forall>h \<in> set option_fields. mismatched malformed_options h \<longrightarrow> h = ?g"
    by (simp add: option_fields_def mismatched_def malformed_options_def)
  from options_type_mismatch_aborts
         [where j = malformed_options and g = ?g and opts = defaultAppOptions
            and content = example_document]
    obj g m only
  have "run malformed_options example_document
          = Inl (runtime_error
                   (''Could not parse options file - '' @ [CHR 0x22] @ fst ?g @ [CHR 0x22]
                @ (if snd ?g = t_array then '' field not exists or is not an array.''
                   else '' value is not a ''
                     @ (if snd ?g = t_boolean then ''boolean'' else ''string'') @ ''.'')))"
    by blast
  then have e: "run malformed_options example_document
          = Inl (runtime_error
              (''Could not parse options file - '' @ [CHR 0x22] @ ''useCompileMacro'' @ [CHR 0x22]
                @ '' value is not a boolean.''))"
    by simp
  have a: "find_key options_document ''useCompileMacro'' = None"
    by (simp add: options_document_def)
  from options_type_mismatch_aborts
         [where j = options_document and opts = defaultAppOptions and opts' = example_options]
    options_document_read a
  have k: "useCompileMacro example_options = useCompileMacro defaultAppOptions"
    by blast
  from ev e obj g m options_document_read a k show ?thesis by (intro conjI) simp_all
qed

end
